theory Spec2Isabelle
  imports Complex_Main "HOL-Library.Word"
begin

section \<open>Numbers, errors and the execution model\<close>

text \<open>
  The layer code of \<^verbatim>\<open>src/layer.cu\<close> computes on C \<^verbatim>\<open>float\<close> arrays. This development
  reads every \<^verbatim>\<open>float\<close> operation as the exact operation on the reals: rounding, overflow
  to infinity and NaN are outside the model, and \<^verbatim>\<open>std::sqrt\<close>, \<^verbatim>\<open>/\<close> are the total HOL
  functions. Array extents and indices (\<^verbatim>\<open>int\<close>, \<^verbatim>\<open>size_t\<close>) are natural numbers. The
  optimizer step counter, a C \<^verbatim>\<open>int\<close>, is a 32-bit word read as a signed number, and a
  seed, an \<^verbatim>\<open>unsigned int\<close>, is a 32-bit word.
\<close>

type_synonym float = real

datatype error = NullDeref | OutOfBounds | AssertFailed | BadParam | NonTermination | Exit int

subsection \<open>Kernel launches\<close>

text \<open>
  \<^verbatim>\<open>CUDA_1D_KERNEL_LOOP(i, n)\<close> is the grid-stride loop
  \<^verbatim>\<open>for (size_t i = blockIdx.x * blockDim.x + threadIdx.x; i < n; i += blockDim.x * gridDim.x)\<close>.
  The start index and the stride are arguments; the loop body acts on the state of the
  device arrays. The loop need not end when the stride is 0, so it returns an option.
\<close>

partial_function (option) CUDA_1D_KERNEL_LOOP ::
  "(nat \<Rightarrow> 's \<Rightarrow> 's) \<Rightarrow> nat \<Rightarrow> nat \<Rightarrow> nat \<Rightarrow> 's \<Rightarrow> 's option" where
  "CUDA_1D_KERNEL_LOOP body n stride i s =
     (if i < n then CUDA_1D_KERNEL_LOOP body n stride (i + stride) (body i s) else Some s)"

text \<open>
  A launch \<^verbatim>\<open>kernel <<< gridDim, blockDim >>> (...)\<close> runs one thread for every pair
  (block index, thread index). The threads of the kernels below write pairwise disjoint
  array elements, so the launch is modelled by running the threads one after the other,
  in the order of their global index. A launch with an empty grid or an empty block is
  rejected by the runtime and runs no thread; the source does not look at the launch
  status.
\<close>

fun run_threads :: "(nat \<Rightarrow> 's \<Rightarrow> 's option) \<Rightarrow> nat list \<Rightarrow> 's \<Rightarrow> 's option" where
  "run_threads k [] s = Some s"
| "run_threads k (t # ts) s = (case k t s of None \<Rightarrow> None | Some s' \<Rightarrow> run_threads k ts s')"

definition launch ::
  "nat \<Rightarrow> nat \<Rightarrow> (nat \<Rightarrow> nat \<Rightarrow> nat \<Rightarrow> nat \<Rightarrow> 's \<Rightarrow> 's option) \<Rightarrow> 's \<Rightarrow> 's option" where
  "launch gridDim blockDim kern s =
     (if gridDim = 0 \<or> blockDim = 0 then Some s
      else run_threads (\<lambda>tid. kern gridDim blockDim (tid div blockDim) (tid mod blockDim))
             [0..<gridDim * blockDim] s)"

subsection \<open>Optimizer kernels\<close>

text \<open>
  \<^verbatim>\<open>adam_update(N, step, m, v, w, g, beta1, beta2, eps_hat, lr)\<close>: the state is the triple
  of the arrays \<open>m\<close>, \<open>v\<close>, \<open>w\<close> the kernel writes; \<open>g\<close> is read only. The sum
  \<^verbatim>\<open>step + 1\<close> is computed in the 32-bit \<^verbatim>\<open>int\<close> of the parameter \<^verbatim>\<open>step\<close>: at the greatest
  \<^verbatim>\<open>int\<close> the addition of the device wraps around to the least one.
  \<^verbatim>\<open>std::pow(beta, step + 1)\<close> with an integer exponent is \<open>powi\<close>.
\<close>

definition adam_body ::
  "32 word \<Rightarrow> float list \<Rightarrow> float \<Rightarrow> float \<Rightarrow> float \<Rightarrow> float \<Rightarrow> nat \<Rightarrow>
   float list \<times> float list \<times> float list \<Rightarrow> float list \<times> float list \<times> float list" where
  "adam_body step g beta1 beta2 eps_hat lr i s =
     (case s of (m, v, w) \<Rightarrow>
        let m1 = m[i := m ! i * beta1 + g ! i * (1 - beta1)];
            v1 = v[i := v ! i * beta2 + g ! i * g ! i * (1 - beta2)];
            mi = m1 ! i / (1 - beta1 powi sint (step + 1));
            vi = v1 ! i / (1 - beta2 powi sint (step + 1));
            w1 = w[i := w ! i - lr * mi / (sqrt vi + eps_hat)]
        in (m1, v1, w1))"

definition adam_update ::
  "nat \<Rightarrow> 32 word \<Rightarrow> float list \<Rightarrow> float \<Rightarrow> float \<Rightarrow> float \<Rightarrow> float \<Rightarrow>
   nat \<Rightarrow> nat \<Rightarrow> nat \<Rightarrow> nat \<Rightarrow>
   float list \<times> float list \<times> float list \<Rightarrow> (float list \<times> float list \<times> float list) option" where
  "adam_update N step g beta1 beta2 eps_hat lr gridDim blockDim blockIdx threadIdx =
     CUDA_1D_KERNEL_LOOP (adam_body step g beta1 beta2 eps_hat lr) N
       (blockDim * gridDim) (blockIdx * blockDim + threadIdx)"

text \<open>
  \<^verbatim>\<open>rmsprop_update(N, m, w, g, decay, eps_hat, lr)\<close>: the state is the pair of the arrays
  \<open>m\<close>, \<open>w\<close>.
\<close>

definition rmsprop_body ::
  "float list \<Rightarrow> float \<Rightarrow> float \<Rightarrow> float \<Rightarrow> nat \<Rightarrow>
   float list \<times> float list \<Rightarrow> float list \<times> float list" where
  "rmsprop_body g decay eps_hat lr i s =
     (case s of (m, w) \<Rightarrow>
        let m1 = m[i := m ! i + (1 - decay) * (g ! i * g ! i - m ! i)];
            w1 = w[i := w ! i - lr * g ! i / sqrt (eps_hat + m1 ! i)]
        in (m1, w1))"

definition rmsprop_update ::
  "nat \<Rightarrow> float list \<Rightarrow> float \<Rightarrow> float \<Rightarrow> float \<Rightarrow>
   nat \<Rightarrow> nat \<Rightarrow> nat \<Rightarrow> nat \<Rightarrow>
   float list \<times> float list \<Rightarrow> (float list \<times> float list) option" where
  "rmsprop_update N g decay eps_hat lr gridDim blockDim blockIdx threadIdx =
     CUDA_1D_KERNEL_LOOP (rmsprop_body g decay eps_hat lr) N
       (blockDim * gridDim) (blockIdx * blockDim + threadIdx)"


section \<open>Tensors and the outside world\<close>

text \<open>
  Modelled from the spec: the class \<^verbatim>\<open>Blob\<close> of \<^verbatim>\<open>include/blob.h\<close>, which is not among the
  sources. A blob has the shape (N, C, H, W) and two buffers of \<open>N\<cdot>C\<cdot>H\<cdot>W\<close> elements, one
  on the host and one on the device, with no implicit coherence; \<^verbatim>\<open>size()\<close> is
  \<open>C\<cdot>H\<cdot>W\<close>, \<^verbatim>\<open>len()\<close> is \<open>N\<cdot>size()\<close>, \<^verbatim>\<open>reset(shape)\<close> reallocates only if the shape
  differs, \<^verbatim>\<open>to(device)\<close> copies one buffer over the other. The content of freshly
  allocated memory is not determined by the program: it is the parameter \<open>u\<close>.
  Isabelle admits no name that ends with an underscore, so the members \<^verbatim>\<open>weights_\<close>,
  \<^verbatim>\<open>grad_input_\<close>, ... of the source are written \<open>weights\<close>, \<open>grad_input\<close>, ... throughout.
\<close>

type_synonym shape = "nat \<times> nat \<times> nat \<times> nat"

record Blob =
  dim_n :: nat
  dim_c :: nat
  dim_h :: nat
  dim_w :: nat
  h_ptr :: "float list"
  d_ptr :: "float list"

definition Blob_size :: "Blob \<Rightarrow> nat" where
  "Blob_size b = dim_c b * dim_h b * dim_w b"

definition Blob_len :: "Blob \<Rightarrow> nat" where
  "Blob_len b = dim_n b * dim_c b * dim_h b * dim_w b"

definition Blob_shape :: "Blob \<Rightarrow> shape" where
  "Blob_shape b = (dim_n b, dim_c b, dim_h b, dim_w b)"

definition Blob_new :: "float \<Rightarrow> shape \<Rightarrow> Blob" where
  "Blob_new u s =
     (case s of (n, c, h, w) \<Rightarrow>
        \<lparr>dim_n = n, dim_c = c, dim_h = h, dim_w = w,
         h_ptr = replicate (n * c * h * w) u, d_ptr = replicate (n * c * h * w) u\<rparr>)"

definition Blob_reset :: "float \<Rightarrow> shape \<Rightarrow> Blob \<Rightarrow> Blob" where
  "Blob_reset u s b = (if Blob_shape b = s then b else Blob_new u s)"

definition to_cuda :: "Blob \<Rightarrow> Blob" where
  "to_cuda b = b\<lparr>d_ptr := h_ptr b\<rparr>"

definition to_host :: "Blob \<Rightarrow> Blob" where
  "to_host b = b\<lparr>h_ptr := d_ptr b\<rparr>"

text \<open>
  What a call takes from outside the program: the launch constants \<^verbatim>\<open>BLOCK_DIM\<close> and
  \<^verbatim>\<open>BLOCK_DIM_1D\<close> and the default argument of \<^verbatim>\<open>init_weight_bias\<close> (all three declared in
  headers that are not among the sources), the content of fresh memory, the value
  \<^verbatim>\<open>std::random_device\<close> yields in this call, and the generator of the C++ library:
  \<open>mt19937 e s k\<close> is the \<open>k\<close>-th number in \<open>[0, 1)\<close> that
  \<^verbatim>\<open>std::uniform_real_distribution\<close> draws from a \<^verbatim>\<open>std::mt19937\<close> seeded with \<open>s\<close>.
\<close>

record env =
  BLOCK_DIM :: nat
  BLOCK_DIM_1D :: nat
  default_seed :: "32 word"
  uninit :: float
  random_device :: "32 word"
  mt19937 :: "32 word \<Rightarrow> nat \<Rightarrow> float"

text \<open>
  The state outside the layer: the blobs of the caller that the layer keeps pointers to
  (\<^verbatim>\<open>input_\<close>), the parameter files, the paths that cannot be opened for writing, and the
  lines written to \<^verbatim>\<open>std::cout\<close>.
\<close>

type_synonym addr = nat

record world =
  heap :: "addr \<rightharpoonup> Blob"
  files :: "string \<rightharpoonup> float list"
  read_only :: "string \<Rightarrow> bool"
  cout :: "string list"

text \<open>
  Modelled from the spec: \<^verbatim>\<open>Blob::file_read\<close> and \<^verbatim>\<open>Blob::file_write\<close> of
  \<^verbatim>\<open>include/blob.h\<close>. A parameter file is the flat sequence of the \<^verbatim>\<open>len()\<close> elements;
  reading fails, with a nonzero status, if the file is missing or its size differs.
\<close>

definition file_read :: "world \<Rightarrow> string \<Rightarrow> Blob \<Rightarrow> int \<times> Blob" where
  "file_read W path b =
     (case files W path of
        None \<Rightarrow> (- 1, b)
      | Some xs \<Rightarrow> if length xs = Blob_len b then (0, b\<lparr>h_ptr := xs, d_ptr := xs\<rparr>)
                   else (- 1, b))"

definition file_write :: "world \<Rightarrow> string \<Rightarrow> Blob \<Rightarrow> int \<times> Blob \<times> world" where
  "file_write W path b =
     (if read_only W path then (- 1, b, W)
      else (0, to_host b, W\<lparr>files := (files W)(path \<mapsto> d_ptr b)\<rparr>))"

subsection \<open>Errors and the primitives of the compute provider\<close>

definition bind_err :: "error + 'a \<Rightarrow> ('a \<Rightarrow> error + 'b) \<Rightarrow> error + 'b" where
  "bind_err r f = (case r of Inl e \<Rightarrow> Inl e | Inr x \<Rightarrow> f x)"

text \<open>Following a pointer: a null pointer ends the run.\<close>

definition deref :: "'a option \<Rightarrow> error + 'a" where
  "deref p = (case p of None \<Rightarrow> Inl NullDeref | Some x \<Rightarrow> Inr x)"

text \<open>
  \<^verbatim>\<open>cudaMemcpyAsync(dst, src, count)\<close>, device to device, with the count in elements;
  \<^verbatim>\<open>cublasSaxpy(n, alpha, x, 1, y, 1)\<close> is \<open>y := alpha\<cdot>x + y\<close> and
  \<^verbatim>\<open>cublasSscal(n, alpha, x, 1)\<close> is \<open>x := alpha\<cdot>x\<close> on the first \<open>n\<close> elements. An access
  beyond a buffer is undefined in the source; the model reports it.
\<close>

definition cudaMemcpy :: "float list \<Rightarrow> float list \<Rightarrow> nat \<Rightarrow> error + float list" where
  "cudaMemcpy dst src count =
     (if count \<le> length src \<and> count \<le> length dst then Inr (take count src @ drop count dst)
      else Inl OutOfBounds)"

definition cublasSaxpy :: "nat \<Rightarrow> float \<Rightarrow> float list \<Rightarrow> float list \<Rightarrow> error + float list" where
  "cublasSaxpy n alpha x y =
     (if n \<le> length x \<and> n \<le> length y
      then Inr (map (\<lambda>i. alpha * x ! i + y ! i) [0..<n] @ drop n y)
      else Inl OutOfBounds)"

definition cublasSscal :: "nat \<Rightarrow> float \<Rightarrow> float list \<Rightarrow> error + float list" where
  "cublasSscal n alpha x =
     (if n \<le> length x then Inr (map (\<lambda>i. alpha * x ! i) [0..<n] @ drop n x)
      else Inl OutOfBounds)"

text \<open>
  \<^verbatim>\<open>cublasSgemm(transa, transb, m, n, k, alpha, A, lda, B, ldb, beta, C, ldc)\<close> on
  column-major matrices: \<open>C := alpha\<cdot>op(A)\<cdot>op(B) + beta\<cdot>C\<close>, where \<open>op\<close> transposes when the
  flag is set.
\<close>

definition mat_fits :: "nat \<Rightarrow> nat \<Rightarrow> nat \<Rightarrow> float list \<Rightarrow> bool" where
  "mat_fits rows cols ld xs \<longleftrightarrow> rows = 0 \<or> cols = 0 \<or> (cols - 1) * ld + rows \<le> length xs"

definition cublasSgemm ::
  "bool \<Rightarrow> bool \<Rightarrow> nat \<Rightarrow> nat \<Rightarrow> nat \<Rightarrow> float \<Rightarrow> float list \<Rightarrow> nat \<Rightarrow> float list \<Rightarrow> nat \<Rightarrow>
   float \<Rightarrow> float list \<Rightarrow> nat \<Rightarrow> error + float list" where
  "cublasSgemm transa transb m n k alpha A lda B ldb beta C ldc =
     (if m = 0 \<or> n = 0 then Inr C
      else if \<not> ((if transa then mat_fits k m lda A else mat_fits m k lda A) \<and>
                 (if transb then mat_fits n k ldb B else mat_fits k n ldb B) \<and>
                 mat_fits m n ldc C) then Inl OutOfBounds
      else Inr (fold (\<lambda>(i, j) C'.
                  C'[i + j * ldc :=
                       alpha * (\<Sum>l\<leftarrow>[0..<k].
                                  (if transa then A ! (l + i * lda) else A ! (i + l * lda)) *
                                  (if transb then B ! (j + l * ldb) else B ! (l + j * ldb)))
                       + beta * C ! (i + j * ldc)])
                (List.product [0..<m] [0..<n]) C))"

text \<open>
  A kernel launch on device arrays: \<open>ok\<close> says that every index the threads touch lies
  within the arrays.
\<close>

definition device_launch ::
  "nat \<Rightarrow> nat \<Rightarrow> (nat \<Rightarrow> nat \<Rightarrow> nat \<Rightarrow> nat \<Rightarrow> 's \<Rightarrow> 's option) \<Rightarrow> bool \<Rightarrow> 's \<Rightarrow> error + 's" where
  "device_launch gridDim blockDim kern ok s =
     (if gridDim = 0 \<or> blockDim = 0 \<or> ok
      then (case launch gridDim blockDim kern s of None \<Rightarrow> Inl NonTermination | Some s' \<Rightarrow> Inr s')
      else Inl OutOfBounds)"


section \<open>The layer base class\<close>

text \<open>
  The members of \<^verbatim>\<open>class Layer\<close> that the functions below use. The member \<^verbatim>\<open>input_\<close>,
  written \<open>input_ptr\<close> because \<open>input\<close> and \<open>output\<close> are words of Isabelle's own, points
  to a blob of the caller; the other blobs, \<^verbatim>\<open>output_\<close> (written \<open>output_ptr\<close>) among them,
  are owned by the layer. A tensor descriptor (\<^verbatim>\<open>input_desc_\<close>, \<^verbatim>\<open>output_desc_\<close>) is the
  shape it was made from.
\<close>

record Layer =
  name :: string
  input_ptr :: "addr option"
  output_ptr :: "Blob option"
  grad_input :: "Blob option"
  weights :: "Blob option"
  biases :: "Blob option"
  weights_m :: "Blob option"
  weights_v :: "Blob option"
  biases_m :: "Blob option"
  biases_v :: "Blob option"
  grad_weights :: "Blob option"
  grad_biases :: "Blob option"
  input_desc :: shape
  output_desc :: shape
  batch_size :: nat
  freeze :: bool
  load_pretrain :: bool
  gradient_stop :: bool

text \<open>
  \<^verbatim>\<open>std::uniform_real_distribution<> dis(a, b)\<close> maps a number \<open>r\<close> of \<open>[0, 1)\<close> drawn
  from the generator to \<open>r\<cdot>(b - a) + a\<close>.
\<close>

definition uniform_real_distribution :: "float \<Rightarrow> float \<Rightarrow> float \<Rightarrow> float" where
  "uniform_real_distribution a b r = r * (b - a) + a"

text \<open>
  The host loops of \<^verbatim>\<open>init_weight_bias\<close>:
  \<^verbatim>\<open>for (int i = 0; i < blob->len(); i++) blob->ptr()[i] = f(i);\<close>
\<close>

definition fill_host :: "(nat \<Rightarrow> float) \<Rightarrow> Blob \<Rightarrow> Blob" where
  "fill_host f b = b\<lparr>h_ptr := fold (\<lambda>i h. h[i := f i]) [0..<Blob_len b] (h_ptr b)\<rparr>"

definition init_weight_bias ::
  "env \<Rightarrow> 32 word \<Rightarrow> 'a Layer_scheme \<times> world \<Rightarrow> error + 'a Layer_scheme \<times> world" where
  "init_weight_bias e seed LW =
     (case LW of (L, W) \<Rightarrow>
        if weights L = None \<or> biases L = None then Inr (L, W)
        else
          let gen = mt19937 e (if seed = 0 then random_device e else seed) in
          bind_err (deref (Option.bind (input_ptr L) (heap W))) (\<lambda>x.
          let range = sqrt (6 / real (Blob_size x)) in
          bind_err (deref (weights L)) (\<lambda>wt.
          bind_err (deref (biases L)) (\<lambda>bs.
          bind_err (deref (weights_m L)) (\<lambda>wm.
          bind_err (deref (weights_v L)) (\<lambda>wv.
          bind_err (deref (biases_m L)) (\<lambda>bm.
          bind_err (deref (biases_v L)) (\<lambda>bv.
            Inr (L\<lparr>weights := Some (to_cuda (fill_host
                       (\<lambda>i. uniform_real_distribution (- range) range (gen i)) wt)),
                   biases := Some (to_cuda (to_cuda (fill_host (\<lambda>i. 0) bs))),
                   weights_m := Some (to_cuda (fill_host (\<lambda>i. 0) wm)),
                   weights_v := Some (to_cuda (fill_host (\<lambda>i. 0) wv)),
                   biases_m := Some (to_cuda (fill_host (\<lambda>i. 0) bm)),
                   biases_v := Some (to_cuda (fill_host (\<lambda>i. 0) bv))\<rparr>,
                 W\<lparr>cout := cout W @ [''.. initialized '' @ name L @ '' layer ..'']\<rparr>)))))))))"

definition update_weights_biases :: "float \<Rightarrow> 'a Layer_scheme \<Rightarrow> error + 'a Layer_scheme" where
  "update_weights_biases learning_rate L =
     (let eps = - 1 * learning_rate in
      bind_err
        (case (weights L, grad_weights L) of
           (Some wt, Some gw) \<Rightarrow>
             bind_err (cublasSaxpy (Blob_len wt) eps (d_ptr gw) (d_ptr wt)) (\<lambda>y.
               Inr (L\<lparr>weights := Some (wt\<lparr>d_ptr := y\<rparr>)\<rparr>))
         | _ \<Rightarrow> Inr L)
        (\<lambda>L1.
           case (biases L1, grad_biases L1) of
             (Some bs, Some gb) \<Rightarrow>
               bind_err (cublasSaxpy (Blob_len bs) eps (d_ptr gb) (d_ptr bs)) (\<lambda>y.
                 Inr (L1\<lparr>biases := Some (bs\<lparr>d_ptr := y\<rparr>)\<rparr>))
           | _ \<Rightarrow> Inr L1))"

text \<open>
  The launch \<^verbatim>\<open>adam_update <<< 16, BLOCK_DIM_1D >>> (w->len(), step, m->cuda(), v->cuda(),
  w->cuda(), g->cuda(), beta1, beta2, eps_hat, learning_rate)\<close> on the device buffers of
  four blobs; \<^verbatim>\<open>update_weights_biases_with_adam\<close> has it twice, first on the weights, then
  on the biases.
\<close>

definition adam_launch ::
  "env \<Rightarrow> float \<Rightarrow> float \<Rightarrow> float \<Rightarrow> float \<Rightarrow> 32 word \<Rightarrow> Blob \<Rightarrow> Blob \<Rightarrow> Blob \<Rightarrow> Blob \<Rightarrow>
   error + Blob \<times> Blob \<times> Blob" where
  "adam_launch e learning_rate beta1 beta2 eps_hat step w m v g =
     bind_err (device_launch 16 (BLOCK_DIM_1D e)
                 (adam_update (Blob_len w) step (d_ptr g) beta1 beta2 eps_hat learning_rate)
                 (Blob_len w \<le> length (d_ptr m) \<and> Blob_len w \<le> length (d_ptr v) \<and>
                  Blob_len w \<le> length (d_ptr w) \<and> Blob_len w \<le> length (d_ptr g))
                 (d_ptr m, d_ptr v, d_ptr w))
       (\<lambda>(m', v', w'). Inr (w\<lparr>d_ptr := w'\<rparr>, m\<lparr>d_ptr := m'\<rparr>, v\<lparr>d_ptr := v'\<rparr>))"

definition update_weights_biases_with_adam ::
  "env \<Rightarrow> float \<Rightarrow> float \<Rightarrow> float \<Rightarrow> float \<Rightarrow> 32 word \<Rightarrow> 'a Layer_scheme \<Rightarrow> error + 'a Layer_scheme" where
  "update_weights_biases_with_adam e learning_rate beta1 beta2 eps_hat step L =
     bind_err
       (if weights L \<noteq> None \<and> grad_weights L \<noteq> None then
          bind_err (deref (weights L)) (\<lambda>wt.
          bind_err (deref (weights_m L)) (\<lambda>wm.
          bind_err (deref (weights_v L)) (\<lambda>wv.
          bind_err (deref (grad_weights L)) (\<lambda>gw.
          bind_err (adam_launch e learning_rate beta1 beta2 eps_hat step wt wm wv gw)
            (\<lambda>(wt', wm', wv').
               Inr (L\<lparr>weights := Some wt', weights_m := Some wm', weights_v := Some wv'\<rparr>))))))
        else Inr L)
       (\<lambda>L1.
          if biases L1 \<noteq> None \<and> grad_biases L1 \<noteq> None then
            bind_err (deref (biases L1)) (\<lambda>bs.
            bind_err (deref (biases_m L1)) (\<lambda>bm.
            bind_err (deref (biases_v L1)) (\<lambda>bv.
            bind_err (deref (grad_biases L1)) (\<lambda>gb.
            bind_err (adam_launch e learning_rate beta1 beta2 eps_hat step bs bm bv gb)
              (\<lambda>(bs', bm', bv').
                 Inr (L1\<lparr>biases := Some bs', biases_m := Some bm', biases_v := Some bv'\<rparr>))))))
          else Inr L1)"

text \<open>
  The two launches of \<^verbatim>\<open>rmsprop_update <<< BLOCK_DIM, BLOCK_DIM_1D >>>\<close>. The second one
  is guarded by the biases and their gradient, and its arguments are, as in the source,
  \<^verbatim>\<open>weights_->len(), weights_m_->cuda(), weights_->cuda(), grad_weights_->cuda()\<close>.
\<close>

definition rmsprop_launch ::
  "env \<Rightarrow> float \<Rightarrow> float \<Rightarrow> float \<Rightarrow> 'a Layer_scheme \<Rightarrow> error + 'a Layer_scheme" where
  "rmsprop_launch e learning_rate decay eps_hat L =
     bind_err (deref (weights L)) (\<lambda>wt.
     bind_err (deref (weights_m L)) (\<lambda>wm.
     bind_err (deref (grad_weights L)) (\<lambda>gw.
     bind_err (device_launch (BLOCK_DIM e) (BLOCK_DIM_1D e)
                 (rmsprop_update (Blob_len wt) (d_ptr gw) decay eps_hat learning_rate)
                 (Blob_len wt \<le> length (d_ptr wm) \<and> Blob_len wt \<le> length (d_ptr wt) \<and>
                  Blob_len wt \<le> length (d_ptr gw))
                 (d_ptr wm, d_ptr wt))
       (\<lambda>(m', w').
          Inr (L\<lparr>weights_m := Some (wm\<lparr>d_ptr := m'\<rparr>),
                 weights := Some (wt\<lparr>d_ptr := w'\<rparr>)\<rparr>)))))"

definition update_weights_biases_with_rmsprop ::
  "env \<Rightarrow> float \<Rightarrow> float \<Rightarrow> float \<Rightarrow> 'a Layer_scheme \<Rightarrow> error + 'a Layer_scheme" where
  "update_weights_biases_with_rmsprop e learning_rate decay eps_hat L =
     bind_err
       (if weights L \<noteq> None \<and> grad_weights L \<noteq> None
        then rmsprop_launch e learning_rate decay eps_hat L else Inr L)
       (\<lambda>L1.
          if biases L1 \<noteq> None \<and> grad_biases L1 \<noteq> None
          then rmsprop_launch e learning_rate decay eps_hat L1 else Inr L1)"

definition load_parameter ::
  "'a Layer_scheme \<times> world \<Rightarrow> error + int \<times> 'a Layer_scheme \<times> world" where
  "load_parameter LW =
     (case LW of (L, W) \<Rightarrow>
        bind_err (deref (weights L)) (\<lambda>wt.
          case file_read W (name L @ ''.bin'') wt of (st, wt') \<Rightarrow>
            let L1 = L\<lparr>weights := Some wt'\<rparr> in
            if st \<noteq> 0 then Inr (- 1, L1, W)
            else
              bind_err (deref (biases L1)) (\<lambda>bs.
                case file_read W (name L1 @ ''.bias.bin'') bs of (st', bs') \<Rightarrow>
                  let L2 = L1\<lparr>biases := Some bs'\<rparr> in
                  if st' \<noteq> 0 then Inr (- 2, L2, W)
                  else Inr (0, L2,
                            W\<lparr>cout := cout W @
                                 [''.. loaded '' @ name L2 @ '' pretrain parameter..'']\<rparr>))))"

definition save_parameter ::
  "'a Layer_scheme \<times> world \<Rightarrow> error + int \<times> 'a Layer_scheme \<times> world" where
  "save_parameter LW =
     (case LW of (L, W) \<Rightarrow>
        let W0 = W\<lparr>cout := cout W @ [''.. saving '' @ name L @ '' parameter ..'']\<rparr> in
        case (case weights L of
                None \<Rightarrow> (0, L, W0)
              | Some wt \<Rightarrow>
                  (case file_write W0 (name L @ ''.bin'') wt of
                     (st, wt', W') \<Rightarrow> (st, L\<lparr>weights := Some wt'\<rparr>, W')))
        of (st, L1, W1) \<Rightarrow>
          if st \<noteq> 0 then Inr (- 1, L1, W1)
          else
            case (case biases L1 of
                    None \<Rightarrow> (0, L1, W1)
                  | Some bs \<Rightarrow>
                      (case file_write W1 (name L1 @ ''.bias.bin'') bs of
                         (st', bs', W') \<Rightarrow> (st', L1\<lparr>biases := Some bs'\<rparr>, W')))
            of (st', L2, W2) \<Rightarrow>
              if st' \<noteq> 0 then Inr (- 2, L2, W2)
              else Inr (0, L2, W2\<lparr>cout := cout W2 @ ['' done ..'']\<rparr>))"

text \<open>
  The block that ends the lazy binding in \<^verbatim>\<open>Linear::forward\<close>, \<^verbatim>\<open>Conv2D::forward\<close> and
  \<^verbatim>\<open>FusedBatchNormalization::forward\<close>, word for word the same in the three:
  load the pretrained parameters and leave the process with \<^verbatim>\<open>exit(-1)\<close> if that fails,
  or initialize, or, for a frozen layer, do nothing.
\<close>

definition materialize_parameters ::
  "env \<Rightarrow> 'a Layer_scheme \<times> world \<Rightarrow> error + 'a Layer_scheme \<times> world" where
  "materialize_parameters e LW =
     (case LW of (L, W) \<Rightarrow>
        if load_pretrain L \<and> \<not> freeze L then
          bind_err (load_parameter (L, W)) (\<lambda>(st, L', W').
            if st \<noteq> 0 then Inl (Exit (- 1)) else Inr (L', W'))
        else if \<not> freeze L then init_weight_bias e (default_seed e) (L, W)
        else Inr (L, W))"


text \<open>
  The parameter set of a layer: the weights, the biases and their optimizer
  accumulators.
\<close>

definition params ::
  "'a Layer_scheme \<Rightarrow>
   Blob option \<times> Blob option \<times> Blob option \<times> Blob option \<times> Blob option \<times> Blob option" where
  "params L = (weights L, biases L, weights_m L, weights_v L, biases_m L, biases_v L)"

text \<open>The parameter buffers are allocated and their host buffers have \<^verbatim>\<open>len()\<close> elements.\<close>

definition params_ok :: "'a Layer_scheme \<Rightarrow> bool" where
  "params_ok L \<longleftrightarrow>
     (case params L of
        (Some wt, Some bs, Some wm, Some wv, Some bm, Some bv) \<Rightarrow>
          length (h_ptr wt) = Blob_len wt \<and> length (h_ptr bs) = Blob_len bs \<and>
          length (h_ptr wm) = Blob_len wm \<and> length (h_ptr wv) = Blob_len wv \<and>
          length (h_ptr bm) = Blob_len bm \<and> length (h_ptr bv) = Blob_len bv
      | _ \<Rightarrow> False)"

section \<open>The dense layer\<close>

record Linear = Layer +
  input_size :: nat
  output_size :: nat
  d_one_vec :: "float list option"

text \<open>
  The constructor \<^verbatim>\<open>Linear(name, output_size)\<close>. It sets the name and the output size;
  the initial values of the other members are declared in \<^verbatim>\<open>include/layer.h\<close>, which is
  not among the sources: null pointers, the batch size 0 and cleared flags are taken, in
  line with the lines \<^verbatim>\<open>.. initialized <name> layer ..\<close> of the expected output.
\<close>

definition Linear_new :: "string \<Rightarrow> nat \<Rightarrow> Linear" where
  "Linear_new nm osz =
     \<lparr>name = nm, input_ptr = None, output_ptr = None, grad_input = None,
      weights = None, biases = None, weights_m = None, weights_v = None,
      biases_m = None, biases_v = None, grad_weights = None, grad_biases = None,
      input_desc = (0, 0, 0, 0), output_desc = (0, 0, 0, 0),
      batch_size = 0, freeze = False, load_pretrain = False, gradient_stop = False,
      input_size = 0, output_size = osz, d_one_vec = None\<rparr>"

text \<open>
  The kernel \<^verbatim>\<open>init_one_vec(d_one_vec, length)\<close>: one thread per element, no loop.
\<close>

definition init_one_vec ::
  "nat \<Rightarrow> nat \<Rightarrow> nat \<Rightarrow> nat \<Rightarrow> nat \<Rightarrow> float list \<Rightarrow> float list option" where
  "init_one_vec len gridDim blockDim blockIdx threadIdx d =
     (let i = blockIdx * blockDim + threadIdx in
      if i \<ge> len then Some d else Some (d[i := 1]))"

text \<open>
  \<^verbatim>\<open>Linear::forward\<close> has three parts, modelled one by one. The first allocates the
  parameter buffers when \<^verbatim>\<open>weights_ == nullptr\<close>; \<open>x\<close> is the blob the argument points to.
\<close>

definition Linear_allocate :: "env \<Rightarrow> Blob \<Rightarrow> Linear \<Rightarrow> Linear" where
  "Linear_allocate e x L =
     (if weights L = None then
        let isz = dim_c x * dim_h x * dim_w x in
        L\<lparr>input_size := isz,
          weights := Some (Blob_new (uninit e) (1, 1, isz, output_size L)),
          biases := Some (Blob_new (uninit e) (1, 1, output_size L, 1)),
          weights_m := Some (Blob_new (uninit e) (1, 1, isz, output_size L)),
          weights_v := Some (Blob_new (uninit e) (1, 1, isz, output_size L)),
          biases_m := Some (Blob_new (uninit e) (1, 1, output_size L, 1)),
          biases_v := Some (Blob_new (uninit e) (1, 1, output_size L, 1))\<rparr>
      else L)"

text \<open>
  The second part runs when \<^verbatim>\<open>input_ == nullptr || batch_size_ != input->n()\<close>: it binds
  the input, sizes the output and the vector of ones, and materializes the parameters.
\<close>

definition Linear_bind ::
  "env \<Rightarrow> addr \<Rightarrow> Blob \<Rightarrow> Linear \<times> world \<Rightarrow> error + Linear \<times> world" where
  "Linear_bind e inp x LW =
     (case LW of (L, W) \<Rightarrow>
        if input_ptr L = None \<or> batch_size L \<noteq> dim_n x then
          let L2 = L\<lparr>input_ptr := Some inp, batch_size := dim_n x,
                     output_ptr := Some (case output_ptr L of
                          None \<Rightarrow> Blob_new (uninit e) (dim_n x, output_size L, 1, 1)
                        | Some out \<Rightarrow> Blob_reset (uninit e) (dim_n x, output_size L, 1, 1) out)\<rparr>
          in
          bind_err (device_launch ((dim_n x + BLOCK_DIM_1D e - 1) div BLOCK_DIM_1D e)
                      (BLOCK_DIM_1D e) (init_one_vec (dim_n x)) True
                      (replicate (dim_n x) (uninit e)))
            (\<lambda>ones. materialize_parameters e (L2\<lparr>d_one_vec := Some ones\<rparr>, W))
        else Inr (L, W))"

text \<open>
  The third part computes \<open>output = weights\<^sup>T \<cdot> input\<close> and adds the biases to every column.
\<close>

definition Linear_compute :: "Linear \<times> world \<Rightarrow> error + Linear \<times> world" where
  "Linear_compute LW =
     (case LW of (L, W) \<Rightarrow>
        bind_err (deref (weights L)) (\<lambda>wt.
        bind_err (deref (Option.bind (input_ptr L) (heap W))) (\<lambda>xin.
        bind_err (deref (output_ptr L)) (\<lambda>out.
        bind_err (cublasSgemm True False (output_size L) (batch_size L) (input_size L)
                    1 (d_ptr wt) (input_size L) (d_ptr xin) (input_size L)
                    0 (d_ptr out) (output_size L)) (\<lambda>C1.
        bind_err (deref (biases L)) (\<lambda>bs.
        bind_err (deref (d_one_vec L)) (\<lambda>ones.
        bind_err (cublasSgemm False False (output_size L) (batch_size L) 1
                    1 (d_ptr bs) (output_size L) ones 1
                    1 C1 (output_size L)) (\<lambda>C2.
          Inr (L\<lparr>output_ptr := Some (out\<lparr>d_ptr := C2\<rparr>)\<rparr>, W)))))))))"

definition Linear_forward :: "env \<Rightarrow> addr \<Rightarrow> Linear \<times> world \<Rightarrow> error + Linear \<times> world" where
  "Linear_forward e inp LW =
     (case LW of (L, W) \<Rightarrow>
        bind_err (deref (heap W inp)) (\<lambda>x.
        bind_err (Linear_bind e inp x (Linear_allocate e x L, W)) Linear_compute))"

section \<open>The softmax layer\<close>

text \<open>
  \<^verbatim>\<open>class Softmax\<close> adds to the base class only its loss object, which the functions
  modelled here do not use.
\<close>

type_synonym Softmax = Layer

text \<open>The constructor \<^verbatim>\<open>Softmax(name)\<close>, with the same initial values of the members.\<close>

definition Softmax_new :: "string \<Rightarrow> Softmax" where
  "Softmax_new nm =
     \<lparr>name = nm, input_ptr = None, output_ptr = None, grad_input = None,
      weights = None, biases = None, weights_m = None, weights_v = None,
      biases_m = None, biases_v = None, grad_weights = None, grad_biases = None,
      input_desc = (0, 0, 0, 0), output_desc = (0, 0, 0, 0),
      batch_size = 0, freeze = False, load_pretrain = False, gradient_stop = False\<rparr>"

text \<open>
  \<^verbatim>\<open>cudnnSoftmaxForward\<close> in the mode \<^verbatim>\<open>CUDNN_SOFTMAX_MODE_CHANNEL\<close>, with the factors 1
  and 0 of the call: every element of the NCHW tensor is replaced by its exponential,
  divided by the sum of the exponentials over the channels at the same position.
\<close>

definition cudnnSoftmaxForward ::
  "shape \<Rightarrow> float list \<Rightarrow> shape \<Rightarrow> float list \<Rightarrow> error + float list" where
  "cudnnSoftmaxForward xDesc x yDesc y =
     (case xDesc of (n, c, h, w) \<Rightarrow>
        if yDesc \<noteq> xDesc then Inl BadParam
        else if length x < n * c * h * w \<or> length y < n * c * h * w then Inl OutOfBounds
        else Inr (map (\<lambda>i. exp (x ! i) /
                         (\<Sum>k\<leftarrow>[0..<c]. exp (x ! (i - (i div (h * w)) mod c * (h * w) + k * (h * w)))))
                    [0..<n * c * h * w] @ drop (n * c * h * w) y))"

definition Softmax_forward :: "env \<Rightarrow> addr \<Rightarrow> Softmax \<times> world \<Rightarrow> error + Softmax \<times> world" where
  "Softmax_forward e inp LW =
     (case LW of (L, W) \<Rightarrow>
        bind_err (deref (heap W inp)) (\<lambda>x.
        let L1 =
          (if input_ptr L = None \<or> batch_size L \<noteq> dim_n x then
             let out = (case output_ptr L of
                          None \<Rightarrow> Blob_new (uninit e) (Blob_shape x)
                        | Some out \<Rightarrow> Blob_reset (uninit e) (Blob_shape x) out)
             in L\<lparr>input_ptr := Some inp, batch_size := dim_n x, output_ptr := Some out,
                  input_desc := Blob_shape x, output_desc := Blob_shape out\<rparr>
           else L)
        in
        bind_err (deref (output_ptr L1)) (\<lambda>out.
        bind_err (cudnnSoftmaxForward (input_desc L1) (d_ptr x) (output_desc L1) (d_ptr out)) (\<lambda>y.
          Inr (L1\<lparr>output_ptr := Some (out\<lparr>d_ptr := y\<rparr>)\<rparr>, W)))))"

definition Softmax_backward :: "env \<Rightarrow> Blob \<Rightarrow> Softmax \<times> world \<Rightarrow> error + Softmax \<times> world" where
  "Softmax_backward e target LW =
     (case LW of (L, W) \<Rightarrow>
        bind_err
          (if grad_input L = None \<or> batch_size L \<noteq> dim_n target then
             bind_err (deref (Option.bind (input_ptr L) (heap W))) (\<lambda>x.
               Inr (L\<lparr>grad_input := Some (case grad_input L of
                         None \<Rightarrow> Blob_new (uninit e) (Blob_shape x)
                       | Some g \<Rightarrow> Blob_reset (uninit e) (Blob_shape x) g)\<rparr>))
           else Inr L)
          (\<lambda>L1.
             bind_err (deref (grad_input L1)) (\<lambda>gi.
             bind_err (deref (output_ptr L1)) (\<lambda>out.
             bind_err (cudaMemcpy (d_ptr gi) (d_ptr out) (Blob_len out)) (\<lambda>g1.
             bind_err (cublasSaxpy (Blob_len target) (- 1) (d_ptr target) g1) (\<lambda>g2.
             let grad_output_size = dim_n target * dim_c target * dim_h target * dim_w target;
                 scale = 1 / real (dim_n target)
             in
             bind_err (cublasSscal grad_output_size scale g2) (\<lambda>g3.
               Inr (L1\<lparr>grad_input := Some (gi\<lparr>d_ptr := g3\<rparr>)\<rparr>, W))))))))"

text \<open>
  \<^verbatim>\<open>Softmax::get_accuracy\<close>. The inner loop runs \<open>i\<close> from 1 to 9 over the host copies of
  the prediction and of the target; a read beyond a buffer is reported.
\<close>

fun argmax_loop ::
  "float list \<Rightarrow> float list \<Rightarrow> nat \<Rightarrow> nat list \<Rightarrow> nat \<times> nat \<Rightarrow> error + nat \<times> nat" where
  "argmax_loop h_output h_target base [] idx = Inr idx"
| "argmax_loop h_output h_target base (i # is) idx =
     (case idx of (idx_output, idx_target) \<Rightarrow>
        if base + i < length h_output \<and> base + idx_output < length h_output \<and>
           base + i < length h_target \<and> base + idx_target < length h_target
        then argmax_loop h_output h_target base is
               (if h_output ! (base + i) > h_output ! (base + idx_output) then i else idx_output,
                if h_target ! (base + i) > h_target ! (base + idx_target) then i else idx_target)
        else Inl OutOfBounds)"

fun batch_loop ::
  "float list \<Rightarrow> float list \<Rightarrow> nat \<Rightarrow> nat list \<Rightarrow> int \<Rightarrow> error + int" where
  "batch_loop h_output h_target output_sz [] hit_count = Inr hit_count"
| "batch_loop h_output h_target output_sz (b # bs) hit_count =
     bind_err (argmax_loop h_output h_target (b * output_sz) [1..<10] (0, 0))
       (\<lambda>(idx_output, idx_target).
          batch_loop h_output h_target output_sz bs
            (if idx_output = idx_target then hit_count + 1 else hit_count))"

definition get_accuracy :: "Blob \<Rightarrow> Softmax \<Rightarrow> error + int \<times> Softmax" where
  "get_accuracy target L =
     bind_err (deref (output_ptr L)) (\<lambda>out.
       let batch_sz = dim_n out; output_sz = Blob_size out in
       if batch_sz \<noteq> dim_n target then Inl AssertFailed
       else if output_sz \<noteq> Blob_size target then Inl AssertFailed
       else
         let out' = to_host out in
         bind_err (batch_loop (h_ptr out') (h_ptr (to_host target)) output_sz [0..<batch_sz] 0)
           (\<lambda>hit_count. Inr (hit_count, L\<lparr>output_ptr := Some out'\<rparr>)))"


section \<open>The convolution layer\<close>

text \<open>
  The operations of cuDNN that \<^verbatim>\<open>Conv2D::forward\<close> calls are parameters: the output
  dimensions of a convolution with the descriptor (padding, stride, dilation); the
  algorithm and the workspace bytes that \<^verbatim>\<open>set_workspace\<close> obtains for the forward, the
  backward-filter and the backward-data convolution; the lines \<^verbatim>\<open>set_workspace\<close> prints
  for a layer name (three when built against cuDNN 8, none otherwise); the convolution;
  and the addition of the bias tensor. So are the two operations that
  \<^verbatim>\<open>FusedBatchNormalization::forward\<close> calls: the descriptor of the scale and bias tensors
  derived from the input descriptor and the mode, and the batch normalization itself,
  which is given the four device buffers of the layer as the pointers they are, with the
  factors 1 and 0 and the average factor 1 of the call, and yields the output and the
  new content of the four buffers.
\<close>

type_synonym conv_desc = "nat \<times> nat \<times> nat"

datatype cudnnBatchNormMode_t =
  CUDNN_BATCHNORM_PER_ACTIVATION | CUDNN_BATCHNORM_SPATIAL | CUDNN_BATCHNORM_SPATIAL_PERSISTENT

record cudnn =
  GetConvolution2dForwardOutputDim :: "conv_desc \<Rightarrow> shape \<Rightarrow> shape \<Rightarrow> shape"
  algorithms ::
    "shape \<Rightarrow> shape \<Rightarrow> conv_desc \<Rightarrow> shape \<Rightarrow> (nat \<times> nat) \<times> (nat \<times> nat) \<times> (nat \<times> nat)"
  algorithm_report :: "string \<Rightarrow> string list"
  ConvolutionForward ::
    "shape \<Rightarrow> float list \<Rightarrow> shape \<Rightarrow> float list \<Rightarrow> conv_desc \<Rightarrow> nat \<Rightarrow> nat \<Rightarrow>
     shape \<Rightarrow> float list \<Rightarrow> error + float list"
  AddTensor :: "shape \<Rightarrow> float list \<Rightarrow> shape \<Rightarrow> float list \<Rightarrow> error + float list"
  DeriveBNTensorDescriptor :: "shape \<Rightarrow> cudnnBatchNormMode_t \<Rightarrow> shape"
  BatchNormalizationForwardTraining ::
    "cudnnBatchNormMode_t \<Rightarrow> shape \<Rightarrow> float list \<Rightarrow> shape \<Rightarrow> float list \<Rightarrow>
     shape \<Rightarrow> float list \<Rightarrow> float list \<Rightarrow> float list option \<Rightarrow> float list option \<Rightarrow> float \<Rightarrow>
     float list option \<Rightarrow> float list option \<Rightarrow>
     error + float list \<times> float list option \<times> float list option \<times>
             float list option \<times> float list option"

text \<open>
  The members of \<^verbatim>\<open>class Conv2D\<close>: \<open>output_dims\<close> is the array \<^verbatim>\<open>output_size_\<close>,
  \<open>d_workspace\<close> holds the size of the scratch buffer when it is allocated.
\<close>

record Conv2D = Layer +
  out_channels :: nat
  kernel_size :: nat
  conv_stride :: nat
  conv_padding :: nat
  conv_dilation :: nat
  output_dims :: shape
  filter_desc :: shape
  bias_desc :: shape
  conv_fwd_algo :: nat
  conv_bwd_filter_algo :: nat
  conv_bwd_data_algo :: nat
  workspace_size :: nat
  d_workspace :: "nat option"

definition Conv2D_new :: "string \<Rightarrow> nat \<Rightarrow> nat \<Rightarrow> nat \<Rightarrow> nat \<Rightarrow> nat \<Rightarrow> Conv2D" where
  "Conv2D_new nm oc k st pad dil =
     \<lparr>name = nm, input_ptr = None, output_ptr = None, grad_input = None,
      weights = None, biases = None, weights_m = None, weights_v = None,
      biases_m = None, biases_v = None, grad_weights = None, grad_biases = None,
      input_desc = (0, 0, 0, 0), output_desc = (0, 0, 0, 0),
      batch_size = 0, freeze = False, load_pretrain = False, gradient_stop = False,
      out_channels = oc, kernel_size = k, conv_stride = st, conv_padding = pad,
      conv_dilation = dil, output_dims = (0, 0, 0, 0), filter_desc = (0, 0, 0, 0),
      bias_desc = (0, 0, 0, 0), conv_fwd_algo = 0, conv_bwd_filter_algo = 0,
      conv_bwd_data_algo = 0, workspace_size = 0, d_workspace = None\<rparr>"

definition set_workspace :: "cudnn \<Rightarrow> Conv2D \<times> world \<Rightarrow> Conv2D \<times> world" where
  "set_workspace p LW =
     (case LW of (L, W) \<Rightarrow>
        case algorithms p (input_desc L) (filter_desc L)
               (conv_padding L, conv_stride L, conv_dilation L) (output_desc L) of
          ((fwd_algo, fwd_size), (filter_algo, filter_size), (data_algo, data_size)) \<Rightarrow>
            let sz = max (max (max (workspace_size L) fwd_size) filter_size) data_size in
            (L\<lparr>conv_fwd_algo := fwd_algo, conv_bwd_filter_algo := filter_algo,
               conv_bwd_data_algo := data_algo, workspace_size := sz,
               d_workspace := (if sz > 0 then Some sz else d_workspace L)\<rparr>,
             W\<lparr>cout := cout W @ algorithm_report p (name L)\<rparr>))"

text \<open>\<^verbatim>\<open>Conv2D::forward\<close>, in the same three parts as the dense layer.\<close>

definition Conv2D_allocate :: "env \<Rightarrow> Blob \<Rightarrow> Conv2D \<Rightarrow> Conv2D" where
  "Conv2D_allocate e x L =
     (if weights L = None then
        let fs = (out_channels L, dim_c x, kernel_size L, kernel_size L);
            bs = Blob_new (uninit e) (1, out_channels L, 1, 1)
        in
        L\<lparr>filter_desc := fs,
          weights := Some (Blob_new (uninit e) fs),
          biases := Some bs,
          weights_m := Some (Blob_new (uninit e) fs),
          weights_v := Some (Blob_new (uninit e) fs),
          biases_m := Some (Blob_new (uninit e) (1, out_channels L, 1, 1)),
          biases_v := Some (Blob_new (uninit e) (1, out_channels L, 1, 1)),
          bias_desc := Blob_shape bs\<rparr>
      else L)"

definition Conv2D_bind ::
  "cudnn \<Rightarrow> env \<Rightarrow> addr \<Rightarrow> Blob \<Rightarrow> Conv2D \<times> world \<Rightarrow> error + Conv2D \<times> world" where
  "Conv2D_bind p e inp x LW =
     (case LW of (L, W) \<Rightarrow>
        if input_ptr L = None \<or> batch_size L \<noteq> dim_n x then
          let dims = GetConvolution2dForwardOutputDim p
                       (conv_padding L, conv_stride L, conv_dilation L) (Blob_shape x)
                       (filter_desc L);
              out = (case output_ptr L of
                       None \<Rightarrow> Blob_new (uninit e) dims
                     | Some out \<Rightarrow> Blob_reset (uninit e) dims out);
              L2 = L\<lparr>input_ptr := Some inp, input_desc := Blob_shape x, batch_size := dim_n x,
                     output_dims := dims, output_ptr := Some out, output_desc := Blob_shape out\<rparr>
          in materialize_parameters e (set_workspace p (L2, W))
        else Inr (L, W))"

definition Conv2D_compute :: "cudnn \<Rightarrow> Conv2D \<times> world \<Rightarrow> error + Conv2D \<times> world" where
  "Conv2D_compute p LW =
     (case LW of (L, W) \<Rightarrow>
        bind_err (deref (Option.bind (input_ptr L) (heap W))) (\<lambda>xin.
        bind_err (deref (weights L)) (\<lambda>wt.
        bind_err (deref (output_ptr L)) (\<lambda>out.
        bind_err (ConvolutionForward p (input_desc L) (d_ptr xin) (filter_desc L) (d_ptr wt)
                    (conv_padding L, conv_stride L, conv_dilation L) (conv_fwd_algo L)
                    (workspace_size L) (output_desc L) (d_ptr out)) (\<lambda>y1.
        bind_err (deref (biases L)) (\<lambda>bs.
        bind_err (AddTensor p (bias_desc L) (d_ptr bs) (output_desc L) y1) (\<lambda>y2.
          Inr (L\<lparr>output_ptr := Some (out\<lparr>d_ptr := y2\<rparr>)\<rparr>, W))))))))"

definition Conv2D_forward ::
  "cudnn \<Rightarrow> env \<Rightarrow> addr \<Rightarrow> Conv2D \<times> world \<Rightarrow> error + Conv2D \<times> world" where
  "Conv2D_forward p e inp LW =
     (case LW of (L, W) \<Rightarrow>
        bind_err (deref (heap W inp)) (\<lambda>x.
        bind_err (Conv2D_bind p e inp x (Conv2D_allocate e x L, W)) (Conv2D_compute p)))"


section \<open>The batch normalization layer\<close>

text \<open>
  The members of \<^verbatim>\<open>class FusedBatchNormalization\<close>. The members \<^verbatim>\<open>size_\<close> and \<^verbatim>\<open>mode_\<close>
  are written \<open>bn_size\<close> and \<open>bn_mode\<close>; the four device buffers are null until the layer
  is bound. The constructor \<^verbatim>\<open>FusedBatchNormalization(name, mode)\<close> sets the name and the
  mode; the value of the member \<^verbatim>\<open>epison\<close> is declared in \<^verbatim>\<open>include/layer.h\<close>, which is
  not among the sources, and is an argument here.
\<close>

record FusedBatchNormalization = Layer +
  bn_size :: nat
  bn_mode :: cudnnBatchNormMode_t
  bnScaleBiasMeanVarDesc :: shape
  resultRunningMean :: "float list option"
  resultRunningVariance :: "float list option"
  resultSaveMean :: "float list option"
  resultSaveInvVariance :: "float list option"
  epison :: float

definition FusedBatchNormalization_new ::
  "string \<Rightarrow> cudnnBatchNormMode_t \<Rightarrow> float \<Rightarrow> FusedBatchNormalization" where
  "FusedBatchNormalization_new nm md eps =
     \<lparr>name = nm, input_ptr = None, output_ptr = None, grad_input = None,
      weights = None, biases = None, weights_m = None, weights_v = None,
      biases_m = None, biases_v = None, grad_weights = None, grad_biases = None,
      input_desc = (0, 0, 0, 0), output_desc = (0, 0, 0, 0),
      batch_size = 0, freeze = False, load_pretrain = False, gradient_stop = False,
      bn_size = 0, bn_mode = md, bnScaleBiasMeanVarDesc = (0, 0, 0, 0),
      resultRunningMean = None, resultRunningVariance = None,
      resultSaveMean = None, resultSaveInvVariance = None, epison = eps\<rparr>"

text \<open>\<^verbatim>\<open>FusedBatchNormalization::forward\<close>, in the same three parts as the dense layer.\<close>

definition FusedBatchNormalization_allocate ::
  "env \<Rightarrow> Blob \<Rightarrow> FusedBatchNormalization \<Rightarrow> FusedBatchNormalization" where
  "FusedBatchNormalization_allocate e x L =
     (if weights L = None then
        L\<lparr>bn_size := dim_c x,
          weights := Some (Blob_new (uninit e) (1, dim_c x, 1, 1)),
          biases := Some (Blob_new (uninit e) (1, dim_c x, 1, 1)),
          weights_m := Some (Blob_new (uninit e) (1, dim_c x, 1, 1)),
          weights_v := Some (Blob_new (uninit e) (1, dim_c x, 1, 1)),
          biases_m := Some (Blob_new (uninit e) (1, dim_c x, 1, 1)),
          biases_v := Some (Blob_new (uninit e) (1, dim_c x, 1, 1))\<rparr>
      else L)"

definition FusedBatchNormalization_bind ::
  "cudnn \<Rightarrow> env \<Rightarrow> addr \<Rightarrow> Blob \<Rightarrow> FusedBatchNormalization \<times> world \<Rightarrow>
   error + FusedBatchNormalization \<times> world" where
  "FusedBatchNormalization_bind p e inp x LW =
     (case LW of (L, W) \<Rightarrow>
        if input_ptr L = None \<or> batch_size L \<noteq> dim_n x then
          let out = (case output_ptr L of
                       None \<Rightarrow> Blob_new (uninit e) (Blob_shape x)
                     | Some out \<Rightarrow> Blob_reset (uninit e) (Blob_shape x) out);
              L2 = L\<lparr>input_ptr := Some inp, batch_size := dim_n x, input_desc := Blob_shape x,
                     output_ptr := Some out, output_desc := Blob_shape out,
                     resultRunningMean := Some (replicate (bn_size L) (uninit e)),
                     resultRunningVariance := Some (replicate (bn_size L) (uninit e)),
                     resultSaveMean := Some (replicate (bn_size L) (uninit e)),
                     resultSaveInvVariance := Some (replicate (bn_size L) (uninit e)),
                     bnScaleBiasMeanVarDesc :=
                       DeriveBNTensorDescriptor p (Blob_shape x) (bn_mode L)\<rparr>
          in materialize_parameters e (L2, W)
        else Inr (L, W))"

definition FusedBatchNormalization_compute ::
  "cudnn \<Rightarrow> FusedBatchNormalization \<times> world \<Rightarrow> error + FusedBatchNormalization \<times> world" where
  "FusedBatchNormalization_compute p LW =
     (case LW of (L, W) \<Rightarrow>
        bind_err (deref (Option.bind (input_ptr L) (heap W))) (\<lambda>xin.
        bind_err (deref (output_ptr L)) (\<lambda>out.
        bind_err (deref (weights L)) (\<lambda>wt.
        bind_err (deref (biases L)) (\<lambda>bs.
        bind_err (BatchNormalizationForwardTraining p (bn_mode L) (input_desc L) (d_ptr xin)
                    (output_desc L) (d_ptr out) (bnScaleBiasMeanVarDesc L) (d_ptr wt) (d_ptr bs)
                    (resultRunningMean L) (resultRunningVariance L) (epison L)
                    (resultSaveMean L) (resultSaveInvVariance L))
          (\<lambda>(y, running_mean, running_variance, save_mean, save_inv_variance).
             Inr (L\<lparr>output_ptr := Some (out\<lparr>d_ptr := y\<rparr>),
                    resultRunningMean := running_mean,
                    resultRunningVariance := running_variance,
                    resultSaveMean := save_mean,
                    resultSaveInvVariance := save_inv_variance\<rparr>, W)))))))"

definition FusedBatchNormalization_forward ::
  "cudnn \<Rightarrow> env \<Rightarrow> addr \<Rightarrow> FusedBatchNormalization \<times> world \<Rightarrow>
   error + FusedBatchNormalization \<times> world" where
  "FusedBatchNormalization_forward p e inp LW =
     (case LW of (L, W) \<Rightarrow>
        bind_err (deref (heap W inp)) (\<lambda>x.
        bind_err (FusedBatchNormalization_bind p e inp x
                    (FusedBatchNormalization_allocate e x L, W))
          (FusedBatchNormalization_compute p)))"


section \<open>The argmax of the specification\<close>

text \<open>
  The argmax over the ten class scores that start at \<open>base\<close>: the first index, among the
  ten, whose score no other of the ten exceeds.
\<close>

definition argmax10 :: "float list \<Rightarrow> nat \<Rightarrow> nat" where
  "argmax10 xs base =
     hd (filter (\<lambda>k. list_all (\<lambda>j. xs ! (base + j) \<le> xs ! (base + k)) [0..<10]) [0..<10])"

text \<open>
  The invariant of the inner loop of \<^verbatim>\<open>get_accuracy\<close>: \<open>k\<close> is the first index of a
  greatest score among the first \<open>m\<close> scores.
\<close>

definition first_max :: "float list \<Rightarrow> nat \<Rightarrow> nat \<Rightarrow> nat \<Rightarrow> bool" where
  "first_max xs base m k \<longleftrightarrow>
     k < m \<and> (\<forall>j<m. xs ! (base + j) \<le> xs ! (base + k)) \<and> (\<forall>j<k. xs ! (base + j) < xs ! (base + k))"

section \<open>The materialization of the specification\<close>

text \<open>
  What the specification says of the parameter set after a fresh initialization and
  after a load. Fresh: every weight is the draw of the uniform distribution on
  \<open>[-sqrt (6 / fan_in), sqrt (6 / fan_in)]\<close>, where \<open>fan_in\<close> is the \<^verbatim>\<open>size()\<close> of the input
  \<open>x\<close> and the generator is seeded as \<^verbatim>\<open>init_weight_bias()\<close> seeds it; the biases and the
  four accumulators are 0. Loaded: the weights and the biases hold the content \<open>ws\<close> and
  \<open>bs\<close> of the two parameter files, the accumulators are as they were. Both on the host
  and on the device, and the shapes stay.
\<close>

definition fresh_weights :: "env \<Rightarrow> Blob \<Rightarrow> Blob \<Rightarrow> Blob" where
  "fresh_weights e x b =
     (let range = sqrt (6 / real (Blob_size x));
          draws = map (\<lambda>i. uniform_real_distribution (- range) range
                             (mt19937 e (if default_seed e = 0 then random_device e
                                         else default_seed e) i))
                    [0..<Blob_len b]
      in b\<lparr>h_ptr := draws, d_ptr := draws\<rparr>)"

definition zeroed :: "Blob \<Rightarrow> Blob" where
  "zeroed b = b\<lparr>h_ptr := replicate (Blob_len b) 0, d_ptr := replicate (Blob_len b) 0\<rparr>"

type_synonym parameters =
  "Blob option \<times> Blob option \<times> Blob option \<times> Blob option \<times> Blob option \<times> Blob option"

definition fresh_parameters :: "env \<Rightarrow> Blob \<Rightarrow> parameters \<Rightarrow> parameters" where
  "fresh_parameters e x P =
     (case P of (wt, bs, wm, wv, bm, bv) \<Rightarrow>
        (map_option (fresh_weights e x) wt, map_option zeroed bs, map_option zeroed wm,
         map_option zeroed wv, map_option zeroed bm, map_option zeroed bv))"

definition loaded_parameters :: "float list \<Rightarrow> float list \<Rightarrow> parameters \<Rightarrow> parameters" where
  "loaded_parameters ws bs P =
     (case P of (wt, bi, wm, wv, bm, bv) \<Rightarrow>
        (map_option (\<lambda>b. b\<lparr>h_ptr := ws, d_ptr := ws\<rparr>) wt,
         map_option (\<lambda>b. b\<lparr>h_ptr := bs, d_ptr := bs\<rparr>) bi, wm, wv, bm, bv))"

section \<open>The Adam rule of the specification\<close>

text \<open>
  The rule as the specification words it, on one element: the two moments from their old
  values and the gradient, and the weight from its old value and the new moments, with
  the exponent \<open>t = step + 1\<close> of the bias correction.
\<close>

definition spec_adam_m :: "float \<Rightarrow> float \<Rightarrow> float \<Rightarrow> float" where
  "spec_adam_m beta1 m g = beta1 * m + (1 - beta1) * g"

definition spec_adam_v :: "float \<Rightarrow> float \<Rightarrow> float \<Rightarrow> float" where
  "spec_adam_v beta2 v g = beta2 * v + (1 - beta2) * g\<^sup>2"

definition spec_adam_w ::
  "float \<Rightarrow> float \<Rightarrow> float \<Rightarrow> float \<Rightarrow> int \<Rightarrow> float \<Rightarrow> float \<Rightarrow> float \<Rightarrow> float" where
  "spec_adam_w lr beta1 beta2 eps t m v w =
     w - lr * (m / (1 - beta1 powi t)) / (sqrt (v / (1 - beta2 powi t)) + eps)"

section \<open>Concrete layers\<close>

text \<open>
  A dense layer with one input and one output feature after a forward and a backward
  call at batch size 1: the weight, the bias and both gradients are 1, the accumulators
  are 0, and the input blob is at address 0. The launch constants are 16 and 512.
\<close>

definition example_blob :: "shape \<Rightarrow> float list \<Rightarrow> Blob" where
  "example_blob s xs =
     (case s of (n, c, h, w) \<Rightarrow>
        \<lparr>dim_n = n, dim_c = c, dim_h = h, dim_w = w, h_ptr = xs, d_ptr = xs\<rparr>)"

definition example_env :: env where
  "example_env =
     \<lparr>BLOCK_DIM = 16, BLOCK_DIM_1D = 512, default_seed = 0, uninit = 0,
      random_device = 1, mt19937 = (\<lambda>s k. if s = 1 then 0 else 1 / 2)\<rparr>"

definition trained_layer :: Linear where
  "trained_layer =
     (Linear_new ''fc'' 1)
       \<lparr>input_ptr := Some 0,
        output_ptr := Some (example_blob (1, 1, 1, 1) [2]),
        grad_input := Some (example_blob (1, 1, 1, 1) [1]),
        weights := Some (example_blob (1, 1, 1, 1) [1]),
        biases := Some (example_blob (1, 1, 1, 1) [1]),
        weights_m := Some (example_blob (1, 1, 1, 1) [0]),
        weights_v := Some (example_blob (1, 1, 1, 1) [0]),
        biases_m := Some (example_blob (1, 1, 1, 1) [0]),
        biases_v := Some (example_blob (1, 1, 1, 1) [0]),
        grad_weights := Some (example_blob (1, 1, 1, 1) [1]),
        grad_biases := Some (example_blob (1, 1, 1, 1) [1]),
        batch_size := 1, input_size := 1, d_one_vec := Some [1]\<rparr>"

text \<open>
  A world for a softmax layer over three classes: a batch of one sample at address 0 and
  a batch of two samples at address 1, all logits 0, and the one-hot targets of the two
  batches.
\<close>

definition softmax_world :: world where
  "softmax_world =
     \<lparr>heap = [0 \<mapsto> example_blob (1, 3, 1, 1) [0, 0, 0],
              1 \<mapsto> example_blob (2, 3, 1, 1) [0, 0, 0, 0, 0, 0]],
      files = Map.empty, read_only = (\<lambda>p. False), cout = []\<rparr>"

definition target_one :: Blob where
  "target_one = example_blob (1, 3, 1, 1) [1, 0, 0]"

definition target_two :: Blob where
  "target_two = example_blob (2, 3, 1, 1) [1, 0, 0, 0, 1, 0]"

text \<open>
  A softmax layer that holds the predictions of two samples over ten classes, and a
  target: the first sample is predicted as class 2 and is of class 2, the second is
  predicted as class 1 and is of class 3.
\<close>

definition accuracy_layer :: Softmax where
  "accuracy_layer =
     (Softmax_new ''softmax'')
       \<lparr>input_ptr := Some 0,
        output_ptr := Some (example_blob (2, 10, 1, 1)
          [0, 0, 9, 0, 0, 0, 0, 0, 0, 0, 0, 5, 0, 0, 0, 0, 0, 0, 0, 0]),
        batch_size := 2, input_desc := (2, 10, 1, 1), output_desc := (2, 10, 1, 1)\<rparr>"

definition accuracy_target :: Blob where
  "accuracy_target =
     example_blob (2, 10, 1, 1) [0, 0, 1, 0, 0, 0, 0, 0, 0, 0, 0, 0, 0, 1, 0, 0, 0, 0, 0, 0]"

text \<open>
  A world for a dense layer with six input features: a batch of one sample at address 0
  and a batch of two samples at address 1. \<open>bound_layer\<close> is such a layer with one output
  feature, bound to the first batch, its buffers allocated and not yet written.
\<close>

definition dense_world :: world where
  "dense_world =
     \<lparr>heap = [0 \<mapsto> example_blob (1, 6, 1, 1) [1, 2, 3, 4, 5, 6],
              1 \<mapsto> example_blob (2, 6, 1, 1) [1, 2, 3, 4, 5, 6, 6, 5, 4, 3, 2, 1]],
      files = Map.empty, read_only = (\<lambda>p. False), cout = []\<rparr>"

definition bound_layer :: Linear where
  "bound_layer =
     (Linear_new ''fc'' 1)
       \<lparr>input_ptr := Some 0,
        output_ptr := Some (Blob_new 0 (1, 1, 1, 1)),
        weights := Some (Blob_new 0 (1, 1, 6, 1)),
        biases := Some (Blob_new 0 (1, 1, 1, 1)),
        weights_m := Some (Blob_new 0 (1, 1, 6, 1)),
        weights_v := Some (Blob_new 0 (1, 1, 6, 1)),
        biases_m := Some (Blob_new 0 (1, 1, 1, 1)),
        biases_v := Some (Blob_new 0 (1, 1, 1, 1)),
        batch_size := 1, input_size := 6, d_one_vec := Some [1]\<rparr>"

text \<open>
  The state after the first forward call of a new dense layer on the first batch, in
  \<open>example_env\<close>: every draw is 0, so every weight is -1 and the output is -21.
\<close>

definition initialized_layer :: Linear where
  "initialized_layer =
     bound_layer
       \<lparr>output_ptr := Some ((Blob_new 0 (1, 1, 1, 1))\<lparr>d_ptr := [- 21]\<rparr>),
        weights := Some (example_blob (1, 1, 6, 1) [- 1, - 1, - 1, - 1, - 1, - 1])\<rparr>"

definition initialized_world :: world where
  "initialized_world = dense_world\<lparr>cout := [''.. initialized fc layer ..'']\<rparr>"

text \<open>
  The same world with the two parameter files of the layer \<open>fc\<close>: six weights and one
  bias.
\<close>

definition pretrained_world :: world where
  "pretrained_world =
     dense_world\<lparr>files := [''fc.bin'' \<mapsto> [1, 2, 3, 4, 5, 6], ''fc.bias.bin'' \<mapsto> [7]]\<rparr>"

text \<open>
  A compute library for the runs of the convolution and the batch normalization layer:
  a convolution with a kernel of extent 1 keeps the extent of the input and has as many
  channels as there are filters, no workspace is needed and nothing is reported, and the
  operations on the output leave it as it is.
\<close>

definition example_cudnn :: cudnn where
  "example_cudnn =
     \<lparr>GetConvolution2dForwardOutputDim =
        (\<lambda>d x f. case x of (n, c, h, w) \<Rightarrow> (n, fst f, h, w)),
      algorithms = (\<lambda>x f d y. ((0, 0), (0, 0), (0, 0))),
      algorithm_report = (\<lambda>nm. []),
      ConvolutionForward = (\<lambda>xd x fd w cd algo ws yd y. Inr y),
      AddTensor = (\<lambda>bd b yd y. Inr y),
      DeriveBNTensorDescriptor = (\<lambda>x md. case x of (n, c, h, w) \<Rightarrow> (1, c, 1, 1)),
      BatchNormalizationForwardTraining =
        (\<lambda>md xd x yd y bd sc bi rm rv eps sm sv. Inr (y, rm, rv, sm, sv))\<rparr>"

text \<open>
  The state after the first forward call of a new convolution layer with one filter of
  extent 1, and of a new batch normalization layer, on the first batch of \<open>dense_world\<close>,
  in \<open>example_env\<close> with \<open>example_cudnn\<close>: every weight is -1.
\<close>

definition initialized_conv :: Conv2D where
  "initialized_conv =
     (Conv2D_new ''conv'' 1 1 1 0 1)
       \<lparr>input_ptr := Some 0,
        output_ptr := Some (Blob_new 0 (1, 1, 1, 1)),
        weights := Some (example_blob (1, 6, 1, 1) [- 1, - 1, - 1, - 1, - 1, - 1]),
        biases := Some (Blob_new 0 (1, 1, 1, 1)),
        weights_m := Some (Blob_new 0 (1, 6, 1, 1)),
        weights_v := Some (Blob_new 0 (1, 6, 1, 1)),
        biases_m := Some (Blob_new 0 (1, 1, 1, 1)),
        biases_v := Some (Blob_new 0 (1, 1, 1, 1)),
        input_desc := (1, 6, 1, 1), output_desc := (1, 1, 1, 1), batch_size := 1,
        output_dims := (1, 1, 1, 1), filter_desc := (1, 6, 1, 1), bias_desc := (1, 1, 1, 1)\<rparr>"

definition initialized_bn :: FusedBatchNormalization where
  "initialized_bn =
     (FusedBatchNormalization_new ''bn'' CUDNN_BATCHNORM_SPATIAL (1 / 1000))
       \<lparr>input_ptr := Some 0,
        output_ptr := Some (Blob_new 0 (1, 6, 1, 1)),
        weights := Some (example_blob (1, 6, 1, 1) [- 1, - 1, - 1, - 1, - 1, - 1]),
        biases := Some (Blob_new 0 (1, 6, 1, 1)),
        weights_m := Some (Blob_new 0 (1, 6, 1, 1)),
        weights_v := Some (Blob_new 0 (1, 6, 1, 1)),
        biases_m := Some (Blob_new 0 (1, 6, 1, 1)),
        biases_v := Some (Blob_new 0 (1, 6, 1, 1)),
        input_desc := (1, 6, 1, 1), output_desc := (1, 6, 1, 1), batch_size := 1,
        bn_size := 6, bnScaleBiasMeanVarDesc := (1, 6, 1, 1),
        resultRunningMean := Some [0, 0, 0, 0, 0, 0],
        resultRunningVariance := Some [0, 0, 0, 0, 0, 0],
        resultSaveMean := Some [0, 0, 0, 0, 0, 0],
        resultSaveInvVariance := Some [0, 0, 0, 0, 0, 0]\<rparr>"

section \<open>Grid-stride loops visit every index once\<close>

text \<open>
  The set \<open>D\<close> holds the indices already visited. A loop body that takes a state correct
  for \<open>D\<close> to a state correct for \<open>D\<close> and the index it is run at gives, after a launch of a
  non-empty grid, a state correct for all the indices below \<open>n\<close>.
\<close>

lemma stride_shift:
  fixes i j stride :: nat
  assumes "i + stride \<le> j"
  shows "(j - i) mod stride = (j - (i + stride)) mod stride"
proof -
  have "stride \<le> j - i" using assms by simp
  then have "(j - i) mod stride = (j - i - stride) mod stride" by (rule le_mod_geq)
  then show ?thesis by simp
qed

lemma CUDA_1D_KERNEL_LOOP_invariant:
  assumes step: "\<And>D i s. P D s \<Longrightarrow> i < n \<Longrightarrow> i \<notin> D \<Longrightarrow> P (insert i D) (body i s)"
    and pos: "0 < stride"
  shows "P D s \<Longrightarrow> (\<forall>j. i \<le> j \<and> (j - i) mod stride = 0 \<longrightarrow> j \<notin> D) \<Longrightarrow>
     \<exists>s'. CUDA_1D_KERNEL_LOOP body n stride i s = Some s' \<and>
          P (D \<union> {j. j < n \<and> i \<le> j \<and> (j - i) mod stride = 0}) s'"
proof (induction "n - i" arbitrary: i D s rule: less_induct)
  case less
  show ?case
  proof (cases "i < n")
    case False
    then have e: "D \<union> {j. j < n \<and> i \<le> j \<and> (j - i) mod stride = 0} = D" by auto
    show ?thesis
      unfolding e using False less.prems(1) by (subst CUDA_1D_KERNEL_LOOP.simps) simp
  next
    case True
    have iD: "i \<notin> D" using less.prems(2) by auto
    have P1: "P (insert i D) (body i s)" using step [OF less.prems(1) True iD] .
    have fresh: "\<forall>j. i + stride \<le> j \<and> (j - (i + stride)) mod stride = 0 \<longrightarrow> j \<notin> insert i D"
    proof (intro allI impI)
      fix j assume a: "i + stride \<le> j \<and> (j - (i + stride)) mod stride = 0"
      then have "(j - i) mod stride = 0" using stride_shift [of i stride j] by simp
      with a less.prems(2) have "j \<notin> D" by auto
      moreover have "j \<noteq> i" using a pos by auto
      ultimately show "j \<notin> insert i D" by simp
    qed
    have "n - (i + stride) < n - i" using True pos by simp
    from less.hyps [OF this P1 fresh]
    obtain s' where s': "CUDA_1D_KERNEL_LOOP body n stride (i + stride) (body i s) = Some s'"
      and P': "P (insert i D \<union> {j. j < n \<and> i + stride \<le> j \<and> (j - (i + stride)) mod stride = 0}) s'"
      by blast
    have seteq: "insert i D \<union> {j. j < n \<and> i + stride \<le> j \<and> (j - (i + stride)) mod stride = 0}
        = D \<union> {j. j < n \<and> i \<le> j \<and> (j - i) mod stride = 0}"
    proof -
      have "\<And>j. (j < n \<and> i \<le> j \<and> (j - i) mod stride = 0) \<longleftrightarrow>
             (j = i \<or> (j < n \<and> i + stride \<le> j \<and> (j - (i + stride)) mod stride = 0))"
      proof -
        fix j
        show "(j < n \<and> i \<le> j \<and> (j - i) mod stride = 0) \<longleftrightarrow>
             (j = i \<or> (j < n \<and> i + stride \<le> j \<and> (j - (i + stride)) mod stride = 0))"
        proof (cases "i + stride \<le> j")
          case True
          then have "(j - i) mod stride = (j - (i + stride)) mod stride" by (rule stride_shift)
          with True pos show ?thesis by auto
        next
          case False
          show ?thesis
          proof (cases "j = i")
            case True with \<open>i < n\<close> show ?thesis by simp
          next
            case F2: False
            have "\<not> (i \<le> j \<and> (j - i) mod stride = 0)"
            proof
              assume b: "i \<le> j \<and> (j - i) mod stride = 0"
              then have "0 < j - i" "j - i < stride" using F2 False by auto
              then show False using b by simp
            qed
            with False F2 show ?thesis by auto
          qed
        qed
      qed
      then show ?thesis by auto
    qed
    show ?thesis
      unfolding seteq [symmetric] using True s' P' by (subst CUDA_1D_KERNEL_LOOP.simps) simp
  qed
qed


lemma run_threads_append:
  "run_threads k (xs @ ys) s =
     (case run_threads k xs s of None \<Rightarrow> None | Some s' \<Rightarrow> run_threads k ys s')"
  by (induction xs arbitrary: s) (auto split: option.splits)

lemma residue_class:
  fixes t T j :: nat
  assumes "t < T"
  shows "(t \<le> j \<and> (j - t) mod T = 0) \<longleftrightarrow> j mod T = t"
proof
  assume a: "t \<le> j \<and> (j - t) mod T = 0"
  then have "j = (j - t) + t" by simp
  then have "j mod T = ((j - t) mod T + t mod T) mod T" by (metis mod_add_eq)
  with a assms show "j mod T = t" by simp
next
  assume b: "j mod T = t"
  then have le: "t \<le> j" by (metis mod_less_eq_dividend)
  have "j - t = j div T * T" using b by (metis minus_mod_eq_div_mult)
  then show "t \<le> j \<and> (j - t) mod T = 0" using le by simp
qed

lemma launch_invariant:
  assumes step: "\<And>D i s. P D s \<Longrightarrow> i < n \<Longrightarrow> i \<notin> D \<Longrightarrow> P (insert i D) (body i s)"
    and grid: "0 < gridDim" and block: "0 < blockDim"
    and init: "P {} s"
  shows "\<exists>s'. launch gridDim blockDim
                (\<lambda>gd bd bi ti. CUDA_1D_KERNEL_LOOP body n (bd * gd) (bi * bd + ti)) s = Some s' \<and>
              P {j. j < n} s'"
proof -
  define T where "T = gridDim * blockDim"
  have Tpos: "0 < T" using grid block by (simp add: T_def)
  define K where "K = (\<lambda>tid. CUDA_1D_KERNEL_LOOP body n T tid)"
  have K: "K = CUDA_1D_KERNEL_LOOP body n (blockDim * gridDim)"
    by (simp add: K_def T_def mult.commute)
  have run: "t \<le> T \<Longrightarrow>
      \<exists>s'. run_threads K [0..<t] s = Some s' \<and> P {j. j < n \<and> j mod T < t} s'" for t
  proof (induction t)
    case 0
    then show ?case using init by simp
  next
    case (Suc t)
    then obtain s1 where s1: "run_threads K [0..<t] s = Some s1"
      and P1: "P {j. j < n \<and> j mod T < t} s1" by auto
    have tT: "t < T" using Suc.prems by simp
    have fresh: "\<forall>j. t \<le> j \<and> (j - t) mod T = 0 \<longrightarrow> j \<notin> {j. j < n \<and> j mod T < t}"
      using residue_class [OF tT] by auto
    from CUDA_1D_KERNEL_LOOP_invariant [of P n body T, OF step Tpos P1 fresh]
    obtain s2 where s2: "CUDA_1D_KERNEL_LOOP body n T t s1 = Some s2"
      and P2: "P ({j. j < n \<and> j mod T < t} \<union> {j. j < n \<and> t \<le> j \<and> (j - t) mod T = 0}) s2"
      by blast
    have "{j. j < n \<and> j mod T < t} \<union> {j. j < n \<and> t \<le> j \<and> (j - t) mod T = 0}
        = {j. j < n \<and> j mod T < Suc t}"
      using residue_class [OF tT] by (auto simp: less_Suc_eq)
    with P2 have "P {j. j < n \<and> j mod T < Suc t} s2" by simp
    moreover have "run_threads K [0..<Suc t] s = Some s2"
      using s1 s2 by (simp add: run_threads_append K_def)
    ultimately show ?case by blast
  qed
  from run [of T] obtain s' where r: "run_threads K [0..<T] s = Some s'"
    and P': "P {j. j < n \<and> j mod T < T} s'" by auto
  have "{j. j < n \<and> j mod T < T} = {j. j < n}" using Tpos by auto
  with P' have "P {j. j < n} s'" by simp
  moreover have "launch gridDim blockDim
      (\<lambda>gd bd bi ti. CUDA_1D_KERNEL_LOOP body n (bd * gd) (bi * bd + ti)) s = Some s'"
    using grid block r by (simp add: launch_def K T_def)
  ultimately show ?thesis by blast
qed


lemma adam_update_launch:
  assumes grid: "0 < gridDim" and block: "0 < blockDim"
    and len: "length m = N" "length v = N" "length w = N"
  shows "launch gridDim blockDim (adam_update N step g beta1 beta2 eps_hat lr) (m, v, w) =
     Some (map (\<lambda>i. m ! i * beta1 + g ! i * (1 - beta1)) [0..<N],
           map (\<lambda>i. v ! i * beta2 + g ! i * g ! i * (1 - beta2)) [0..<N],
           map (\<lambda>i. w ! i - lr * ((m ! i * beta1 + g ! i * (1 - beta1)) / (1 - beta1 powi sint (step + 1))) /
                        (sqrt ((v ! i * beta2 + g ! i * g ! i * (1 - beta2)) / (1 - beta2 powi sint (step + 1)))
                         + eps_hat)) [0..<N])"
proof -
  define fm where "fm = (\<lambda>i. m ! i * beta1 + g ! i * (1 - beta1))"
  define fv where "fv = (\<lambda>i. v ! i * beta2 + g ! i * g ! i * (1 - beta2))"
  define fw where "fw = (\<lambda>i. w ! i - lr * (fm i / (1 - beta1 powi sint (step + 1))) /
                        (sqrt (fv i / (1 - beta2 powi sint (step + 1))) + eps_hat))"
  define P where "P = (\<lambda>D (s :: float list \<times> float list \<times> float list).
     case s of (m', v', w') \<Rightarrow> length m' = N \<and> length v' = N \<and> length w' = N \<and>
       (\<forall>i<N. m' ! i = (if i \<in> D then fm i else m ! i) \<and>
               v' ! i = (if i \<in> D then fv i else v ! i) \<and>
               w' ! i = (if i \<in> D then fw i else w ! i)))"
  have step: "\<And>D i s. P D s \<Longrightarrow> i < N \<Longrightarrow> i \<notin> D \<Longrightarrow>
      P (insert i D) (adam_body step g beta1 beta2 eps_hat lr i s)"
    by (auto simp: P_def adam_body_def fm_def fv_def fw_def Let_def nth_list_update)
  have init: "P {} (m, v, w)" using len by (simp add: P_def)
  have unf: "adam_update N step g beta1 beta2 eps_hat lr =
      (\<lambda>gd bd bi ti. CUDA_1D_KERNEL_LOOP (adam_body step g beta1 beta2 eps_hat lr) N (bd * gd) (bi * bd + ti))"
    by (intro ext) (simp add: adam_update_def)
  from launch_invariant [of P N "adam_body step g beta1 beta2 eps_hat lr", OF step grid block init]
  obtain s' where r: "launch gridDim blockDim (adam_update N step g beta1 beta2 eps_hat lr) (m, v, w) = Some s'"
    and P': "P {j. j < N} s'" unfolding unf by blast
  obtain m' v' w' where s': "s' = (m', v', w')" by (cases s') auto
  have "m' = map fm [0..<N]" using P' by (intro nth_equalityI) (auto simp: P_def s')
  moreover have "v' = map fv [0..<N]" using P' by (intro nth_equalityI) (auto simp: P_def s')
  moreover have "w' = map fw [0..<N]" using P' by (intro nth_equalityI) (auto simp: P_def s')
  ultimately show ?thesis using r by (simp add: s' fm_def fv_def fw_def)
qed

lemma rmsprop_update_launch:
  assumes grid: "0 < gridDim" and block: "0 < blockDim"
    and len: "length m = N" "length w = N"
  shows "launch gridDim blockDim (rmsprop_update N g decay eps_hat lr) (m, w) =
     Some (map (\<lambda>i. m ! i + (1 - decay) * (g ! i * g ! i - m ! i)) [0..<N],
           map (\<lambda>i. w ! i - lr * g ! i /
                        sqrt (eps_hat + (m ! i + (1 - decay) * (g ! i * g ! i - m ! i)))) [0..<N])"
proof -
  define fm where "fm = (\<lambda>i. m ! i + (1 - decay) * (g ! i * g ! i - m ! i))"
  define fw where "fw = (\<lambda>i. w ! i - lr * g ! i / sqrt (eps_hat + fm i))"
  define P where "P = (\<lambda>D (s :: float list \<times> float list).
     case s of (m', w') \<Rightarrow> length m' = N \<and> length w' = N \<and>
       (\<forall>i<N. m' ! i = (if i \<in> D then fm i else m ! i) \<and>
               w' ! i = (if i \<in> D then fw i else w ! i)))"
  have step: "\<And>D i s. P D s \<Longrightarrow> i < N \<Longrightarrow> i \<notin> D \<Longrightarrow>
      P (insert i D) (rmsprop_body g decay eps_hat lr i s)"
    by (auto simp: P_def rmsprop_body_def fm_def fw_def Let_def nth_list_update)
  have init: "P {} (m, w)" using len by (simp add: P_def)
  have unf: "rmsprop_update N g decay eps_hat lr =
      (\<lambda>gd bd bi ti. CUDA_1D_KERNEL_LOOP (rmsprop_body g decay eps_hat lr) N (bd * gd) (bi * bd + ti))"
    by (intro ext) (simp add: rmsprop_update_def)
  from launch_invariant [of P N "rmsprop_body g decay eps_hat lr", OF step grid block init]
  obtain s' where r: "launch gridDim blockDim (rmsprop_update N g decay eps_hat lr) (m, w) = Some s'"
    and P': "P {j. j < N} s'" unfolding unf by blast
  obtain m' w' where s': "s' = (m', w')" by (cases s') auto
  have "m' = map fm [0..<N]" using P' by (intro nth_equalityI) (auto simp: P_def s')
  moreover have "w' = map fw [0..<N]" using P' by (intro nth_equalityI) (auto simp: P_def s')
  ultimately show ?thesis using r by (simp add: s' fm_def fw_def)
qed

text \<open>
  As long as the step counter is below the greatest \<^verbatim>\<open>int\<close>, the sum \<^verbatim>\<open>step + 1\<close> of the
  kernel is the sum of the integers.
\<close>

lemma sint_succ:
  fixes step :: "32 word"
  assumes "sint step < 2147483647"
  shows "sint (step + 1) = sint step + 1"
proof -
  have "- (2 ^ 31) \<le> sint step" using sint_ge [of step] by simp
  then have "signed_take_bit 31 (sint step + 1) = sint step + 1"
    using assms by (intro signed_take_bit_int_eq_self) simp_all
  then show ?thesis by (simp add: sint_word_ariths)
qed

lemma adam_update_launch_spec:
  assumes "0 < gridDim" and "0 < blockDim"
    and "length m = N" and "length v = N" and "length w = N"
    and "sint step < 2147483647"
  shows "launch gridDim blockDim (adam_update N step g beta1 beta2 eps lr) (m, v, w) =
     Some (map (\<lambda>i. spec_adam_m beta1 (m ! i) (g ! i)) [0..<N],
           map (\<lambda>i. spec_adam_v beta2 (v ! i) (g ! i)) [0..<N],
           map (\<lambda>i. spec_adam_w lr beta1 beta2 eps (sint step + 1)
                       (spec_adam_m beta1 (m ! i) (g ! i)) (spec_adam_v beta2 (v ! i) (g ! i))
                       (w ! i)) [0..<N])"
  using adam_update_launch [OF assms(1-5), of step g beta1 beta2 eps lr] sint_succ [OF assms(6)]
  by (simp add: spec_adam_m_def spec_adam_v_def spec_adam_w_def power2_eq_square mult.commute)

lemma adam_launch_result:
  assumes "0 < BLOCK_DIM_1D e" and "sint step < 2147483647"
    and "length (d_ptr w) = Blob_len w" and "length (d_ptr m) = Blob_len w"
    and "length (d_ptr v) = Blob_len w" and "Blob_len w \<le> length (d_ptr g)"
  shows "adam_launch e lr beta1 beta2 eps step w m v g =
     Inr (w\<lparr>d_ptr := map (\<lambda>i. spec_adam_w lr beta1 beta2 eps (sint step + 1)
                            (spec_adam_m beta1 (d_ptr m ! i) (d_ptr g ! i))
                            (spec_adam_v beta2 (d_ptr v ! i) (d_ptr g ! i))
                            (d_ptr w ! i)) [0..<Blob_len w]\<rparr>,
          m\<lparr>d_ptr := map (\<lambda>i. spec_adam_m beta1 (d_ptr m ! i) (d_ptr g ! i)) [0..<Blob_len w]\<rparr>,
          v\<lparr>d_ptr := map (\<lambda>i. spec_adam_v beta2 (d_ptr v ! i) (d_ptr g ! i)) [0..<Blob_len w]\<rparr>)"
  using assms
    adam_update_launch_spec [of 16 "BLOCK_DIM_1D e" "d_ptr m" "Blob_len w" "d_ptr v" "d_ptr w" step
      "d_ptr g" beta1 beta2 eps lr]
  by (simp add: adam_launch_def bind_err_def device_launch_def)

lemma update_weights_biases_with_adam_result:
  assumes "0 < BLOCK_DIM_1D e" and "sint step < 2147483647"
    and "weights L = Some wt" and "weights_m L = Some wm" and "weights_v L = Some wv"
    and "grad_weights L = Some gw"
    and "biases L = Some bs" and "biases_m L = Some bm" and "biases_v L = Some bv"
    and "grad_biases L = Some gb"
    and "length (d_ptr wt) = Blob_len wt" and "length (d_ptr wm) = Blob_len wt"
    and "length (d_ptr wv) = Blob_len wt" and "Blob_len wt \<le> length (d_ptr gw)"
    and "length (d_ptr bs) = Blob_len bs" and "length (d_ptr bm) = Blob_len bs"
    and "length (d_ptr bv) = Blob_len bs" and "Blob_len bs \<le> length (d_ptr gb)"
  shows "update_weights_biases_with_adam e lr beta1 beta2 eps step L =
     Inr (L\<lparr>weights := Some (wt\<lparr>d_ptr :=
                map (\<lambda>i. spec_adam_w lr beta1 beta2 eps (sint step + 1)
                            (spec_adam_m beta1 (d_ptr wm ! i) (d_ptr gw ! i))
                            (spec_adam_v beta2 (d_ptr wv ! i) (d_ptr gw ! i))
                            (d_ptr wt ! i)) [0..<Blob_len wt]\<rparr>),
            weights_m := Some (wm\<lparr>d_ptr :=
                map (\<lambda>i. spec_adam_m beta1 (d_ptr wm ! i) (d_ptr gw ! i)) [0..<Blob_len wt]\<rparr>),
            weights_v := Some (wv\<lparr>d_ptr :=
                map (\<lambda>i. spec_adam_v beta2 (d_ptr wv ! i) (d_ptr gw ! i)) [0..<Blob_len wt]\<rparr>),
            biases := Some (bs\<lparr>d_ptr :=
                map (\<lambda>i. spec_adam_w lr beta1 beta2 eps (sint step + 1)
                            (spec_adam_m beta1 (d_ptr bm ! i) (d_ptr gb ! i))
                            (spec_adam_v beta2 (d_ptr bv ! i) (d_ptr gb ! i))
                            (d_ptr bs ! i)) [0..<Blob_len bs]\<rparr>),
            biases_m := Some (bm\<lparr>d_ptr :=
                map (\<lambda>i. spec_adam_m beta1 (d_ptr bm ! i) (d_ptr gb ! i)) [0..<Blob_len bs]\<rparr>),
            biases_v := Some (bv\<lparr>d_ptr :=
                map (\<lambda>i. spec_adam_v beta2 (d_ptr bv ! i) (d_ptr gb ! i)) [0..<Blob_len bs]\<rparr>)\<rparr>)"
proof -
  note W = adam_launch_result [OF assms(1,2) assms(11-14), of lr beta1 beta2 eps]
  note B = adam_launch_result [OF assms(1,2) assms(15-18), of lr beta1 beta2 eps]
  show ?thesis
    unfolding update_weights_biases_with_adam_def
    using assms(3-10) by (simp add: W B bind_err_def deref_def)
qed


text \<open>
  C2. For a step counter below the greatest \<^verbatim>\<open>int\<close>: one launch of the Adam kernel on
  arrays of \<open>N\<close> elements ends, and for every index \<open>i < N\<close> it has performed exactly
  \<open>m[i] := beta1\<cdot>m[i] + (1 - beta1)\<cdot>g[i]\<close>, \<open>v[i] := beta2\<cdot>v[i] + (1 - beta2)\<cdot>g[i]\<^sup>2\<close> and then
  \<open>w[i] := w[i] - lr\<cdot>(m[i] / (1 - beta1^(step+1))) / (sqrt (v[i] / (1 - beta2^(step+1))) + eps)\<close>,
  each element from the elements at its own index only. And
  \<^verbatim>\<open>Layer::update_weights_biases_with_adam\<close>, on a layer that has weights, biases, their
  gradients and their accumulators, returns the layer in which that rule has been
  applied once to every element of the weights, with the weight gradient and the weight
  accumulators, and once to every element of the biases, with the bias gradient and the
  bias accumulators; nothing else of the layer has changed.
\<close>

theorem adam_update_elementwise:
  assumes "0 < gridDim" and "0 < blockDim"
    and "length m = N" and "length v = N" and "length w = N"
    and "sint step < 2147483647"
    and "0 < BLOCK_DIM_1D e"
    and "weights L = Some wt" and "weights_m L = Some wm" and "weights_v L = Some wv"
    and "grad_weights L = Some gw"
    and "biases L = Some bs" and "biases_m L = Some bm" and "biases_v L = Some bv"
    and "grad_biases L = Some gb"
    and "length (d_ptr wt) = Blob_len wt" and "length (d_ptr wm) = Blob_len wt"
    and "length (d_ptr wv) = Blob_len wt" and "Blob_len wt \<le> length (d_ptr gw)"
    and "length (d_ptr bs) = Blob_len bs" and "length (d_ptr bm) = Blob_len bs"
    and "length (d_ptr bv) = Blob_len bs" and "Blob_len bs \<le> length (d_ptr gb)"
  shows "(\<exists>m' v' w'.
       launch gridDim blockDim (adam_update N step g beta1 beta2 eps lr) (m, v, w) = Some (m', v', w') \<and>
       length m' = N \<and> length v' = N \<and> length w' = N \<and>
       (\<forall>i<N. m' ! i = beta1 * m ! i + (1 - beta1) * g ! i \<and>
               v' ! i = beta2 * v ! i + (1 - beta2) * (g ! i)\<^sup>2 \<and>
               w' ! i = w ! i - lr * (m' ! i / (1 - beta1 powi (sint step + 1))) /
                          (sqrt (v' ! i / (1 - beta2 powi (sint step + 1))) + eps))) \<and>
     update_weights_biases_with_adam e lr beta1 beta2 eps step L =
       Inr (L\<lparr>weights := Some (wt\<lparr>d_ptr :=
                  map (\<lambda>i. spec_adam_w lr beta1 beta2 eps (sint step + 1)
                              (spec_adam_m beta1 (d_ptr wm ! i) (d_ptr gw ! i))
                              (spec_adam_v beta2 (d_ptr wv ! i) (d_ptr gw ! i))
                              (d_ptr wt ! i)) [0..<Blob_len wt]\<rparr>),
              weights_m := Some (wm\<lparr>d_ptr :=
                  map (\<lambda>i. spec_adam_m beta1 (d_ptr wm ! i) (d_ptr gw ! i)) [0..<Blob_len wt]\<rparr>),
              weights_v := Some (wv\<lparr>d_ptr :=
                  map (\<lambda>i. spec_adam_v beta2 (d_ptr wv ! i) (d_ptr gw ! i)) [0..<Blob_len wt]\<rparr>),
              biases := Some (bs\<lparr>d_ptr :=
                  map (\<lambda>i. spec_adam_w lr beta1 beta2 eps (sint step + 1)
                              (spec_adam_m beta1 (d_ptr bm ! i) (d_ptr gb ! i))
                              (spec_adam_v beta2 (d_ptr bv ! i) (d_ptr gb ! i))
                              (d_ptr bs ! i)) [0..<Blob_len bs]\<rparr>),
              biases_m := Some (bm\<lparr>d_ptr :=
                  map (\<lambda>i. spec_adam_m beta1 (d_ptr bm ! i) (d_ptr gb ! i)) [0..<Blob_len bs]\<rparr>),
              biases_v := Some (bv\<lparr>d_ptr :=
                  map (\<lambda>i. spec_adam_v beta2 (d_ptr bv ! i) (d_ptr gb ! i)) [0..<Blob_len bs]\<rparr>)\<rparr>)"
proof -
  have kern: "\<exists>m' v' w'.
       launch gridDim blockDim (adam_update N step g beta1 beta2 eps lr) (m, v, w) = Some (m', v', w') \<and>
       length m' = N \<and> length v' = N \<and> length w' = N \<and>
       (\<forall>i<N. m' ! i = beta1 * m ! i + (1 - beta1) * g ! i \<and>
               v' ! i = beta2 * v ! i + (1 - beta2) * (g ! i)\<^sup>2 \<and>
               w' ! i = w ! i - lr * (m' ! i / (1 - beta1 powi (sint step + 1))) /
                          (sqrt (v' ! i / (1 - beta2 powi (sint step + 1))) + eps))"
    using adam_update_launch_spec [OF assms(1-6), of g beta1 beta2 eps lr]
    by (simp add: spec_adam_m_def spec_adam_v_def spec_adam_w_def)
  note layer = update_weights_biases_with_adam_result [OF assms(7,6) assms(8-23), of lr beta1 beta2 eps]
  show ?thesis using kern layer by (rule conjI)
qed

text \<open>
  The theorem at a launch of 16 blocks of 512 threads on arrays of two elements, and on
  the layer \<open>trained_layer\<close> (weight 1, bias 1, both gradients 1, accumulators 0) with
  the learning rate 1, both decay rates 1/2, eps 0 and the step 0: the moments become 1/2
  and the weight and the bias become 0.
\<close>

theorem adam_update_elementwise_witness:
  "launch 16 512 (adam_update 2 0 [1, 2] (1 / 2) (1 / 2) 0 1) ([0, 0], [0, 0], [3, 3])
     = Some ([1 / 2, 1], [1 / 2, 2], [2, 2]) \<and>
   update_weights_biases_with_adam example_env 1 (1 / 2) (1 / 2) 0 0 trained_layer =
     Inr (trained_layer
            \<lparr>weights := Some ((example_blob (1, 1, 1, 1) [1])\<lparr>d_ptr := [0]\<rparr>),
             weights_m := Some ((example_blob (1, 1, 1, 1) [0])\<lparr>d_ptr := [1 / 2]\<rparr>),
             weights_v := Some ((example_blob (1, 1, 1, 1) [0])\<lparr>d_ptr := [1 / 2]\<rparr>),
             biases := Some ((example_blob (1, 1, 1, 1) [1])\<lparr>d_ptr := [0]\<rparr>),
             biases_m := Some ((example_blob (1, 1, 1, 1) [0])\<lparr>d_ptr := [1 / 2]\<rparr>),
             biases_v := Some ((example_blob (1, 1, 1, 1) [0])\<lparr>d_ptr := [1 / 2]\<rparr>)\<rparr>)"
proof -
  note T = adam_update_elementwise [of 16 512 "[0, 0]" 2 "[0, 0]" "[3, 3]" 0 example_env
      trained_layer "example_blob (1, 1, 1, 1) [1]" "example_blob (1, 1, 1, 1) [0]"
      "example_blob (1, 1, 1, 1) [0]" "example_blob (1, 1, 1, 1) [1]"
      "example_blob (1, 1, 1, 1) [1]" "example_blob (1, 1, 1, 1) [0]"
      "example_blob (1, 1, 1, 1) [0]" "example_blob (1, 1, 1, 1) [1]"
      "[1, 2]" "1 / 2" "1 / 2" 0 1]
  have h: "0 < BLOCK_DIM_1D example_env"
    "weights trained_layer = Some (example_blob (1, 1, 1, 1) [1])"
    "weights_m trained_layer = Some (example_blob (1, 1, 1, 1) [0])"
    "weights_v trained_layer = Some (example_blob (1, 1, 1, 1) [0])"
    "grad_weights trained_layer = Some (example_blob (1, 1, 1, 1) [1])"
    "biases trained_layer = Some (example_blob (1, 1, 1, 1) [1])"
    "biases_m trained_layer = Some (example_blob (1, 1, 1, 1) [0])"
    "biases_v trained_layer = Some (example_blob (1, 1, 1, 1) [0])"
    "grad_biases trained_layer = Some (example_blob (1, 1, 1, 1) [1])"
    by (simp_all add: trained_layer_def example_env_def)
  have l: "Blob_len (example_blob (n, c, h, k) xs) = n * c * h * k"
    "d_ptr (example_blob (n, c, h, k) xs) = xs" for n c h k xs
    by (simp_all add: example_blob_def Blob_len_def)
  from T [OF _ _ _ _ _ _ h] have
    "(\<exists>m' v' w'.
       launch 16 512 (adam_update 2 0 [1, 2] (1 / 2) (1 / 2) 0 1) ([0, 0], [0, 0], [3, 3]) = Some (m', v', w') \<and>
       length m' = 2 \<and> length v' = 2 \<and> length w' = 2 \<and>
       (\<forall>i<2. m' ! i = (1 / 2) * [0, 0] ! i + (1 - 1 / 2) * [1, 2] ! i \<and>
               v' ! i = (1 / 2) * [0, 0] ! i + (1 - 1 / 2) * ([1, 2] ! i)\<^sup>2 \<and>
               w' ! i = [3, 3] ! i - 1 * (m' ! i / (1 - (1 / 2) powi (sint (0 :: 32 word) + 1))) /
                          (sqrt (v' ! i / (1 - (1 / 2) powi (sint (0 :: 32 word) + 1))) + 0)))"
    and L: "update_weights_biases_with_adam example_env 1 (1 / 2) (1 / 2) 0 0 trained_layer =
     Inr (trained_layer
            \<lparr>weights := Some ((example_blob (1, 1, 1, 1) [1])\<lparr>d_ptr := [0]\<rparr>),
             weights_m := Some ((example_blob (1, 1, 1, 1) [0])\<lparr>d_ptr := [1 / 2]\<rparr>),
             weights_v := Some ((example_blob (1, 1, 1, 1) [0])\<lparr>d_ptr := [1 / 2]\<rparr>),
             biases := Some ((example_blob (1, 1, 1, 1) [1])\<lparr>d_ptr := [0]\<rparr>),
             biases_m := Some ((example_blob (1, 1, 1, 1) [0])\<lparr>d_ptr := [1 / 2]\<rparr>),
             biases_v := Some ((example_blob (1, 1, 1, 1) [0])\<lparr>d_ptr := [1 / 2]\<rparr>)\<rparr>)"
    by (simp_all add: l spec_adam_m_def spec_adam_v_def spec_adam_w_def)
  then obtain m' v' w' where
    r: "launch 16 512 (adam_update 2 0 [1, 2] (1 / 2) (1 / 2) 0 1) ([0, 0], [0, 0], [3, 3]) = Some (m', v', w')"
    and len: "length m' = 2" "length v' = 2" "length w' = 2"
    and el: "\<forall>i<2. m' ! i = (1 / 2) * [0, 0] ! i + (1 - 1 / 2) * [1, 2] ! i \<and>
               v' ! i = (1 / 2) * [0, 0] ! i + (1 - 1 / 2) * ([1, 2] ! i)\<^sup>2 \<and>
               w' ! i = [3, 3] ! i - 1 * (m' ! i / (1 - (1 / 2) powi (sint (0 :: 32 word) + 1))) /
                          (sqrt (v' ! i / (1 - (1 / 2) powi (sint (0 :: 32 word) + 1))) + 0)"
    by blast
  from el [rule_format, of 0] el [rule_format, of 1]
  have "m' ! 0 = 1 / 2" "m' ! 1 = 1" "v' ! 0 = 1 / 2" "v' ! 1 = 2" "w' ! 0 = 2" "w' ! 1 = 2"
    by simp_all
  with len have "m' = [1 / 2, 1]" "v' = [1 / 2, 2]" "w' = [2, 2]"
    by (auto simp: list_eq_iff_nth_eq less_Suc_eq numeral_2_eq_2)
  with r L show ?thesis by simp
qed

text \<open>
  C9. One launch of the RMSProp kernel with \<open>decay = 1\<close> leaves the moving average \<open>m\<close> as
  it was and sets \<open>w[i] := w[i] - lr\<cdot>g[i] / sqrt (eps + m[i])\<close> for every index \<open>i < N\<close>.
\<close>

theorem rmsprop_update_decay_one:
  assumes "0 < gridDim" and "0 < blockDim" and "length m = N" and "length w = N"
  shows "\<exists>w'. launch gridDim blockDim (rmsprop_update N g 1 eps lr) (m, w) = Some (m, w') \<and>
           length w' = N \<and> (\<forall>i<N. w' ! i = w ! i - lr * g ! i / sqrt (eps + m ! i))"
proof -
  have "map (\<lambda>i. m ! i) [0..<N] = m" using assms(3) map_nth [of m] by simp
  then show ?thesis
    using rmsprop_update_launch [OF assms, of g 1 eps lr] by simp
qed

text \<open>The theorem at a launch of 16 blocks of 512 threads on arrays of two elements.\<close>

theorem rmsprop_update_decay_one_witness:
  "\<exists>w'. launch 16 512 (rmsprop_update 2 [1, 2] 1 0 1) ([4, 4], [3, 3]) = Some ([4, 4], w') \<and>
           length w' = 2 \<and> (\<forall>i<2. w' ! i = [3, 3] ! i - 1 * [1, 2] ! i / sqrt (0 + [4, 4] ! i))"
  using rmsprop_update_decay_one [of 16 512 "[4, 4]" 2 "[3, 3]" "[1, 2]" 0 1]
  by simp

section \<open>The RMSProp update of a layer\<close>

lemma rmsprop_launch_result:
  assumes "weights L = Some wt" and "weights_m L = Some wm" and "grad_weights L = Some gw"
    and "0 < BLOCK_DIM e" and "0 < BLOCK_DIM_1D e"
    and "length (d_ptr wm) = Blob_len wt" and "length (d_ptr wt) = Blob_len wt"
    and "Blob_len wt \<le> length (d_ptr gw)"
  shows "rmsprop_launch e lr decay eps_hat L =
     Inr (L\<lparr>weights_m := Some (wm\<lparr>d_ptr :=
                 map (\<lambda>i. d_ptr wm ! i + (1 - decay) * (d_ptr gw ! i * d_ptr gw ! i - d_ptr wm ! i))
                   [0..<Blob_len wt]\<rparr>),
            weights := Some (wt\<lparr>d_ptr :=
                 map (\<lambda>i. d_ptr wt ! i - lr * d_ptr gw ! i /
                        sqrt (eps_hat + (d_ptr wm ! i +
                               (1 - decay) * (d_ptr gw ! i * d_ptr gw ! i - d_ptr wm ! i))))
                   [0..<Blob_len wt]\<rparr>)\<rparr>)"
  using assms
    rmsprop_update_launch [of "BLOCK_DIM e" "BLOCK_DIM_1D e" "d_ptr wm" "Blob_len wt" "d_ptr wt"
      "d_ptr gw" decay eps_hat lr]
  by (simp add: rmsprop_launch_def bind_err_def deref_def device_launch_def)

lemma rmsprop_launch_biases:
  assumes "rmsprop_launch e lr decay eps_hat L = Inr L'"
  shows "biases L' = biases L \<and> biases_m L' = biases_m L \<and> biases_v L' = biases_v L \<and>
         grad_biases L' = grad_biases L"
  using assms
  by (auto simp: rmsprop_launch_def bind_err_def deref_def
      split: option.splits sum.splits prod.splits)

lemma rmsprop_never_updates_biases:
  assumes "update_weights_biases_with_rmsprop e lr decay eps_hat L = Inr L'"
  shows "biases L' = biases L \<and> biases_m L' = biases_m L"
proof -
  obtain L1 where 1: "(if weights L \<noteq> None \<and> grad_weights L \<noteq> None
        then rmsprop_launch e lr decay eps_hat L else Inr L) = Inr L1"
    and 2: "(if biases L1 \<noteq> None \<and> grad_biases L1 \<noteq> None
          then rmsprop_launch e lr decay eps_hat L1 else Inr L1) = Inr L'"
    using assms
    by (auto simp: update_weights_biases_with_rmsprop_def bind_err_def split: sum.splits)
  have "biases L1 = biases L \<and> biases_m L1 = biases_m L"
    using 1 rmsprop_launch_biases [of e lr decay eps_hat L L1] by (auto split: if_splits)
  moreover have "biases L' = biases L1 \<and> biases_m L' = biases_m L1"
    using 2 rmsprop_launch_biases [of e lr decay eps_hat L1 L'] by (auto split: if_splits)
  ultimately show ?thesis by simp
qed

text \<open>
  C4. The claim asks for one RMSProp step on the weights and one on the biases. On the
  layer \<open>trained_layer\<close> (weight 1, bias 1, both gradients 1, accumulators 0), with
  learning rate 1, decay 0 and eps 0, that would give weight 0, bias 0 and both
  accumulators 1. The code runs the step twice on the weights, which end at -1, and
  leaves the bias at 1 and its accumulator at 0.
\<close>

theorem rmsprop_runs_twice_on_weights:
  "update_weights_biases_with_rmsprop example_env 1 0 0 trained_layer =
     Inr (trained_layer
            \<lparr>weights_m := Some ((example_blob (1, 1, 1, 1) [0])\<lparr>d_ptr := [1]\<rparr>),
             weights := Some ((example_blob (1, 1, 1, 1) [1])\<lparr>d_ptr := [- 1]\<rparr>)\<rparr>)"
proof -
  let ?L1 = "trained_layer
            \<lparr>weights_m := Some ((example_blob (1, 1, 1, 1) [0])\<lparr>d_ptr := [1]\<rparr>),
             weights := Some ((example_blob (1, 1, 1, 1) [1])\<lparr>d_ptr := [0]\<rparr>)\<rparr>"
  have 1: "rmsprop_launch example_env 1 0 0 trained_layer = Inr ?L1"
    by (subst rmsprop_launch_result [where wt = "example_blob (1, 1, 1, 1) [1]"
          and wm = "example_blob (1, 1, 1, 1) [0]" and gw = "example_blob (1, 1, 1, 1) [1]"])
       (simp_all add: trained_layer_def example_blob_def example_env_def Blob_len_def)
  have 2: "rmsprop_launch example_env 1 0 0 ?L1 =
     Inr (trained_layer
            \<lparr>weights_m := Some ((example_blob (1, 1, 1, 1) [0])\<lparr>d_ptr := [1]\<rparr>),
             weights := Some ((example_blob (1, 1, 1, 1) [1])\<lparr>d_ptr := [- 1]\<rparr>)\<rparr>)"
    by (subst rmsprop_launch_result [where wt = "(example_blob (1, 1, 1, 1) [1])\<lparr>d_ptr := [0]\<rparr>"
          and wm = "(example_blob (1, 1, 1, 1) [0])\<lparr>d_ptr := [1]\<rparr>" and gw = "example_blob (1, 1, 1, 1) [1]"])
       (simp_all add: trained_layer_def example_blob_def example_env_def Blob_len_def)
  show ?thesis
    unfolding update_weights_biases_with_rmsprop_def
    using 1 2 by (simp add: bind_err_def trained_layer_def)
qed

section \<open>The gradient of the softmax layer\<close>

lemma Blob_len_shape: "Blob_shape a = Blob_shape b \<Longrightarrow> Blob_len a = Blob_len b"
  by (simp add: Blob_shape_def Blob_len_def)

lemma Blob_new_shape: "Blob_shape (Blob_new u s) = s"
  by (cases s) (simp add: Blob_new_def Blob_shape_def)

lemma Blob_new_length:
  "length (d_ptr (Blob_new u s)) = Blob_len (Blob_new u s)"
  "length (h_ptr (Blob_new u s)) = Blob_len (Blob_new u s)"
  by (cases s; simp add: Blob_new_def Blob_len_def)+

lemma Softmax_gradient_values:
  assumes "length po = n" and "length t = n" and "length g = n"
  shows "cudaMemcpy g po n = Inr po"
    and "cublasSaxpy n (- 1) t po = Inr (map (\<lambda>i. po ! i - t ! i) [0..<n])"
    and "cublasSscal n (1 / real b) (map (\<lambda>i. po ! i - t ! i) [0..<n])
           = Inr (map (\<lambda>i. (po ! i - t ! i) / real b) [0..<n])"
  using assms by (simp_all add: cudaMemcpy_def cublasSaxpy_def cublasSscal_def)

lemma Softmax_backward_gradient:
  assumes out: "output_ptr L = Some out" and shp: "Blob_shape out = Blob_shape target"
    and oko: "length (d_ptr out) = Blob_len out"
    and okt: "length (d_ptr target) = Blob_len target"
    and inp: "input_ptr L = Some a" "heap W a = Some x" "Blob_shape x = Blob_shape target"
    and gi: "grad_input L = None \<or>
        (\<exists>g. grad_input L = Some g \<and> Blob_shape g = Blob_shape target \<and>
             length (d_ptr g) = Blob_len g)"
  shows "\<exists>g. Softmax_backward e target (L, W) = Inr (L\<lparr>grad_input := Some g\<rparr>, W) \<and>
           Blob_shape g = Blob_shape target \<and>
           d_ptr g = map (\<lambda>i. (d_ptr out ! i - d_ptr target ! i) / real (dim_n target))
                       [0..<Blob_len target]"
proof -
  define gi0 where "gi0 = (if grad_input L = None \<or> batch_size L \<noteq> dim_n target
      then (case grad_input L of None \<Rightarrow> Blob_new (uninit e) (Blob_shape x)
            | Some g \<Rightarrow> Blob_reset (uninit e) (Blob_shape x) g)
      else the (grad_input L))"
  have g0: "Blob_shape gi0 = Blob_shape target \<and> length (d_ptr gi0) = Blob_len gi0"
    using gi inp(3)
    by (auto simp: gi0_def Blob_new_shape Blob_new_length Blob_reset_def)
  then have len0: "length (d_ptr gi0) = Blob_len target" using Blob_len_shape by metis
  have leno: "length (d_ptr out) = Blob_len target" using oko shp Blob_len_shape by metis
  have first: "(if grad_input L = None \<or> batch_size L \<noteq> dim_n target then
             bind_err (deref (Option.bind (input_ptr L) (heap W))) (\<lambda>x.
               Inr (L\<lparr>grad_input := Some (case grad_input L of
                         None \<Rightarrow> Blob_new (uninit e) (Blob_shape x)
                       | Some g \<Rightarrow> Blob_reset (uninit e) (Blob_shape x) g)\<rparr>))
           else Inr L) = Inr (L\<lparr>grad_input := Some gi0\<rparr>)"
    using gi inp by (auto simp: gi0_def bind_err_def deref_def)
  have lt: "dim_n target * dim_c target * dim_h target * dim_w target = Blob_len target"
    by (simp add: Blob_len_def)
  have lo: "Blob_len out = Blob_len target" using shp by (rule Blob_len_shape)
  have "Softmax_backward e target (L, W) =
      Inr (L\<lparr>grad_input := Some (gi0\<lparr>d_ptr :=
         map (\<lambda>i. (d_ptr out ! i - d_ptr target ! i) / real (dim_n target)) [0..<Blob_len target]\<rparr>)\<rparr>, W)"
    unfolding Softmax_backward_def prod.case first
    by (simp add: bind_err_def deref_def out lt lo Let_def
          Softmax_gradient_values [OF leno okt len0])
  moreover have "Blob_shape (gi0\<lparr>d_ptr :=
         map (\<lambda>i. (d_ptr out ! i - d_ptr target ! i) / real (dim_n target)) [0..<Blob_len target]\<rparr>)
       = Blob_shape target" using g0 by (simp add: Blob_shape_def)
  ultimately show ?thesis by auto
qed

text \<open>
  C1. The gradient is \<open>(prediction - target) / batch size\<close> whenever the gradient buffer
  is absent or has the shape of the target (lemma \<open>Softmax_backward_gradient\<close>). The
  buffer is resized only if \<^verbatim>\<open>batch_size_ != target->n()\<close>, and \<^verbatim>\<open>forward\<close> has by then
  set \<^verbatim>\<open>batch_size_\<close> to the batch size of the target. So after a forward and a backward
  call on one sample, a forward call on two samples leaves the gradient buffer at the
  shape (1, 3, 1, 1), and the next backward call copies the six predictions into its
  three elements.
\<close>

theorem Softmax_backward_after_batch_growth:
  "map_sum id (\<lambda>(L, W). (map_option Blob_shape (grad_input L), map_option Blob_shape (output_ptr L),
        batch_size L))
     (bind_err (bind_err (Softmax_forward example_env 0 (Softmax_new ''softmax'', softmax_world))
        (Softmax_backward example_env target_one)) (Softmax_forward example_env 1))
     = Inr (Some (1, 3, 1, 1), Some (2, 3, 1, 1), 2) \<and>
   bind_err (bind_err (bind_err (Softmax_forward example_env 0 (Softmax_new ''softmax'', softmax_world))
        (Softmax_backward example_env target_one)) (Softmax_forward example_env 1))
     (Softmax_backward example_env target_two) = Inl OutOfBounds"
  by (simp add: Softmax_forward_def Softmax_backward_def Softmax_new_def softmax_world_def
      target_one_def target_two_def example_blob_def example_env_def bind_err_def deref_def
      Blob_new_def Blob_reset_def Blob_shape_def Blob_len_def cudnnSoftmaxForward_def
      cudaMemcpy_def cublasSaxpy_def cublasSscal_def Let_def)

section \<open>Accuracy\<close>

lemma first_max_step:
  assumes "first_max xs base m k"
  shows "first_max xs base (Suc m) (if xs ! (base + m) > xs ! (base + k) then m else k)"
  using assms unfolding first_max_def
  by (auto simp: less_Suc_eq)

lemma hd_filter_first:
  assumes "k < n" and "P k" and "\<forall>j<k. \<not> P j"
  shows "hd (filter P [0..<n]) = k"
proof -
  have "[0..<n] = [0..<k] @ k # [Suc k..<n]"
    using assms(1) by (metis le_add1 less_imp_add_positive plus_nat.add_0 upt_add_eq_append upt_conv_Cons)
  moreover have "filter P [0..<k] = []" using assms(3) by (simp add: filter_empty_conv)
  ultimately show ?thesis using assms(2) by simp
qed

lemma first_max_argmax10:
  assumes "first_max xs base 10 k"
  shows "argmax10 xs base = k"
proof -
  let ?P = "\<lambda>k. list_all (\<lambda>j. xs ! (base + j) \<le> xs ! (base + k)) [0..<10]"
  have P: "?P k" using assms by (simp add: first_max_def list_all_iff)
  have "\<not> ?P j" if "j < k" for j
  proof
    assume "?P j"
    moreover have "k < 10" using assms by (simp add: first_max_def)
    ultimately have "xs ! (base + k) \<le> xs ! (base + j)" by (simp add: list_all_iff)
    moreover have "xs ! (base + j) < xs ! (base + k)" using assms that by (simp add: first_max_def)
    ultimately show False by simp
  qed
  moreover have "k < 10" using assms by (simp add: first_max_def)
  ultimately show ?thesis unfolding argmax10_def using P by (intro hd_filter_first) auto
qed

lemma argmax_loop_first_max:
  assumes "base + 10 \<le> length ho" and "base + 10 \<le> length ht"
    and "0 < i" and "i \<le> 10"
    and "first_max ho base i io" and "first_max ht base i it"
  shows "\<exists>io' it'. argmax_loop ho ht base [i..<10] (io, it) = Inr (io', it') \<and>
           first_max ho base 10 io' \<and> first_max ht base 10 it'"
  using assms
proof (induction "10 - i" arbitrary: i io it)
  case 0
  then have "i = 10" by simp
  with 0 show ?case by simp
next
  case (Suc d)
  then have lt: "i < 10" by simp
  have io: "io < i" and it: "it < i" using Suc.prems by (auto simp: first_max_def)
  have upt: "[i..<10] = i # [Suc i..<10]" using lt by (simp add: upt_conv_Cons)
  let ?io = "if ho ! (base + i) > ho ! (base + io) then i else io"
  let ?it = "if ht ! (base + i) > ht ! (base + it) then i else it"
  have d: "d = 10 - Suc i" using Suc.hyps(2) by simp
  have "\<exists>io' it'. argmax_loop ho ht base [Suc i..<10] (?io, ?it) = Inr (io', it') \<and>
           first_max ho base 10 io' \<and> first_max ht base 10 it'"
    using Suc.hyps(1) [OF d Suc.prems(1) Suc.prems(2)] lt
      first_max_step [OF Suc.prems(5)] first_max_step [OF Suc.prems(6)]
    by simp
  moreover have "argmax_loop ho ht base [i..<10] (io, it) =
      argmax_loop ho ht base [Suc i..<10] (?io, ?it)"
    using lt io it Suc.prems(1,2) by (simp add: upt)
  ultimately show ?case by simp
qed

lemma argmax_loop_argmax10:
  assumes "base + 10 \<le> length ho" and "base + 10 \<le> length ht"
  shows "argmax_loop ho ht base [1..<10] (0, 0) = Inr (argmax10 ho base, argmax10 ht base)"
proof -
  have "first_max ho base 1 0" "first_max ht base 1 0" by (simp_all add: first_max_def)
  from argmax_loop_first_max [OF assms _ _ this]
  obtain io' it' where "argmax_loop ho ht base [1..<10] (0, 0) = Inr (io', it')"
    and "first_max ho base 10 io'" and "first_max ht base 10 it'" by auto
  then show ?thesis by (simp add: first_max_argmax10)
qed

lemma argmax_loop_argmax10':
  assumes "base + 10 \<le> length ho" and "base + 10 \<le> length ht"
  shows "argmax_loop ho ht base [Suc 0..<10] (0, 0) = Inr (argmax10 ho base, argmax10 ht base)"
  using argmax_loop_argmax10 [OF assms] by simp

lemma batch_loop_count:
  assumes "\<forall>b\<in>set bs. b * sz + 10 \<le> length ho \<and> b * sz + 10 \<le> length ht"
  shows "batch_loop ho ht sz bs hit =
     Inr (hit + int (length (filter (\<lambda>b. argmax10 ho (b * sz) = argmax10 ht (b * sz)) bs)))"
  using assms
  by (induction bs arbitrary: hit) (simp_all add: argmax_loop_argmax10' bind_err_def)

text \<open>
  C7. On a prediction and a target of equal batch size and equal sample size with at
  least ten scores per sample, \<^verbatim>\<open>get_accuracy\<close> returns the number of the samples, an
  integer count, for which the argmax over the first ten scores of the prediction is the
  argmax over the first ten scores of the target.
\<close>

theorem get_accuracy_hit_count:
  assumes "output_ptr L = Some out"
    and "dim_n target = dim_n out" and "Blob_size target = Blob_size out"
    and "10 \<le> Blob_size out"
    and "length (d_ptr out) = Blob_len out" and "length (d_ptr target) = Blob_len target"
  shows "get_accuracy target L =
     Inr (int (length (filter
                (\<lambda>b. argmax10 (d_ptr out) (b * Blob_size out) =
                     argmax10 (d_ptr target) (b * Blob_size out)) [0..<dim_n out])),
          L\<lparr>output_ptr := Some (to_host out)\<rparr>)"
proof -
  have len: "Blob_len out = dim_n out * Blob_size out" "Blob_len target = dim_n out * Blob_size out"
    using assms(2,3) by (simp_all add: Blob_len_def Blob_size_def mult.assoc)
  have "b * Blob_size out + 10 \<le> dim_n out * Blob_size out" if "b < dim_n out" for b
  proof -
    have "b * Blob_size out + 10 \<le> Suc b * Blob_size out" using assms(4) by simp
    also have "\<dots> \<le> dim_n out * Blob_size out" using that by (intro mult_le_mono1) simp
    finally show ?thesis .
  qed
  then have bounds: "\<forall>b\<in>set [0..<dim_n out].
      b * Blob_size out + 10 \<le> length (d_ptr out) \<and> b * Blob_size out + 10 \<le> length (d_ptr target)"
    using assms(5,6) len by simp
  show ?thesis
    using assms(1,2,3) batch_loop_count [OF bounds, of 0]
    by (simp add: get_accuracy_def bind_err_def deref_def to_host_def Let_def)
qed

lemma upt_10: "[0..<10] = [0, 1, 2, 3, 4, 5, 6, 7, 8, 9]"
  by code_simp

lemma upt_2: "[0..<2] = [0, 1]"
  by code_simp

text \<open>The theorem on \<open>accuracy_layer\<close> and \<open>accuracy_target\<close>: one hit among two samples.\<close>

theorem get_accuracy_hit_count_witness:
  "get_accuracy accuracy_target accuracy_layer =
     Inr (1, accuracy_layer\<lparr>output_ptr := Some (example_blob (2, 10, 1, 1)
          [0, 0, 9, 0, 0, 0, 0, 0, 0, 0, 0, 5, 0, 0, 0, 0, 0, 0, 0, 0])\<rparr>)"
  using get_accuracy_hit_count [of accuracy_layer "example_blob (2, 10, 1, 1)
          [0, 0, 9, 0, 0, 0, 0, 0, 0, 0, 0, 5, 0, 0, 0, 0, 0, 0, 0, 0]" accuracy_target]
  by (simp add: accuracy_layer_def accuracy_target_def example_blob_def Softmax_new_def
      Blob_size_def Blob_len_def to_host_def argmax10_def upt_10 upt_2)

section \<open>Initialization of the parameters\<close>

lemma fold_update_prefix:
  "k \<le> length h \<Longrightarrow> fold (\<lambda>i h. h[i := f i]) [0..<k] h = map f [0..<k] @ drop k h"
proof (induction k)
  case 0
  then show ?case by simp
next
  case (Suc k)
  then have k: "k < length h" by simp
  have "drop k h = h ! k # drop (Suc k) h" using k by (simp add: Cons_nth_drop_Suc)
  then have "(map f [0..<k] @ drop k h)[k := f k] = map f [0..<k] @ f k # drop (Suc k) h"
    by (simp add: list_update_append)
  then show ?case using Suc by simp
qed

lemma fill_host_map:
  assumes "length (h_ptr b) = Blob_len b"
  shows "fill_host f b = b\<lparr>h_ptr := map f [0..<Blob_len b]\<rparr>"
  using fold_update_prefix [of "Blob_len b" "h_ptr b" f] assms by (simp add: fill_host_def)

lemma init_weight_bias_result:
  assumes "weights L = Some wt" and "biases L = Some bs"
    and "weights_m L = Some wm" and "weights_v L = Some wv"
    and "biases_m L = Some bm" and "biases_v L = Some bv"
    and "input_ptr L = Some a" and "heap W a = Some x"
    and "length (h_ptr wt) = Blob_len wt" and "length (h_ptr bs) = Blob_len bs"
    and "length (h_ptr wm) = Blob_len wm" and "length (h_ptr wv) = Blob_len wv"
    and "length (h_ptr bm) = Blob_len bm" and "length (h_ptr bv) = Blob_len bv"
  shows "init_weight_bias e seed (L, W) =
     Inr (L\<lparr>weights := Some (wt\<lparr>
                h_ptr := map (\<lambda>i. uniform_real_distribution (- sqrt (6 / real (Blob_size x)))
                                 (sqrt (6 / real (Blob_size x)))
                                 (mt19937 e (if seed = 0 then random_device e else seed) i))
                           [0..<Blob_len wt],
                d_ptr := map (\<lambda>i. uniform_real_distribution (- sqrt (6 / real (Blob_size x)))
                                 (sqrt (6 / real (Blob_size x)))
                                 (mt19937 e (if seed = 0 then random_device e else seed) i))
                           [0..<Blob_len wt]\<rparr>),
            biases := Some (bs\<lparr>h_ptr := replicate (Blob_len bs) 0, d_ptr := replicate (Blob_len bs) 0\<rparr>),
            weights_m := Some (wm\<lparr>h_ptr := replicate (Blob_len wm) 0, d_ptr := replicate (Blob_len wm) 0\<rparr>),
            weights_v := Some (wv\<lparr>h_ptr := replicate (Blob_len wv) 0, d_ptr := replicate (Blob_len wv) 0\<rparr>),
            biases_m := Some (bm\<lparr>h_ptr := replicate (Blob_len bm) 0, d_ptr := replicate (Blob_len bm) 0\<rparr>),
            biases_v := Some (bv\<lparr>h_ptr := replicate (Blob_len bv) 0, d_ptr := replicate (Blob_len bv) 0\<rparr>)\<rparr>,
          W\<lparr>cout := cout W @ [''.. initialized '' @ name L @ '' layer ..'']\<rparr>)"
  using assms
  by (simp add: init_weight_bias_def bind_err_def deref_def Let_def fill_host_map to_cuda_def
      map_replicate_const)

lemma uniform_real_distribution_bounds:
  assumes "0 \<le> r" and "r < 1" and "0 \<le> b"
  shows "- b \<le> uniform_real_distribution (- b) b r" and "uniform_real_distribution (- b) b r \<le> b"
proof -
  have eq: "uniform_real_distribution (- b) b r = (2 * r - 1) * b"
    by (simp add: uniform_real_distribution_def algebra_simps)
  have "- 1 \<le> 2 * r - 1" "2 * r - 1 \<le> 1" using assms by simp_all
  then have "- 1 * b \<le> (2 * r - 1) * b" "(2 * r - 1) * b \<le> 1 * b"
    using assms(3) by (intro mult_right_mono; simp)+
  then show "- b \<le> uniform_real_distribution (- b) b r"
    and "uniform_real_distribution (- b) b r \<le> b" by (simp_all add: eq)
qed

text \<open>
  C6. On a layer whose parameter buffers are allocated and whose input is bound,
  \<^verbatim>\<open>init_weight_bias\<close> writes every weight as the draw of the uniform distribution on
  \<open>[-sqrt (6 / fan_in), sqrt (6 / fan_in)]\<close>, where \<open>fan_in\<close> is the \<^verbatim>\<open>size()\<close> of the input
  and the generator yields numbers of \<open>[0, 1)\<close>, so that every weight lies in that range;
  it writes 0 to every bias and to every element of the four accumulators, on the host
  and on the device; and it is what the lazy binding runs for a layer that is neither
  frozen nor set to load pretrained parameters.
\<close>

theorem init_weight_bias_fresh:
  assumes "weights L = Some wt" and "biases L = Some bs"
    and "weights_m L = Some wm" and "weights_v L = Some wv"
    and "biases_m L = Some bm" and "biases_v L = Some bv"
    and "input_ptr L = Some a" and "heap W a = Some x"
    and "length (h_ptr wt) = Blob_len wt" and "length (h_ptr bs) = Blob_len bs"
    and "length (h_ptr wm) = Blob_len wm" and "length (h_ptr wv) = Blob_len wv"
    and "length (h_ptr bm) = Blob_len bm" and "length (h_ptr bv) = Blob_len bv"
    and "0 < Blob_size x"
    and draws: "\<forall>k. 0 \<le> mt19937 e (if seed = 0 then random_device e else seed) k \<and>
                   mt19937 e (if seed = 0 then random_device e else seed) k < 1"
  shows "\<exists>L' W' wt' bs' wm' wv' bm' bv'.
     init_weight_bias e seed (L, W) = Inr (L', W') \<and>
     weights L' = Some wt' \<and> biases L' = Some bs' \<and> weights_m L' = Some wm' \<and>
     weights_v L' = Some wv' \<and> biases_m L' = Some bm' \<and> biases_v L' = Some bv' \<and>
     length (h_ptr wt') = Blob_len wt \<and> d_ptr wt' = h_ptr wt' \<and>
     (\<forall>i<Blob_len wt.
        h_ptr wt' ! i = uniform_real_distribution (- sqrt (6 / real (Blob_size x)))
           (sqrt (6 / real (Blob_size x))) (mt19937 e (if seed = 0 then random_device e else seed) i) \<and>
        - sqrt (6 / real (Blob_size x)) \<le> h_ptr wt' ! i \<and>
        h_ptr wt' ! i \<le> sqrt (6 / real (Blob_size x))) \<and>
     h_ptr bs' = replicate (Blob_len bs) 0 \<and> d_ptr bs' = replicate (Blob_len bs) 0 \<and>
     h_ptr wm' = replicate (Blob_len wm) 0 \<and> d_ptr wm' = replicate (Blob_len wm) 0 \<and>
     h_ptr wv' = replicate (Blob_len wv) 0 \<and> d_ptr wv' = replicate (Blob_len wv) 0 \<and>
     h_ptr bm' = replicate (Blob_len bm) 0 \<and> d_ptr bm' = replicate (Blob_len bm) 0 \<and>
     h_ptr bv' = replicate (Blob_len bv) 0 \<and> d_ptr bv' = replicate (Blob_len bv) 0 \<and>
     (\<not> freeze L \<and> \<not> load_pretrain L \<longrightarrow>
        materialize_parameters e (L, W) = init_weight_bias e (default_seed e) (L, W))"
proof -
  have b: "0 \<le> sqrt (6 / real (Blob_size x))" by simp
  have bounds: "- sqrt (6 / real (Blob_size x)) \<le>
        uniform_real_distribution (- sqrt (6 / real (Blob_size x))) (sqrt (6 / real (Blob_size x)))
          (mt19937 e (if seed = 0 then random_device e else seed) i) \<and>
      uniform_real_distribution (- sqrt (6 / real (Blob_size x))) (sqrt (6 / real (Blob_size x)))
          (mt19937 e (if seed = 0 then random_device e else seed) i) \<le> sqrt (6 / real (Blob_size x))" for i
    using uniform_real_distribution_bounds [OF _ _ b] draws by blast
  have mat: "\<not> freeze L \<and> \<not> load_pretrain L \<longrightarrow>
        materialize_parameters e (L, W) = init_weight_bias e (default_seed e) (L, W)"
    by (simp add: materialize_parameters_def)
  note r = init_weight_bias_result [OF assms(1-14), of e seed]
  show ?thesis
    using bounds mat by (simp add: r)
qed

lemmas bound_layer_simps =
  bound_layer_def dense_world_def example_env_def example_blob_def Linear_new_def Blob_new_def
  Blob_len_def Blob_size_def

text \<open>
  The theorem on \<open>bound_layer\<close>, with the seed 0 and a generator that yields 0 throughout.
\<close>

theorem init_weight_bias_fresh_witness:
  "\<exists>L' W' wt' bs'.
     init_weight_bias example_env 0 (bound_layer, dense_world) = Inr (L', W') \<and>
     weights L' = Some wt' \<and> biases L' = Some bs' \<and> length (h_ptr wt') = 6 \<and>
     (\<forall>i<6. - 1 \<le> h_ptr wt' ! i \<and> h_ptr wt' ! i \<le> 1) \<and> h_ptr bs' = [0]"
  using init_weight_bias_fresh [of bound_layer "Blob_new 0 (1, 1, 6, 1)" "Blob_new 0 (1, 1, 1, 1)"
      "Blob_new 0 (1, 1, 6, 1)" "Blob_new 0 (1, 1, 6, 1)" "Blob_new 0 (1, 1, 1, 1)"
      "Blob_new 0 (1, 1, 1, 1)" 0 dense_world "example_blob (1, 6, 1, 1) [1, 2, 3, 4, 5, 6]"
      example_env 0]
  by (auto simp: bound_layer_simps)

text \<open>
  C10. Two calls of \<^verbatim>\<open>init_weight_bias\<close> with the same seed, on two layers whose weights have
  the same shape and whose inputs have the same \<^verbatim>\<open>size()\<close>, in any two environments that
  share the generator of the C++ library: if the seed is not 0, the two layers get the
  same weights; if the seed is 0, each gets the draws of the generator seeded with the
  value that \<^verbatim>\<open>std::random_device\<close> yields in its call.
\<close>

theorem init_weight_bias_seeded:
  assumes "weights L1 = Some wt1" and "biases L1 = Some bs1"
    and "weights_m L1 = Some wm1" and "weights_v L1 = Some wv1"
    and "biases_m L1 = Some bm1" and "biases_v L1 = Some bv1"
    and "input_ptr L1 = Some a1" and "heap W1 a1 = Some x1"
    and "length (h_ptr wt1) = Blob_len wt1" and "length (h_ptr bs1) = Blob_len bs1"
    and "length (h_ptr wm1) = Blob_len wm1" and "length (h_ptr wv1) = Blob_len wv1"
    and "length (h_ptr bm1) = Blob_len bm1" and "length (h_ptr bv1) = Blob_len bv1"
    and "weights L2 = Some wt2" and "biases L2 = Some bs2"
    and "weights_m L2 = Some wm2" and "weights_v L2 = Some wv2"
    and "biases_m L2 = Some bm2" and "biases_v L2 = Some bv2"
    and "input_ptr L2 = Some a2" and "heap W2 a2 = Some x2"
    and "length (h_ptr wt2) = Blob_len wt2" and "length (h_ptr bs2) = Blob_len bs2"
    and "length (h_ptr wm2) = Blob_len wm2" and "length (h_ptr wv2) = Blob_len wv2"
    and "length (h_ptr bm2) = Blob_len bm2" and "length (h_ptr bv2) = Blob_len bv2"
    and shape: "Blob_shape wt1 = Blob_shape wt2" and fan_in: "Blob_size x1 = Blob_size x2"
    and gen: "mt19937 e1 = mt19937 e2"
  shows "\<exists>L1' U1 L2' U2 wt1' wt2'.
     init_weight_bias e1 seed (L1, W1) = Inr (L1', U1) \<and>
     init_weight_bias e2 seed (L2, W2) = Inr (L2', U2) \<and>
     weights L1' = Some wt1' \<and> weights L2' = Some wt2' \<and>
     (seed \<noteq> 0 \<longrightarrow> h_ptr wt1' = h_ptr wt2' \<and> d_ptr wt1' = d_ptr wt2') \<and>
     (seed = 0 \<longrightarrow>
        h_ptr wt1' = map (\<lambda>i. uniform_real_distribution (- sqrt (6 / real (Blob_size x1)))
                              (sqrt (6 / real (Blob_size x1))) (mt19937 e1 (random_device e1) i))
                        [0..<Blob_len wt1] \<and>
        h_ptr wt2' = map (\<lambda>i. uniform_real_distribution (- sqrt (6 / real (Blob_size x1)))
                              (sqrt (6 / real (Blob_size x1))) (mt19937 e1 (random_device e2) i))
                        [0..<Blob_len wt1])"
proof -
  note r1 = init_weight_bias_result [OF assms(1-14), of e1 seed]
  note r2 = init_weight_bias_result [OF assms(15-28), of e2 seed]
  have len: "Blob_len wt1 = Blob_len wt2" using shape by (simp add: Blob_shape_def Blob_len_def)
  show ?thesis
    by (simp add: r1 r2 len fan_in gen)
qed

lemma upt_6: "[0..<6] = [0, 1, 2, 3, 4, 5]"
  by code_simp

text \<open>
  The theorem at the seed 0 on \<open>bound_layer\<close>, in two environments whose random devices
  yield 1 and 2: the weights differ.
\<close>

theorem init_weight_bias_seeded_witness:
  "\<exists>L1' U1 L2' U2 wt1' wt2'.
     init_weight_bias example_env 0 (bound_layer, dense_world) = Inr (L1', U1) \<and>
     init_weight_bias (example_env\<lparr>random_device := 2\<rparr>) 0 (bound_layer, dense_world) = Inr (L2', U2) \<and>
     weights L1' = Some wt1' \<and> weights L2' = Some wt2' \<and>
     h_ptr wt1' = [- 1, - 1, - 1, - 1, - 1, - 1] \<and> h_ptr wt2' = [0, 0, 0, 0, 0, 0]"
  using init_weight_bias_seeded [of bound_layer "Blob_new 0 (1, 1, 6, 1)" "Blob_new 0 (1, 1, 1, 1)"
      "Blob_new 0 (1, 1, 6, 1)" "Blob_new 0 (1, 1, 6, 1)" "Blob_new 0 (1, 1, 1, 1)"
      "Blob_new 0 (1, 1, 1, 1)" 0 dense_world "example_blob (1, 6, 1, 1) [1, 2, 3, 4, 5, 6]"
      bound_layer "Blob_new 0 (1, 1, 6, 1)" "Blob_new 0 (1, 1, 1, 1)"
      "Blob_new 0 (1, 1, 6, 1)" "Blob_new 0 (1, 1, 6, 1)" "Blob_new 0 (1, 1, 1, 1)"
      "Blob_new 0 (1, 1, 1, 1)" 0 dense_world "example_blob (1, 6, 1, 1) [1, 2, 3, 4, 5, 6]"
      example_env "example_env\<lparr>random_device := 2\<rparr>" 0]
  by (auto simp: bound_layer_simps uniform_real_distribution_def upt_6)

section \<open>Lazy binding of the dense layer\<close>

lemma run_threads_total:
  assumes "\<And>t s. \<exists>s'. k t s = Some s'"
  shows "\<exists>s'. run_threads k ts s = Some s'"
proof (induction ts arbitrary: s)
  case Nil
  then show ?case by simp
next
  case (Cons t ts)
  obtain s1 where "k t s = Some s1" using assms by blast
  then show ?case using Cons [of s1] by simp
qed

lemma init_one_vec_launch:
  "\<exists>ones. device_launch g b (init_one_vec n) True d = Inr ones"
proof -
  have "\<exists>s'. launch g b (init_one_vec n) d = Some s'"
    unfolding launch_def
    using run_threads_total [of "\<lambda>tid. init_one_vec n g b (tid div b) (tid mod b)" "[0..<g * b]" d]
    by (auto simp: init_one_vec_def Let_def)
  then show ?thesis by (auto simp: device_launch_def)
qed

lemma init_one_vec_threads:
  "length d = n \<Longrightarrow>
   run_threads (\<lambda>tid. init_one_vec n g b (tid div b) (tid mod b)) [0..<t] d
     = Some (map (\<lambda>j. if j < t then 1 else d ! j) [0..<n])"
proof (induction t)
  case 0
  then show ?case using map_nth [of d] by simp
next
  case (Suc t)
  have "(map (\<lambda>j. if j < t then 1 else d ! j) [0..<n])[t := 1]
      = map (\<lambda>j. if j < Suc t then 1 else d ! j) [0..<n]"
    by (intro nth_equalityI) (auto simp: nth_list_update less_Suc_eq)
  moreover have "t < n \<or> map (\<lambda>j. if j < t then 1 else d ! j) [0..<n]
      = map (\<lambda>j. if j < Suc t then 1 else d ! j) [0..<n]"
    by auto
  ultimately show ?case using Suc
    by (auto simp: run_threads_append init_one_vec_def Let_def)
qed

lemma init_one_vec_launch_ones:
  assumes "0 < b" and "n \<le> g * b" and "length d = n"
  shows "device_launch g b (init_one_vec n) True d = Inr (replicate n 1)"
proof (cases "g = 0")
  case True
  then show ?thesis using assms by (simp add: device_launch_def launch_def)
next
  case False
  have "map (\<lambda>j. if j < g * b then 1 else d ! j) [0..<n] = replicate n (1::real)"
    using assms(2) by (intro nth_equalityI) auto
  then show ?thesis
    using False assms init_one_vec_threads [of d n g b "g * b"]
    by (simp add: device_launch_def launch_def)
qed

lemma grid_covers:
  fixes n b :: nat
  assumes "0 < b"
  shows "n \<le> (n + b - 1) div b * b"
proof -
  have "n + b - 1 < (n + b - 1) div b * b + b"
    using assms by (metis add.commute dividend_less_div_times)
  then show ?thesis by simp
qed

lemma init_weight_bias_frame:
  assumes "init_weight_bias e seed (L, W) = Inr (L', W')"
  shows "input_ptr L' = input_ptr L \<and> batch_size L' = batch_size L \<and> heap W' = heap W \<and>
         files W' = files W \<and>
         output_ptr L' = output_ptr L \<and> Layer.more L' = Layer.more L \<and>
         freeze L' = freeze L \<and> load_pretrain L' = load_pretrain L \<and>
         (weights L \<noteq> None \<longrightarrow> weights L' \<noteq> None) \<and> (biases L \<noteq> None \<longrightarrow> biases L' \<noteq> None)"
  using assms
  by (auto simp: init_weight_bias_def bind_err_def deref_def Let_def
      split: sum.splits option.splits if_splits)

lemma load_parameter_frame:
  assumes "load_parameter (L, W) = Inr (st, L', W')"
  shows "input_ptr L' = input_ptr L \<and> batch_size L' = batch_size L \<and> heap W' = heap W \<and>
         files W' = files W \<and>
         output_ptr L' = output_ptr L \<and> Layer.more L' = Layer.more L \<and>
         freeze L' = freeze L \<and> load_pretrain L' = load_pretrain L \<and>
         weights L' \<noteq> None \<and> (biases L \<noteq> None \<longrightarrow> biases L' \<noteq> None)"
  using assms
  by (auto simp: load_parameter_def bind_err_def deref_def Let_def
      split: sum.splits option.splits if_splits prod.splits)

lemma materialize_parameters_frame:
  assumes "materialize_parameters e (L, W) = Inr (L', W')"
  shows "input_ptr L' = input_ptr L \<and> batch_size L' = batch_size L \<and> heap W' = heap W \<and>
         files W' = files W \<and>
         output_ptr L' = output_ptr L \<and> Layer.more L' = Layer.more L \<and>
         freeze L' = freeze L \<and> load_pretrain L' = load_pretrain L \<and>
         (weights L \<noteq> None \<longrightarrow> weights L' \<noteq> None) \<and> (biases L \<noteq> None \<longrightarrow> biases L' \<noteq> None)"
proof (cases "load_pretrain L \<and> \<not> freeze L")
  case True
  then obtain st where "load_parameter (L, W) = Inr (st, L', W')"
    using assms
    by (auto simp: materialize_parameters_def bind_err_def split: sum.splits if_splits prod.splits)
  from load_parameter_frame [OF this] show ?thesis by simp
next
  case False
  then have "init_weight_bias e (default_seed e) (L, W) = Inr (L', W') \<or> (L', W') = (L, W)"
    using assms by (auto simp: materialize_parameters_def split: if_splits)
  then show ?thesis using init_weight_bias_frame [of e "default_seed e" L W L' W'] by auto
qed

lemma materialize_parameters_frozen:
  "freeze L \<Longrightarrow> materialize_parameters e (L, W) = Inr (L, W)"
  by (simp add: materialize_parameters_def)

lemma Linear_allocate_frame:
  "weights (Linear_allocate e x L) \<noteq> None \<and>
   (weights L \<noteq> None \<longrightarrow> Linear_allocate e x L = L) \<and>
   input_ptr (Linear_allocate e x L) = input_ptr L \<and>
   batch_size (Linear_allocate e x L) = batch_size L \<and>
   freeze (Linear_allocate e x L) = freeze L \<and>
   load_pretrain (Linear_allocate e x L) = load_pretrain L \<and>
   name (Linear_allocate e x L) = name L \<and>
   output_size (Linear_allocate e x L) = output_size L"
  by (simp add: Linear_allocate_def Let_def)

lemma Linear_compute_frame:
  assumes "Linear_compute (L, W) = Inr (L', W')"
  shows "params L' = params L \<and> W' = W \<and> input_ptr L' = input_ptr L \<and>
         batch_size L' = batch_size L \<and> freeze L' = freeze L \<and> load_pretrain L' = load_pretrain L"
  using assms
  by (auto simp: Linear_compute_def bind_err_def deref_def params_def split: sum.splits option.splits)

lemma Linear_bind_bound:
  assumes "Linear_bind e inp x (L, W) = Inr (L', W')"
  shows "input_ptr L' \<noteq> None \<and> batch_size L' = dim_n x \<and> heap W' = heap W \<and>
         (weights L \<noteq> None \<longrightarrow> weights L' \<noteq> None)"
proof (cases "input_ptr L = None \<or> batch_size L \<noteq> dim_n x")
  case False
  then show ?thesis using assms by (auto simp: Linear_bind_def)
next
  case True
  then obtain L2 where "materialize_parameters e (L2, W) = Inr (L', W')"
    and "input_ptr L2 = Some inp" and "batch_size L2 = dim_n x" and "weights L2 = weights L"
    using assms
    by (auto simp: Linear_bind_def bind_err_def Let_def split: sum.splits)
  then show ?thesis using materialize_parameters_frame [of e L2 W L' W'] by simp
qed

lemma Linear_bind_same_batch:
  assumes "input_ptr L \<noteq> None" and "batch_size L = dim_n x"
  shows "Linear_bind e inp x (L, W) = Inr (L, W)"
  using assms by (auto simp: Linear_bind_def)

lemma Linear_bind_frozen:
  assumes "freeze L" and "Linear_bind e inp x (L, W) = Inr (L', W')"
  shows "params L' = params L \<and> W' = W"
  using assms
  by (auto simp: Linear_bind_def bind_err_def Let_def materialize_parameters_frozen params_def
      split: sum.splits if_splits)

lemma Linear_forward_parts:
  assumes "Linear_forward e inp (L, W) = Inr (L', W')" and "heap W inp = Some x"
  obtains L3 where "Linear_bind e inp x (Linear_allocate e x L, W) = Inr (L3, W')"
    and "Linear_compute (L3, W') = Inr (L', W')"
proof -
  obtain L3 W3 where b: "Linear_bind e inp x (Linear_allocate e x L, W) = Inr (L3, W3)"
    and c: "Linear_compute (L3, W3) = Inr (L', W')"
    using assms by (auto simp: Linear_forward_def bind_err_def deref_def split: sum.splits)
  from Linear_compute_frame [OF c] have "W3 = W'" by simp
  with b c that show ?thesis by simp
qed

text \<open>What a forward call that returns has established.\<close>

lemma Linear_forward_bound:
  assumes "Linear_forward e inp (L, W) = Inr (L', W')" and "heap W inp = Some x"
  shows "input_ptr L' \<noteq> None \<and> batch_size L' = dim_n x \<and> weights L' \<noteq> None \<and> heap W' = heap W"
proof -
  from assms obtain L3 where b: "Linear_bind e inp x (Linear_allocate e x L, W) = Inr (L3, W')"
    and c: "Linear_compute (L3, W') = Inr (L', W')" by (rule Linear_forward_parts)
  from Linear_bind_bound [OF b] Linear_allocate_frame [of e x L] Linear_compute_frame [OF c]
  show ?thesis by (simp add: params_def)
qed

lemma Linear_forward_same_batch:
  assumes "Linear_forward e inp (L, W) = Inr (L', W')"
    and "heap W inp = Some x" and "input_ptr L \<noteq> None" and "batch_size L = dim_n x"
    and "weights L \<noteq> None"
  shows "params L' = params L \<and> W' = W"
proof -
  from assms(1,2) obtain L3 where b: "Linear_bind e inp x (Linear_allocate e x L, W) = Inr (L3, W')"
    and c: "Linear_compute (L3, W') = Inr (L', W')" by (rule Linear_forward_parts)
  have "Linear_allocate e x L = L" using assms(5) Linear_allocate_frame by blast
  with b Linear_bind_same_batch [OF assms(3,4), of e inp W] have "L3 = L" "W' = W" by simp_all
  with Linear_compute_frame [OF c] show ?thesis by simp
qed

lemma Linear_forward_frozen:
  assumes "Linear_forward e inp (L, W) = Inr (L', W')" and "freeze L" and "weights L \<noteq> None"
  shows "params L' = params L \<and> W' = W"
proof -
  obtain x where x: "heap W inp = Some x"
    using assms(1) by (auto simp: Linear_forward_def bind_err_def deref_def split: option.splits)
  from assms(1) x obtain L3 where b: "Linear_bind e inp x (Linear_allocate e x L, W) = Inr (L3, W')"
    and c: "Linear_compute (L3, W') = Inr (L', W')" by (rule Linear_forward_parts)
  have "Linear_allocate e x L = L" using assms(3) Linear_allocate_frame by blast
  with b Linear_bind_frozen [OF assms(2), of e inp x W L3 W'] Linear_compute_frame [OF c]
  show ?thesis by simp
qed


lemma params_okE:
  assumes "params_ok L"
  obtains wt bs wm wv bm bv where "weights L = Some wt" "biases L = Some bs"
    "weights_m L = Some wm" "weights_v L = Some wv" "biases_m L = Some bm" "biases_v L = Some bv"
    "length (h_ptr wt) = Blob_len wt" "length (h_ptr bs) = Blob_len bs"
    "length (h_ptr wm) = Blob_len wm" "length (h_ptr wv) = Blob_len wv"
    "length (h_ptr bm) = Blob_len bm" "length (h_ptr bv) = Blob_len bv"
  using assms by (auto simp: params_ok_def params_def split: option.splits)

lemma Linear_allocate_ok:
  assumes "weights L = None \<or> params_ok L"
  shows "params_ok (Linear_allocate e x L)"
  using assms
  by (auto simp: Linear_allocate_def Let_def params_ok_def params_def Blob_new_length)

text \<open>
  What the materialization block leaves in its three cases, in the words of the
  specification: the parameter set as it was, the loaded one, or the fresh one.
\<close>

lemma Blob_reset_shape: "Blob_shape (Blob_reset u s b) = s"
  by (simp add: Blob_reset_def Blob_new_shape)

lemma params_ok_cong: "params L2 = params L \<Longrightarrow> params_ok L2 = params_ok L"
  by (simp add: params_ok_def)

lemma init_weight_bias_fresh_parameters:
  assumes "params_ok L" and "input_ptr L = Some a" and "heap W a = Some x"
  shows "\<exists>L'. init_weight_bias e (default_seed e) (L, W) =
            Inr (L', W\<lparr>cout := cout W @ [''.. initialized '' @ name L @ '' layer ..'']\<rparr>) \<and>
          params L' = fresh_parameters e x (params L)"
proof -
  from assms(1) obtain wt bs wm wv bm bv where p: "weights L = Some wt" "biases L = Some bs"
    "weights_m L = Some wm" "weights_v L = Some wv" "biases_m L = Some bm" "biases_v L = Some bv"
    and l: "length (h_ptr wt) = Blob_len wt" "length (h_ptr bs) = Blob_len bs"
    "length (h_ptr wm) = Blob_len wm" "length (h_ptr wv) = Blob_len wv"
    "length (h_ptr bm) = Blob_len bm" "length (h_ptr bv) = Blob_len bv"
    by (rule params_okE)
  note r = init_weight_bias_result [OF p assms(2,3) l, of e "default_seed e"]
  show ?thesis
    by (simp add: r params_def p fresh_parameters_def fresh_weights_def zeroed_def Let_def)
qed

lemma load_parameter_loaded:
  assumes "load_parameter (L, W) = Inr (0, L', W')"
  shows "\<exists>ws bs. files W (name L @ ''.bin'') = Some ws \<and>
           files W (name L @ ''.bias.bin'') = Some bs \<and>
           params L' = loaded_parameters ws bs (params L) \<and>
           W' = W\<lparr>cout := cout W @ [''.. loaded '' @ name L @ '' pretrain parameter..'']\<rparr>"
proof -
  obtain wt where wt: "weights L = Some wt"
    using assms by (auto simp: load_parameter_def bind_err_def deref_def split: option.splits)
  obtain ws where ws: "files W (name L @ ''.bin'') = Some ws" "length ws = Blob_len wt"
    using assms wt
    by (auto simp: load_parameter_def bind_err_def deref_def file_read_def Let_def
        split: option.splits if_splits)
  obtain bi where bi: "biases L = Some bi"
    using assms wt ws
    by (auto simp: load_parameter_def bind_err_def deref_def file_read_def Let_def
        split: option.splits)
  obtain bs where bs: "files W (name L @ ''.bias.bin'') = Some bs" "length bs = Blob_len bi"
    using assms wt ws bi
    by (auto simp: load_parameter_def bind_err_def deref_def file_read_def Let_def
        split: option.splits if_splits)
  show ?thesis
    using assms wt ws bi bs
    by (auto simp: load_parameter_def bind_err_def deref_def file_read_def Let_def
        params_def loaded_parameters_def)
qed

lemma materialize_parameters_cases:
  assumes "materialize_parameters e (L, W) = Inr (L', W')"
  shows "freeze L \<Longrightarrow> params L' = params L \<and> W' = W"
    and "\<not> freeze L \<Longrightarrow> \<not> load_pretrain L \<Longrightarrow> params_ok L \<Longrightarrow> input_ptr L = Some a \<Longrightarrow>
         heap W a = Some x \<Longrightarrow>
         params L' = fresh_parameters e x (params L) \<and>
         W' = W\<lparr>cout := cout W @ [''.. initialized '' @ name L @ '' layer ..'']\<rparr>"
    and "\<not> freeze L \<Longrightarrow> load_pretrain L \<Longrightarrow>
         \<exists>ws bs. files W (name L @ ''.bin'') = Some ws \<and>
           files W (name L @ ''.bias.bin'') = Some bs \<and>
           params L' = loaded_parameters ws bs (params L) \<and>
           W' = W\<lparr>cout := cout W @ [''.. loaded '' @ name L @ '' pretrain parameter..'']\<rparr>"
proof -
  show "freeze L \<Longrightarrow> params L' = params L \<and> W' = W"
    using assms by (simp add: materialize_parameters_def)
  show "\<not> freeze L \<Longrightarrow> \<not> load_pretrain L \<Longrightarrow> params_ok L \<Longrightarrow> input_ptr L = Some a \<Longrightarrow>
         heap W a = Some x \<Longrightarrow>
         params L' = fresh_parameters e x (params L) \<and>
         W' = W\<lparr>cout := cout W @ [''.. initialized '' @ name L @ '' layer ..'']\<rparr>"
    using assms init_weight_bias_fresh_parameters [of L a W x e]
    by (auto simp: materialize_parameters_def)
  show "\<not> freeze L \<Longrightarrow> load_pretrain L \<Longrightarrow>
         \<exists>ws bs. files W (name L @ ''.bin'') = Some ws \<and>
           files W (name L @ ''.bias.bin'') = Some bs \<and>
           params L' = loaded_parameters ws bs (params L) \<and>
           W' = W\<lparr>cout := cout W @ [''.. loaded '' @ name L @ '' pretrain parameter..'']\<rparr>"
  proof -
    assume a: "\<not> freeze L" "load_pretrain L"
    then have "load_parameter (L, W) = Inr (0, L', W')"
      using assms
      by (auto simp: materialize_parameters_def bind_err_def split: sum.splits if_splits)
    then show ?thesis by (rule load_parameter_loaded)
  qed
qed

text \<open>
  A forward call that binds: the block runs on a layer that has the parameters of the
  allocation, the new batch size and an output buffer of the new shape.
\<close>

lemma Linear_bind_rebinds:
  assumes "input_ptr L = None \<or> batch_size L \<noteq> dim_n x"
  obtains L2 where "Linear_bind e inp x (L, W) = materialize_parameters e (L2, W)"
    and "params L2 = params L" and "input_ptr L2 = Some inp" and "batch_size L2 = dim_n x"
    and "freeze L2 = freeze L" and "load_pretrain L2 = load_pretrain L" and "name L2 = name L"
    and "map_option Blob_shape (output_ptr L2) = Some (dim_n x, output_size L, 1, 1)"
proof -
  obtain ones where ones: "device_launch ((dim_n x + BLOCK_DIM_1D e - 1) div BLOCK_DIM_1D e)
      (BLOCK_DIM_1D e) (init_one_vec (dim_n x)) True (replicate (dim_n x) (uninit e)) = Inr ones"
    using init_one_vec_launch by blast
  let ?out = "case output_ptr L of
        None \<Rightarrow> Blob_new (uninit e) (dim_n x, output_size L, 1, 1)
      | Some out \<Rightarrow> Blob_reset (uninit e) (dim_n x, output_size L, 1, 1) out"
  let ?L2 = "L\<lparr>input_ptr := Some inp, batch_size := dim_n x, output_ptr := Some ?out,
      d_one_vec := Some ones\<rparr>"
  have b: "Linear_bind e inp x (L, W) = materialize_parameters e (?L2, W)"
    using assms ones by (auto simp: Linear_bind_def bind_err_def Let_def)
  have s: "Blob_shape ?out = (dim_n x, output_size L, 1, 1)"
    by (simp add: Blob_new_shape Blob_reset_shape split: option.splits)
  show ?thesis
    by (rule that [of ?L2]) (use b s in \<open>simp_all add: params_def\<close>)
qed

lemma materialize_parameters_output:
  assumes "materialize_parameters e (L, W) = Inr (L', W')"
  shows "output_ptr L' = output_ptr L \<and> batch_size L' = batch_size L"
  using materialize_parameters_frame [OF assms] by simp

lemma Linear_compute_output:
  assumes "Linear_compute (L, W) = Inr (L', W')"
  shows "map_option Blob_shape (output_ptr L') = map_option Blob_shape (output_ptr L)"
  using assms
  by (auto simp: Linear_compute_def bind_err_def deref_def Blob_shape_def
      split: sum.splits option.splits)

lemma Linear_forward_rebinds:
  assumes "Linear_forward e a (L, W) = Inr (L', W')" and "heap W a = Some x"
    and "input_ptr L = None \<or> batch_size L \<noteq> dim_n x"
  obtains L2 L3 :: Linear where "materialize_parameters e (L2, W) = Inr (L3, W')"
    and "params L2 = params (Linear_allocate e x L)" and "input_ptr L2 = Some a"
    and "freeze L2 = freeze L" and "load_pretrain L2 = load_pretrain L" and "name L2 = name L"
    and "params L' = params L3" and "batch_size L' = dim_n x"
    and "map_option Blob_shape (output_ptr L') = Some (dim_n x, output_size L, 1, 1)"
proof -
  let ?A = "Linear_allocate e x L"
  note A = Linear_allocate_frame [of e x L]
  from assms(1,2) obtain L3 where b: "Linear_bind e a x (?A, W) = Inr (L3, W')"
    and c: "Linear_compute (L3, W') = Inr (L', W')" by (rule Linear_forward_parts)
  have "input_ptr ?A = None \<or> batch_size ?A \<noteq> dim_n x" using assms(3) A by simp
  then obtain L2 where m: "Linear_bind e a x (?A, W) = materialize_parameters e (L2, W)"
    and f: "params L2 = params ?A" "input_ptr L2 = Some a" "batch_size L2 = dim_n x"
      "freeze L2 = freeze ?A" "load_pretrain L2 = load_pretrain ?A" "name L2 = name ?A"
      "map_option Blob_shape (output_ptr L2) = Some (dim_n x, output_size ?A, 1, 1)"
    by (rule Linear_bind_rebinds)
  have m': "materialize_parameters e (L2, W) = Inr (L3, W')" using m b by simp
  note o = materialize_parameters_output [OF m'] Linear_compute_frame [OF c]
    Linear_compute_output [OF c]
  show ?thesis
    by (rule that [of L2 L3]) (use m' f A o in simp_all)
qed

lemma Linear_forward_frozen_allocated:
  assumes "Linear_forward e a (L, W) = Inr (L', W')" and "heap W a = Some x" and "freeze L"
  shows "params L' = params (Linear_allocate e x L) \<and> W' = W"
proof -
  from assms(1,2) obtain L3 where b: "Linear_bind e a x (Linear_allocate e x L, W) = Inr (L3, W')"
    and c: "Linear_compute (L3, W') = Inr (L', W')" by (rule Linear_forward_parts)
  have "freeze (Linear_allocate e x L)" using assms(3) Linear_allocate_frame [of e x L] by simp
  from Linear_bind_frozen [OF this b] Linear_compute_frame [OF c] show ?thesis by simp
qed

lemma Linear_forward_fresh:
  assumes "Linear_forward e a (L, W) = Inr (L', W')" and "heap W a = Some x"
    and "input_ptr L = None \<or> batch_size L \<noteq> dim_n x"
    and "\<not> freeze L" and "\<not> load_pretrain L" and "weights L = None \<or> params_ok L"
  shows "params L' = fresh_parameters e x (params (Linear_allocate e x L)) \<and>
         W' = W\<lparr>cout := cout W @ [''.. initialized '' @ name L @ '' layer ..'']\<rparr>"
proof -
  from assms(1-3) obtain L2 L3 :: Linear where m: "materialize_parameters e (L2, W) = Inr (L3, W')"
    and f: "params L2 = params (Linear_allocate e x L)" "input_ptr L2 = Some a"
      "freeze L2 = freeze L" "load_pretrain L2 = load_pretrain L" "name L2 = name L"
      "params L' = params L3"
    by (rule Linear_forward_rebinds)
  have ok: "params_ok L2"
    using Linear_allocate_ok [OF assms(6), of e x] params_ok_cong [OF f(1)] by simp
  from materialize_parameters_cases(2) [OF m _ _ ok f(2) assms(2)] assms(4,5) f
  show ?thesis by simp
qed

lemma Linear_forward_loaded:
  assumes "Linear_forward e a (L, W) = Inr (L', W')" and "heap W a = Some x"
    and "input_ptr L = None \<or> batch_size L \<noteq> dim_n x"
    and "\<not> freeze L" and "load_pretrain L"
  shows "\<exists>ws bs. files W (name L @ ''.bin'') = Some ws \<and>
           files W (name L @ ''.bias.bin'') = Some bs \<and>
           params L' = loaded_parameters ws bs (params (Linear_allocate e x L)) \<and>
           W' = W\<lparr>cout := cout W @ [''.. loaded '' @ name L @ '' pretrain parameter..'']\<rparr>"
proof -
  from assms(1-3) obtain L2 L3 :: Linear where m: "materialize_parameters e (L2, W) = Inr (L3, W')"
    and f: "params L2 = params (Linear_allocate e x L)" "input_ptr L2 = Some a"
      "freeze L2 = freeze L" "load_pretrain L2 = load_pretrain L" "name L2 = name L"
      "params L' = params L3"
    by (rule Linear_forward_rebinds)
  from materialize_parameters_cases(3) [OF m] assms(4,5) f
  show ?thesis by simp
qed

lemma Linear_forward_resizes:
  assumes "Linear_forward e a (L, W) = Inr (L', W')" and "heap W a = Some x"
    and "input_ptr L = None \<or> batch_size L \<noteq> dim_n x"
  shows "batch_size L' = dim_n x \<and>
         map_option Blob_shape (output_ptr L') = Some (dim_n x, output_size L, 1, 1)"
  using Linear_forward_rebinds [OF assms] by metis

subsection \<open>The same for the convolution layer\<close>

lemma Conv2D_allocate_frame:
  "weights (Conv2D_allocate e x L) \<noteq> None \<and>
   (weights L \<noteq> None \<longrightarrow> Conv2D_allocate e x L = L) \<and>
   input_ptr (Conv2D_allocate e x L) = input_ptr L \<and>
   batch_size (Conv2D_allocate e x L) = batch_size L \<and>
   freeze (Conv2D_allocate e x L) = freeze L \<and>
   load_pretrain (Conv2D_allocate e x L) = load_pretrain L \<and>
   name (Conv2D_allocate e x L) = name L"
  by (simp add: Conv2D_allocate_def Let_def)

lemma Conv2D_allocate_ok:
  assumes "weights L = None \<or> params_ok L"
  shows "params_ok (Conv2D_allocate e x L)"
  using assms
  by (auto simp: Conv2D_allocate_def Let_def params_ok_def params_def Blob_new_length)

lemma set_workspace_frame:
  assumes "set_workspace p (L, W) = (L', W')"
  shows "params L' = params L \<and> input_ptr L' = input_ptr L \<and> batch_size L' = batch_size L \<and>
         freeze L' = freeze L \<and> load_pretrain L' = load_pretrain L \<and> name L' = name L \<and>
         W' = W\<lparr>cout := cout W @ algorithm_report p (name L)\<rparr>"
  using assms
  by (auto simp: set_workspace_def Let_def params_def split: prod.splits)

lemma Conv2D_compute_frame:
  assumes "Conv2D_compute p (L, W) = Inr (L', W')"
  shows "params L' = params L \<and> W' = W \<and> input_ptr L' = input_ptr L \<and>
         batch_size L' = batch_size L \<and> freeze L' = freeze L \<and> load_pretrain L' = load_pretrain L"
  using assms
  by (auto simp: Conv2D_compute_def bind_err_def deref_def params_def split: sum.splits option.splits)

lemma set_workspace_output:
  assumes "set_workspace p (L, W) = (L', W')"
  shows "output_ptr L' = output_ptr L"
  using assms by (auto simp: set_workspace_def Let_def split: prod.splits)

lemma Conv2D_bind_rebinds:
  assumes "input_ptr L = None \<or> batch_size L \<noteq> dim_n x"
  obtains L2 where "Conv2D_bind p e inp x (L, W) =
      materialize_parameters e (L2, W\<lparr>cout := cout W @ algorithm_report p (name L)\<rparr>)"
    and "params L2 = params L" and "input_ptr L2 = Some inp" and "batch_size L2 = dim_n x"
    and "freeze L2 = freeze L" and "load_pretrain L2 = load_pretrain L" and "name L2 = name L"
    and "map_option Blob_shape (output_ptr L2) =
           Some (GetConvolution2dForwardOutputDim p
                   (conv_padding L, conv_stride L, conv_dilation L) (Blob_shape x) (filter_desc L))"
proof -
  let ?dims = "GetConvolution2dForwardOutputDim p
      (conv_padding L, conv_stride L, conv_dilation L) (Blob_shape x) (filter_desc L)"
  let ?out = "case output_ptr L of
      None \<Rightarrow> Blob_new (uninit e) ?dims | Some out \<Rightarrow> Blob_reset (uninit e) ?dims out"
  let ?L1 = "L\<lparr>input_ptr := Some inp, input_desc := Blob_shape x, batch_size := dim_n x,
      output_dims := ?dims, output_ptr := Some ?out, output_desc := Blob_shape ?out\<rparr>"
  obtain L2 W2 where s: "set_workspace p (?L1, W) = (L2, W2)" by (cases "set_workspace p (?L1, W)")
  have "Conv2D_bind p e inp x (L, W) = materialize_parameters e (set_workspace p (?L1, W))"
    using assms by (auto simp: Conv2D_bind_def Let_def)
  then have b: "Conv2D_bind p e inp x (L, W) = materialize_parameters e (L2, W2)"
    by (simp only: s)
  have sh: "Blob_shape ?out = ?dims"
    by (simp add: Blob_new_shape Blob_reset_shape split: option.splits)
  from set_workspace_frame [OF s] set_workspace_output [OF s] sh have
    "W2 = W\<lparr>cout := cout W @ algorithm_report p (name L)\<rparr>" "params L2 = params L"
    "input_ptr L2 = Some inp" "batch_size L2 = dim_n x" "freeze L2 = freeze L"
    "load_pretrain L2 = load_pretrain L" "name L2 = name L"
    "map_option Blob_shape (output_ptr L2) = Some ?dims"
    by (simp_all add: params_def)
  with b that show ?thesis by simp
qed

lemma Conv2D_bind_bound:
  assumes "Conv2D_bind p e inp x (L, W) = Inr (L', W')"
  shows "input_ptr L' \<noteq> None \<and> batch_size L' = dim_n x \<and> heap W' = heap W \<and>
         (weights L \<noteq> None \<longrightarrow> weights L' \<noteq> None)"
proof (cases "input_ptr L = None \<or> batch_size L \<noteq> dim_n x")
  case False
  then show ?thesis using assms by (auto simp: Conv2D_bind_def)
next
  case True
  then obtain L2 where "Conv2D_bind p e inp x (L, W) =
      materialize_parameters e (L2, W\<lparr>cout := cout W @ algorithm_report p (name L)\<rparr>)"
    and "params L2 = params L" and "input_ptr L2 = Some inp" and "batch_size L2 = dim_n x"
    by (rule Conv2D_bind_rebinds)
  then show ?thesis
    using assms materialize_parameters_frame [of e L2
        "W\<lparr>cout := cout W @ algorithm_report p (name L)\<rparr>" L' W']
    by (simp add: params_def)
qed

lemma Conv2D_bind_same_batch:
  assumes "input_ptr L \<noteq> None" and "batch_size L = dim_n x"
  shows "Conv2D_bind p e inp x (L, W) = Inr (L, W)"
  using assms by (auto simp: Conv2D_bind_def)

lemma Conv2D_bind_frozen:
  assumes "freeze L" and "Conv2D_bind p e inp x (L, W) = Inr (L', W')"
  shows "params L' = params L \<and>
         (W' = W \<or> W' = W\<lparr>cout := cout W @ algorithm_report p (name L)\<rparr>)"
proof (cases "input_ptr L = None \<or> batch_size L \<noteq> dim_n x")
  case False
  then show ?thesis using assms by (auto simp: Conv2D_bind_def)
next
  case True
  then obtain L2 where "Conv2D_bind p e inp x (L, W) =
      materialize_parameters e (L2, W\<lparr>cout := cout W @ algorithm_report p (name L)\<rparr>)"
    and "params L2 = params L" and "freeze L2 = freeze L"
    by (rule Conv2D_bind_rebinds)
  then show ?thesis using assms by (simp add: materialize_parameters_frozen)
qed

lemma Conv2D_forward_parts:
  assumes "Conv2D_forward p e inp (L, W) = Inr (L', W')" and "heap W inp = Some x"
  obtains L3 where "Conv2D_bind p e inp x (Conv2D_allocate e x L, W) = Inr (L3, W')"
    and "Conv2D_compute p (L3, W') = Inr (L', W')"
proof -
  obtain L3 W3 where b: "Conv2D_bind p e inp x (Conv2D_allocate e x L, W) = Inr (L3, W3)"
    and c: "Conv2D_compute p (L3, W3) = Inr (L', W')"
    using assms by (auto simp: Conv2D_forward_def bind_err_def deref_def split: sum.splits)
  from Conv2D_compute_frame [OF c] have "W3 = W'" by simp
  with b c that show ?thesis by simp
qed

lemma Conv2D_forward_bound:
  assumes "Conv2D_forward p e inp (L, W) = Inr (L', W')" and "heap W inp = Some x"
  shows "input_ptr L' \<noteq> None \<and> batch_size L' = dim_n x \<and> weights L' \<noteq> None \<and> heap W' = heap W"
proof -
  from assms obtain L3 where b: "Conv2D_bind p e inp x (Conv2D_allocate e x L, W) = Inr (L3, W')"
    and c: "Conv2D_compute p (L3, W') = Inr (L', W')" by (rule Conv2D_forward_parts)
  from Conv2D_bind_bound [OF b] Conv2D_allocate_frame [of e x L] Conv2D_compute_frame [OF c]
  show ?thesis by (simp add: params_def)
qed

lemma Conv2D_forward_same_batch:
  assumes "Conv2D_forward p e inp (L, W) = Inr (L', W')"
    and "heap W inp = Some x" and "input_ptr L \<noteq> None" and "batch_size L = dim_n x"
    and "weights L \<noteq> None"
  shows "params L' = params L \<and> W' = W"
proof -
  from assms(1,2) obtain L3 where b: "Conv2D_bind p e inp x (Conv2D_allocate e x L, W) = Inr (L3, W')"
    and c: "Conv2D_compute p (L3, W') = Inr (L', W')" by (rule Conv2D_forward_parts)
  have "Conv2D_allocate e x L = L" using assms(5) Conv2D_allocate_frame by blast
  with b Conv2D_bind_same_batch [OF assms(3,4), of p e inp W] have "L3 = L" "W' = W" by simp_all
  with Conv2D_compute_frame [OF c] show ?thesis by simp
qed

lemma Conv2D_forward_frozen:
  assumes "Conv2D_forward p e inp (L, W) = Inr (L', W')" and "freeze L" and "weights L \<noteq> None"
  shows "params L' = params L \<and>
         (W' = W \<or> W' = W\<lparr>cout := cout W @ algorithm_report p (name L)\<rparr>)"
proof -
  obtain x where x: "heap W inp = Some x"
    using assms(1) by (auto simp: Conv2D_forward_def bind_err_def deref_def split: option.splits)
  from assms(1) x obtain L3 where b: "Conv2D_bind p e inp x (Conv2D_allocate e x L, W) = Inr (L3, W')"
    and c: "Conv2D_compute p (L3, W') = Inr (L', W')" by (rule Conv2D_forward_parts)
  have "Conv2D_allocate e x L = L" using assms(3) Conv2D_allocate_frame by blast
  with b Conv2D_bind_frozen [OF assms(2), of p e inp x W L3 W'] Conv2D_compute_frame [OF c]
  show ?thesis by simp
qed

lemma Conv2D_compute_output:
  assumes "Conv2D_compute p (L, W) = Inr (L', W')"
  shows "map_option Blob_shape (output_ptr L') = map_option Blob_shape (output_ptr L)"
  using assms
  by (auto simp: Conv2D_compute_def bind_err_def deref_def Blob_shape_def
      split: sum.splits option.splits)

lemma Conv2D_allocate_geometry:
  "conv_padding (Conv2D_allocate e x L) = conv_padding L \<and>
   conv_stride (Conv2D_allocate e x L) = conv_stride L \<and>
   conv_dilation (Conv2D_allocate e x L) = conv_dilation L"
  by (simp add: Conv2D_allocate_def Let_def)

lemma Conv2D_forward_rebinds:
  assumes "Conv2D_forward p e a (L, W) = Inr (L', W')" and "heap W a = Some x"
    and "input_ptr L = None \<or> batch_size L \<noteq> dim_n x"
  obtains L2 L3 :: Conv2D where
    "materialize_parameters e (L2, W\<lparr>cout := cout W @ algorithm_report p (name L)\<rparr>) = Inr (L3, W')"
    and "params L2 = params (Conv2D_allocate e x L)" and "input_ptr L2 = Some a"
    and "freeze L2 = freeze L" and "load_pretrain L2 = load_pretrain L" and "name L2 = name L"
    and "params L' = params L3" and "batch_size L' = dim_n x"
    and "map_option Blob_shape (output_ptr L') =
           Some (GetConvolution2dForwardOutputDim p
                   (conv_padding L, conv_stride L, conv_dilation L) (Blob_shape x)
                   (filter_desc (Conv2D_allocate e x L)))"
proof -
  let ?A = "Conv2D_allocate e x L"
  note A = Conv2D_allocate_frame [of e x L] Conv2D_allocate_geometry [of e x L]
  from assms(1,2) obtain L3 where b: "Conv2D_bind p e a x (?A, W) = Inr (L3, W')"
    and c: "Conv2D_compute p (L3, W') = Inr (L', W')" by (rule Conv2D_forward_parts)
  have "input_ptr ?A = None \<or> batch_size ?A \<noteq> dim_n x" using assms(3) A by simp
  then obtain L2 where m: "Conv2D_bind p e a x (?A, W) =
      materialize_parameters e (L2, W\<lparr>cout := cout W @ algorithm_report p (name ?A)\<rparr>)"
    and f: "params L2 = params ?A" "input_ptr L2 = Some a" "batch_size L2 = dim_n x"
      "freeze L2 = freeze ?A" "load_pretrain L2 = load_pretrain ?A" "name L2 = name ?A"
      "map_option Blob_shape (output_ptr L2) =
           Some (GetConvolution2dForwardOutputDim p
                   (conv_padding ?A, conv_stride ?A, conv_dilation ?A) (Blob_shape x)
                   (filter_desc ?A))"
    by (rule Conv2D_bind_rebinds)
  have m': "materialize_parameters e (L2, W\<lparr>cout := cout W @ algorithm_report p (name L)\<rparr>)
      = Inr (L3, W')" using m b A by simp
  note o = materialize_parameters_output [OF m'] Conv2D_compute_frame [OF c]
    Conv2D_compute_output [OF c]
  show ?thesis
    by (rule that [of L2 L3]) (use m' f A o in simp_all)
qed

lemma Conv2D_forward_frozen_allocated:
  assumes "Conv2D_forward p e a (L, W) = Inr (L', W')" and "heap W a = Some x" and "freeze L"
  shows "params L' = params (Conv2D_allocate e x L) \<and>
         (W' = W \<or> W' = W\<lparr>cout := cout W @ algorithm_report p (name L)\<rparr>)"
proof -
  from assms(1,2) obtain L3 where b: "Conv2D_bind p e a x (Conv2D_allocate e x L, W) = Inr (L3, W')"
    and c: "Conv2D_compute p (L3, W') = Inr (L', W')" by (rule Conv2D_forward_parts)
  note A = Conv2D_allocate_frame [of e x L]
  have "freeze (Conv2D_allocate e x L)" using assms(3) A by simp
  from Conv2D_bind_frozen [OF this b] Conv2D_compute_frame [OF c] A show ?thesis by simp
qed

lemma Conv2D_forward_fresh:
  assumes "Conv2D_forward p e a (L, W) = Inr (L', W')" and "heap W a = Some x"
    and "input_ptr L = None \<or> batch_size L \<noteq> dim_n x"
    and "\<not> freeze L" and "\<not> load_pretrain L" and "weights L = None \<or> params_ok L"
  shows "params L' = fresh_parameters e x (params (Conv2D_allocate e x L)) \<and>
         W' = W\<lparr>cout := cout W @ algorithm_report p (name L) @
                          [''.. initialized '' @ name L @ '' layer ..'']\<rparr>"
proof -
  let ?W = "W\<lparr>cout := cout W @ algorithm_report p (name L)\<rparr>"
  from assms(1-3) obtain L2 L3 :: Conv2D where m: "materialize_parameters e (L2, ?W) = Inr (L3, W')"
    and f: "params L2 = params (Conv2D_allocate e x L)" "input_ptr L2 = Some a"
      "freeze L2 = freeze L" "load_pretrain L2 = load_pretrain L" "name L2 = name L"
      "params L' = params L3"
    by (rule Conv2D_forward_rebinds)
  have ok: "params_ok L2"
    using Conv2D_allocate_ok [OF assms(6), of e x] params_ok_cong [OF f(1)] by simp
  have h: "heap ?W a = Some x" using assms(2) by simp
  from materialize_parameters_cases(2) [OF m _ _ ok f(2) h] assms(4,5) f
  show ?thesis by simp
qed

lemma Conv2D_forward_loaded:
  assumes "Conv2D_forward p e a (L, W) = Inr (L', W')" and "heap W a = Some x"
    and "input_ptr L = None \<or> batch_size L \<noteq> dim_n x"
    and "\<not> freeze L" and "load_pretrain L"
  shows "\<exists>ws bs. files W (name L @ ''.bin'') = Some ws \<and>
           files W (name L @ ''.bias.bin'') = Some bs \<and>
           params L' = loaded_parameters ws bs (params (Conv2D_allocate e x L)) \<and>
           W' = W\<lparr>cout := cout W @ algorithm_report p (name L) @
                            [''.. loaded '' @ name L @ '' pretrain parameter..'']\<rparr>"
proof -
  let ?W = "W\<lparr>cout := cout W @ algorithm_report p (name L)\<rparr>"
  from assms(1-3) obtain L2 L3 :: Conv2D where m: "materialize_parameters e (L2, ?W) = Inr (L3, W')"
    and f: "params L2 = params (Conv2D_allocate e x L)" "input_ptr L2 = Some a"
      "freeze L2 = freeze L" "load_pretrain L2 = load_pretrain L" "name L2 = name L"
      "params L' = params L3"
    by (rule Conv2D_forward_rebinds)
  from materialize_parameters_cases(3) [OF m] assms(4,5) f
  show ?thesis by simp
qed

lemma Conv2D_forward_resizes:
  assumes "Conv2D_forward p e a (L, W) = Inr (L', W')" and "heap W a = Some x"
    and "input_ptr L = None \<or> batch_size L \<noteq> dim_n x"
  shows "batch_size L' = dim_n x \<and>
         map_option Blob_shape (output_ptr L') =
           Some (GetConvolution2dForwardOutputDim p
                   (conv_padding L, conv_stride L, conv_dilation L) (Blob_shape x)
                   (filter_desc (Conv2D_allocate e x L)))"
  using Conv2D_forward_rebinds [OF assms] by metis

subsection \<open>The same for the batch normalization layer\<close>

lemma FusedBatchNormalization_allocate_frame:
  "weights (FusedBatchNormalization_allocate e x L) \<noteq> None \<and>
   (weights L \<noteq> None \<longrightarrow> FusedBatchNormalization_allocate e x L = L) \<and>
   input_ptr (FusedBatchNormalization_allocate e x L) = input_ptr L \<and>
   batch_size (FusedBatchNormalization_allocate e x L) = batch_size L \<and>
   freeze (FusedBatchNormalization_allocate e x L) = freeze L \<and>
   load_pretrain (FusedBatchNormalization_allocate e x L) = load_pretrain L \<and>
   name (FusedBatchNormalization_allocate e x L) = name L"
  by (simp add: FusedBatchNormalization_allocate_def)

lemma FusedBatchNormalization_allocate_ok:
  assumes "weights L = None \<or> params_ok L"
  shows "params_ok (FusedBatchNormalization_allocate e x L)"
  using assms
  by (auto simp: FusedBatchNormalization_allocate_def params_ok_def params_def Blob_new_length)

lemma FusedBatchNormalization_compute_frame:
  assumes "FusedBatchNormalization_compute p (L, W) = Inr (L', W')"
  shows "params L' = params L \<and> W' = W \<and> input_ptr L' = input_ptr L \<and>
         batch_size L' = batch_size L \<and> freeze L' = freeze L \<and> load_pretrain L' = load_pretrain L \<and>
         map_option Blob_shape (output_ptr L') = map_option Blob_shape (output_ptr L)"
  using assms
  by (auto simp: FusedBatchNormalization_compute_def bind_err_def deref_def params_def
      Blob_shape_def split: sum.splits option.splits prod.splits)

lemma FusedBatchNormalization_bind_rebinds:
  assumes "input_ptr L = None \<or> batch_size L \<noteq> dim_n x"
  obtains L2 where "FusedBatchNormalization_bind p e inp x (L, W) =
      materialize_parameters e (L2, W)"
    and "params L2 = params L" and "input_ptr L2 = Some inp" and "batch_size L2 = dim_n x"
    and "freeze L2 = freeze L" and "load_pretrain L2 = load_pretrain L" and "name L2 = name L"
    and "map_option Blob_shape (output_ptr L2) = Some (Blob_shape x)"
proof -
  let ?out = "case output_ptr L of
      None \<Rightarrow> Blob_new (uninit e) (Blob_shape x)
    | Some out \<Rightarrow> Blob_reset (uninit e) (Blob_shape x) out"
  let ?L2 = "L\<lparr>input_ptr := Some inp, batch_size := dim_n x, input_desc := Blob_shape x,
                     output_ptr := Some ?out, output_desc := Blob_shape ?out,
                     resultRunningMean := Some (replicate (bn_size L) (uninit e)),
                     resultRunningVariance := Some (replicate (bn_size L) (uninit e)),
                     resultSaveMean := Some (replicate (bn_size L) (uninit e)),
                     resultSaveInvVariance := Some (replicate (bn_size L) (uninit e)),
                     bnScaleBiasMeanVarDesc :=
                       DeriveBNTensorDescriptor p (Blob_shape x) (bn_mode L)\<rparr>"
  have b: "FusedBatchNormalization_bind p e inp x (L, W) = materialize_parameters e (?L2, W)"
    using assms by (auto simp: FusedBatchNormalization_bind_def Let_def)
  have s: "Blob_shape ?out = Blob_shape x"
    by (simp add: Blob_new_shape Blob_reset_shape split: option.splits)
  show ?thesis
    by (rule that [of ?L2]) (use b s in \<open>simp_all add: params_def\<close>)
qed

lemma FusedBatchNormalization_bind_same_batch:
  assumes "input_ptr L \<noteq> None" and "batch_size L = dim_n x"
  shows "FusedBatchNormalization_bind p e inp x (L, W) = Inr (L, W)"
  using assms by (auto simp: FusedBatchNormalization_bind_def)

lemma FusedBatchNormalization_bind_bound:
  assumes "FusedBatchNormalization_bind p e inp x (L, W) = Inr (L', W')"
  shows "input_ptr L' \<noteq> None \<and> batch_size L' = dim_n x \<and> heap W' = heap W \<and>
         (weights L \<noteq> None \<longrightarrow> weights L' \<noteq> None)"
proof (cases "input_ptr L = None \<or> batch_size L \<noteq> dim_n x")
  case False
  then show ?thesis using assms by (auto simp: FusedBatchNormalization_bind_def)
next
  case True
  then obtain L2 where "FusedBatchNormalization_bind p e inp x (L, W) =
      materialize_parameters e (L2, W)"
    and "params L2 = params L" and "input_ptr L2 = Some inp" and "batch_size L2 = dim_n x"
    by (rule FusedBatchNormalization_bind_rebinds)
  then show ?thesis
    using assms materialize_parameters_frame [of e L2 W L' W']
    by (simp add: params_def)
qed

lemma FusedBatchNormalization_bind_frozen:
  assumes "freeze L" and "FusedBatchNormalization_bind p e inp x (L, W) = Inr (L', W')"
  shows "params L' = params L \<and> W' = W"
proof (cases "input_ptr L = None \<or> batch_size L \<noteq> dim_n x")
  case False
  then show ?thesis using assms by (auto simp: FusedBatchNormalization_bind_def)
next
  case True
  then obtain L2 where "FusedBatchNormalization_bind p e inp x (L, W) =
      materialize_parameters e (L2, W)"
    and "params L2 = params L" and "freeze L2 = freeze L"
    by (rule FusedBatchNormalization_bind_rebinds)
  then show ?thesis using assms by (simp add: materialize_parameters_frozen)
qed

lemma FusedBatchNormalization_forward_parts:
  assumes "FusedBatchNormalization_forward p e inp (L, W) = Inr (L', W')"
    and "heap W inp = Some x"
  obtains L3 where
    "FusedBatchNormalization_bind p e inp x (FusedBatchNormalization_allocate e x L, W)
       = Inr (L3, W')"
    and "FusedBatchNormalization_compute p (L3, W') = Inr (L', W')"
proof -
  obtain L3 W3 where b: "FusedBatchNormalization_bind p e inp x
        (FusedBatchNormalization_allocate e x L, W) = Inr (L3, W3)"
    and c: "FusedBatchNormalization_compute p (L3, W3) = Inr (L', W')"
    using assms
    by (auto simp: FusedBatchNormalization_forward_def bind_err_def deref_def split: sum.splits)
  from FusedBatchNormalization_compute_frame [OF c] have "W3 = W'" by simp
  with b c that show ?thesis by simp
qed

lemma FusedBatchNormalization_forward_bound:
  assumes "FusedBatchNormalization_forward p e inp (L, W) = Inr (L', W')"
    and "heap W inp = Some x"
  shows "input_ptr L' \<noteq> None \<and> batch_size L' = dim_n x \<and> weights L' \<noteq> None \<and> heap W' = heap W"
proof -
  from assms obtain L3 where
    b: "FusedBatchNormalization_bind p e inp x (FusedBatchNormalization_allocate e x L, W)
          = Inr (L3, W')"
    and c: "FusedBatchNormalization_compute p (L3, W') = Inr (L', W')"
    by (rule FusedBatchNormalization_forward_parts)
  from FusedBatchNormalization_bind_bound [OF b] FusedBatchNormalization_allocate_frame [of e x L]
    FusedBatchNormalization_compute_frame [OF c]
  show ?thesis by (simp add: params_def)
qed

lemma FusedBatchNormalization_forward_same_batch:
  assumes "FusedBatchNormalization_forward p e inp (L, W) = Inr (L', W')"
    and "heap W inp = Some x" and "input_ptr L \<noteq> None" and "batch_size L = dim_n x"
    and "weights L \<noteq> None"
  shows "params L' = params L \<and> W' = W"
proof -
  from assms(1,2) obtain L3 where
    b: "FusedBatchNormalization_bind p e inp x (FusedBatchNormalization_allocate e x L, W)
          = Inr (L3, W')"
    and c: "FusedBatchNormalization_compute p (L3, W') = Inr (L', W')"
    by (rule FusedBatchNormalization_forward_parts)
  have "FusedBatchNormalization_allocate e x L = L"
    using assms(5) FusedBatchNormalization_allocate_frame by blast
  with b FusedBatchNormalization_bind_same_batch [OF assms(3,4), of p e inp W]
  have "L3 = L" "W' = W" by simp_all
  with FusedBatchNormalization_compute_frame [OF c] show ?thesis by simp
qed

lemma FusedBatchNormalization_forward_rebinds:
  assumes "FusedBatchNormalization_forward p e a (L, W) = Inr (L', W')" and "heap W a = Some x"
    and "input_ptr L = None \<or> batch_size L \<noteq> dim_n x"
  obtains L2 L3 :: FusedBatchNormalization where
    "materialize_parameters e (L2, W) = Inr (L3, W')"
    and "params L2 = params (FusedBatchNormalization_allocate e x L)" and "input_ptr L2 = Some a"
    and "freeze L2 = freeze L" and "load_pretrain L2 = load_pretrain L" and "name L2 = name L"
    and "params L' = params L3" and "batch_size L' = dim_n x"
    and "map_option Blob_shape (output_ptr L') = Some (Blob_shape x)"
proof -
  let ?A = "FusedBatchNormalization_allocate e x L"
  note A = FusedBatchNormalization_allocate_frame [of e x L]
  from assms(1,2) obtain L3 where b: "FusedBatchNormalization_bind p e a x (?A, W) = Inr (L3, W')"
    and c: "FusedBatchNormalization_compute p (L3, W') = Inr (L', W')"
    by (rule FusedBatchNormalization_forward_parts)
  have "input_ptr ?A = None \<or> batch_size ?A \<noteq> dim_n x" using assms(3) A by simp
  then obtain L2 where m: "FusedBatchNormalization_bind p e a x (?A, W) =
      materialize_parameters e (L2, W)"
    and f: "params L2 = params ?A" "input_ptr L2 = Some a" "batch_size L2 = dim_n x"
      "freeze L2 = freeze ?A" "load_pretrain L2 = load_pretrain ?A" "name L2 = name ?A"
      "map_option Blob_shape (output_ptr L2) = Some (Blob_shape x)"
    by (rule FusedBatchNormalization_bind_rebinds)
  have m': "materialize_parameters e (L2, W) = Inr (L3, W')" using m b by simp
  note o = materialize_parameters_output [OF m'] FusedBatchNormalization_compute_frame [OF c]
  show ?thesis
    by (rule that [of L2 L3]) (use m' f A o in simp_all)
qed

lemma FusedBatchNormalization_forward_frozen_allocated:
  assumes "FusedBatchNormalization_forward p e a (L, W) = Inr (L', W')"
    and "heap W a = Some x" and "freeze L"
  shows "params L' = params (FusedBatchNormalization_allocate e x L) \<and> W' = W"
proof -
  from assms(1,2) obtain L3 where
    b: "FusedBatchNormalization_bind p e a x (FusedBatchNormalization_allocate e x L, W)
          = Inr (L3, W')"
    and c: "FusedBatchNormalization_compute p (L3, W') = Inr (L', W')"
    by (rule FusedBatchNormalization_forward_parts)
  have "freeze (FusedBatchNormalization_allocate e x L)"
    using assms(3) FusedBatchNormalization_allocate_frame [of e x L] by simp
  from FusedBatchNormalization_bind_frozen [OF this b] FusedBatchNormalization_compute_frame [OF c]
  show ?thesis by simp
qed

lemma FusedBatchNormalization_forward_fresh:
  assumes "FusedBatchNormalization_forward p e a (L, W) = Inr (L', W')" and "heap W a = Some x"
    and "input_ptr L = None \<or> batch_size L \<noteq> dim_n x"
    and "\<not> freeze L" and "\<not> load_pretrain L" and "weights L = None \<or> params_ok L"
  shows "params L' = fresh_parameters e x (params (FusedBatchNormalization_allocate e x L)) \<and>
         W' = W\<lparr>cout := cout W @ [''.. initialized '' @ name L @ '' layer ..'']\<rparr>"
proof -
  from assms(1-3) obtain L2 L3 :: FusedBatchNormalization
    where m: "materialize_parameters e (L2, W) = Inr (L3, W')"
    and f: "params L2 = params (FusedBatchNormalization_allocate e x L)" "input_ptr L2 = Some a"
      "freeze L2 = freeze L" "load_pretrain L2 = load_pretrain L" "name L2 = name L"
      "params L' = params L3"
    by (rule FusedBatchNormalization_forward_rebinds)
  have ok: "params_ok L2"
    using FusedBatchNormalization_allocate_ok [OF assms(6), of e x] params_ok_cong [OF f(1)]
    by simp
  from materialize_parameters_cases(2) [OF m _ _ ok f(2) assms(2)] assms(4,5) f
  show ?thesis by simp
qed

lemma FusedBatchNormalization_forward_loaded:
  assumes "FusedBatchNormalization_forward p e a (L, W) = Inr (L', W')" and "heap W a = Some x"
    and "input_ptr L = None \<or> batch_size L \<noteq> dim_n x"
    and "\<not> freeze L" and "load_pretrain L"
  shows "\<exists>ws bs. files W (name L @ ''.bin'') = Some ws \<and>
           files W (name L @ ''.bias.bin'') = Some bs \<and>
           params L' = loaded_parameters ws bs (params (FusedBatchNormalization_allocate e x L)) \<and>
           W' = W\<lparr>cout := cout W @ [''.. loaded '' @ name L @ '' pretrain parameter..'']\<rparr>"
proof -
  from assms(1-3) obtain L2 L3 :: FusedBatchNormalization
    where m: "materialize_parameters e (L2, W) = Inr (L3, W')"
    and f: "params L2 = params (FusedBatchNormalization_allocate e x L)" "input_ptr L2 = Some a"
      "freeze L2 = freeze L" "load_pretrain L2 = load_pretrain L" "name L2 = name L"
      "params L' = params L3"
    by (rule FusedBatchNormalization_forward_rebinds)
  from materialize_parameters_cases(3) [OF m] assms(4,5) f
  show ?thesis by simp
qed

lemma FusedBatchNormalization_forward_resizes:
  assumes "FusedBatchNormalization_forward p e a (L, W) = Inr (L', W')" and "heap W a = Some x"
    and "input_ptr L = None \<or> batch_size L \<noteq> dim_n x"
  shows "batch_size L' = dim_n x \<and> map_option Blob_shape (output_ptr L') = Some (Blob_shape x)"
  using FusedBatchNormalization_forward_rebinds [OF assms] by metis

subsection \<open>Runs on concrete layers\<close>

lemma replicate_6: "replicate 6 x = [x, x, x, x, x, x]"
  by (simp add: numeral_eq_Suc)

lemma replicate_2: "replicate 2 x = [x, x]"
  by (simp add: numeral_eq_Suc)

lemmas forward_run_defs = replicate_6 replicate_2 upt_2 initialized_layer_def initialized_world_def
  bound_layer_def
  Linear_forward_def Linear_allocate_def Linear_bind_def Linear_compute_def Linear_new_def
  materialize_parameters_def init_weight_bias_def fill_host_def to_cuda_def
  uniform_real_distribution_def
  dense_world_def example_env_def example_blob_def bind_err_def deref_def Blob_new_def
  Blob_reset_def Blob_shape_def Blob_len_def Blob_size_def cublasSgemm_def mat_fits_def Let_def
  init_one_vec_launch_ones upt_6

lemmas run_defs = forward_run_defs pretrained_world_def example_cudnn_def
  initialized_conv_def initialized_bn_def Conv2D_new_def FusedBatchNormalization_new_def
  Conv2D_forward_def Conv2D_allocate_def Conv2D_bind_def Conv2D_compute_def set_workspace_def
  FusedBatchNormalization_forward_def FusedBatchNormalization_allocate_def
  FusedBatchNormalization_bind_def FusedBatchNormalization_compute_def load_parameter_def
  file_read_def

lemma example_blob_sel:
  "dim_n (example_blob (n, c, h, w) xs) = n" "dim_c (example_blob (n, c, h, w) xs) = c"
  "dim_h (example_blob (n, c, h, w) xs) = h" "dim_w (example_blob (n, c, h, w) xs) = w"
  "h_ptr (example_blob (n, c, h, w) xs) = xs" "d_ptr (example_blob (n, c, h, w) xs) = xs"
  "Blob_shape (example_blob (n, c, h, w) xs) = (n, c, h, w)"
  "Blob_len (example_blob (n, c, h, w) xs) = n * c * h * w"
  "Blob_size (example_blob (n, c, h, w) xs) = c * h * w"
  by (simp_all add: example_blob_def Blob_shape_def Blob_len_def Blob_size_def)

lemma Blob_new_sel:
  "dim_n (Blob_new u (n, c, h, w)) = n" "dim_c (Blob_new u (n, c, h, w)) = c"
  "dim_h (Blob_new u (n, c, h, w)) = h" "dim_w (Blob_new u (n, c, h, w)) = w"
  "h_ptr (Blob_new u (n, c, h, w)) = replicate (n * c * h * w) u"
  "d_ptr (Blob_new u (n, c, h, w)) = replicate (n * c * h * w) u"
  "Blob_len (Blob_new u (n, c, h, w)) = n * c * h * w"
  by (simp_all add: Blob_new_def Blob_len_def)

lemma fresh_parameters_example:
  assumes "Blob_size x = 6" and "Blob_len wt = 6"
  shows "fresh_parameters (example_env\<lparr>random_device := 2\<rparr>) x
        (Some wt, Some bs, Some wm, Some wv, Some bm, Some bv)
      = (Some (wt\<lparr>h_ptr := [0, 0, 0, 0, 0, 0], d_ptr := [0, 0, 0, 0, 0, 0]\<rparr>),
         Some (zeroed bs), Some (zeroed wm), Some (zeroed wv), Some (zeroed bm),
         Some (zeroed bv))"
  using assms
  by (simp add: fresh_parameters_def fresh_weights_def example_env_def
      uniform_real_distribution_def upt_6 Let_def)

text \<open>
  C3, as stated, fails. A new dense layer is run on a batch of one sample and then, in an
  environment whose random device yields another value, on a batch of two samples: the
  second call initializes the parameters again, the weights -1 become 0, and the line of
  \<^verbatim>\<open>init_weight_bias\<close> is printed a second time.
\<close>

theorem forward_reinitializes_on_batch_change:
  "map_sum id (\<lambda>(L, W). (map_option d_ptr (weights L), cout W))
     (Linear_forward example_env 0 (Linear_new ''fc'' 1, dense_world))
   = Inr (Some [- 1, - 1, - 1, - 1, - 1, - 1], [''.. initialized fc layer ..'']) \<and>
   map_sum id (\<lambda>(L, W). (map_option d_ptr (weights L), cout W))
     (bind_err (Linear_forward example_env 0 (Linear_new ''fc'' 1, dense_world))
        (Linear_forward (example_env\<lparr>random_device := 2\<rparr>) 1))
   = Inr (Some [0, 0, 0, 0, 0, 0], [''.. initialized fc layer ..'', ''.. initialized fc layer ..''])"
  by (simp add: forward_run_defs)

text \<open>
  C3, amended, for the three layers that have parameters: the dense layer, the
  convolution layer and the batch normalization layer. For each of them:
  the parameter buffers are allocated only while \<^verbatim>\<open>weights_\<close> is null;
  after a forward call that returned, a forward call on a batch of the same size changes
  neither the parameter set nor the world, so that nothing is allocated, loaded or
  initialized again;
  a forward call on a frozen layer leaves the parameter set as the allocation left it,
  whatever the batch size (the convolution layer may print the lines of
  \<^verbatim>\<open>set_workspace\<close>);
  and a forward call on an unbound layer or on a batch of another size sets the batch size
  and gives the output buffer the shape of the new batch (for the dense layer
  \<open>(N, output_size, 1, 1)\<close>, for the convolution layer the dimensions cuDNN computes,
  for the batch normalization layer the shape of the input), and then,
  if the layer is set to load pretrained parameters and is not frozen, reads the weights
  and the biases again from the two parameter files and leaves the accumulators, and,
  if the layer is neither frozen nor set to load, runs \<^verbatim>\<open>init_weight_bias\<close> again: the
  weights are overwritten by fresh draws, the biases and the four accumulators are set
  to 0, and its line is printed.
\<close>

theorem forward_materialization:
  "(weights L \<noteq> None \<longrightarrow> Linear_allocate e x L = L) \<and>
   (Linear_forward ea aa (La, Wa) = Inr (Lb, Wb) \<and> heap Wa aa = Some xa \<and>
    heap Wa ab = Some xb \<and> dim_n xb = dim_n xa \<and>
    Linear_forward eb ab (Lb, Wb) = Inr (Lc, Wc)
      \<longrightarrow> params Lc = params Lb \<and> Wc = Wb) \<and>
   (Linear_forward e a (L, W) = Inr (L', W') \<and> heap W a = Some x \<and> freeze L
      \<longrightarrow> params L' = params (Linear_allocate e x L) \<and> W' = W) \<and>
   (Linear_forward e a (L, W) = Inr (L', W') \<and> heap W a = Some x \<and>
    (input_ptr L = None \<or> batch_size L \<noteq> dim_n x)
      \<longrightarrow> batch_size L' = dim_n x \<and>
          map_option Blob_shape (output_ptr L') = Some (dim_n x, output_size L, 1, 1) \<and>
          (\<not> freeze L \<and> load_pretrain L \<longrightarrow>
             (\<exists>ws bs. files W (name L @ ''.bin'') = Some ws \<and>
                files W (name L @ ''.bias.bin'') = Some bs \<and>
                params L' = loaded_parameters ws bs (params (Linear_allocate e x L)) \<and>
                W' = W\<lparr>cout := cout W @ [''.. loaded '' @ name L @ '' pretrain parameter..'']\<rparr>)) \<and>
          (\<not> freeze L \<and> \<not> load_pretrain L \<and> (weights L = None \<or> params_ok L) \<longrightarrow>
             params L' = fresh_parameters e x (params (Linear_allocate e x L)) \<and>
             W' = W\<lparr>cout := cout W @ [''.. initialized '' @ name L @ '' layer ..'']\<rparr>)) \<and>
   (weights C \<noteq> None \<longrightarrow> Conv2D_allocate e x C = C) \<and>
   (Conv2D_forward pa ea aa (Ca, Wa) = Inr (Cb, Wb) \<and> heap Wa aa = Some xa \<and>
    heap Wa ab = Some xb \<and> dim_n xb = dim_n xa \<and>
    Conv2D_forward pb eb ab (Cb, Wb) = Inr (Cc, Wc)
      \<longrightarrow> params Cc = params Cb \<and> Wc = Wb) \<and>
   (Conv2D_forward p e a (C, W) = Inr (C', W') \<and> heap W a = Some x \<and> freeze C
      \<longrightarrow> params C' = params (Conv2D_allocate e x C) \<and>
          (W' = W \<or> W' = W\<lparr>cout := cout W @ algorithm_report p (name C)\<rparr>)) \<and>
   (Conv2D_forward p e a (C, W) = Inr (C', W') \<and> heap W a = Some x \<and>
    (input_ptr C = None \<or> batch_size C \<noteq> dim_n x)
      \<longrightarrow> batch_size C' = dim_n x \<and>
          map_option Blob_shape (output_ptr C') =
            Some (GetConvolution2dForwardOutputDim p
                    (conv_padding C, conv_stride C, conv_dilation C) (Blob_shape x)
                    (filter_desc (Conv2D_allocate e x C))) \<and>
          (\<not> freeze C \<and> load_pretrain C \<longrightarrow>
             (\<exists>ws bs. files W (name C @ ''.bin'') = Some ws \<and>
                files W (name C @ ''.bias.bin'') = Some bs \<and>
                params C' = loaded_parameters ws bs (params (Conv2D_allocate e x C)) \<and>
                W' = W\<lparr>cout := cout W @ algorithm_report p (name C) @
                                 [''.. loaded '' @ name C @ '' pretrain parameter..'']\<rparr>)) \<and>
          (\<not> freeze C \<and> \<not> load_pretrain C \<and> (weights C = None \<or> params_ok C) \<longrightarrow>
             params C' = fresh_parameters e x (params (Conv2D_allocate e x C)) \<and>
             W' = W\<lparr>cout := cout W @ algorithm_report p (name C) @
                              [''.. initialized '' @ name C @ '' layer ..'']\<rparr>)) \<and>
   (weights B \<noteq> None \<longrightarrow> FusedBatchNormalization_allocate e x B = B) \<and>
   (FusedBatchNormalization_forward pa ea aa (Ba, Wa) = Inr (Bb, Wb) \<and> heap Wa aa = Some xa \<and>
    heap Wa ab = Some xb \<and> dim_n xb = dim_n xa \<and>
    FusedBatchNormalization_forward pb eb ab (Bb, Wb) = Inr (Bc, Wc)
      \<longrightarrow> params Bc = params Bb \<and> Wc = Wb) \<and>
   (FusedBatchNormalization_forward p e a (B, W) = Inr (B', W') \<and> heap W a = Some x \<and> freeze B
      \<longrightarrow> params B' = params (FusedBatchNormalization_allocate e x B) \<and> W' = W) \<and>
   (FusedBatchNormalization_forward p e a (B, W) = Inr (B', W') \<and> heap W a = Some x \<and>
    (input_ptr B = None \<or> batch_size B \<noteq> dim_n x)
      \<longrightarrow> batch_size B' = dim_n x \<and>
          map_option Blob_shape (output_ptr B') = Some (Blob_shape x) \<and>
          (\<not> freeze B \<and> load_pretrain B \<longrightarrow>
             (\<exists>ws bs. files W (name B @ ''.bin'') = Some ws \<and>
                files W (name B @ ''.bias.bin'') = Some bs \<and>
                params B' = loaded_parameters ws bs
                              (params (FusedBatchNormalization_allocate e x B)) \<and>
                W' = W\<lparr>cout := cout W @ [''.. loaded '' @ name B @ '' pretrain parameter..'']\<rparr>)) \<and>
          (\<not> freeze B \<and> \<not> load_pretrain B \<and> (weights B = None \<or> params_ok B) \<longrightarrow>
             params B' = fresh_parameters e x (params (FusedBatchNormalization_allocate e x B)) \<and>
             W' = W\<lparr>cout := cout W @ [''.. initialized '' @ name B @ '' layer ..'']\<rparr>))"
proof -
  have fact_L1: "weights L \<noteq> None \<longrightarrow> Linear_allocate e x L = L"
    using Linear_allocate_frame [of e x L] by simp
  have fact_L2: "Linear_forward ea aa (La, Wa) = Inr (Lb, Wb) \<and> heap Wa aa = Some xa \<and>
    heap Wa ab = Some xb \<and> dim_n xb = dim_n xa \<and>
    Linear_forward eb ab (Lb, Wb) = Inr (Lc, Wc)
      \<longrightarrow> params Lc = params Lb \<and> Wc = Wb"
  proof
    assume h: "Linear_forward ea aa (La, Wa) = Inr (Lb, Wb) \<and> heap Wa aa = Some xa \<and>
      heap Wa ab = Some xb \<and> dim_n xb = dim_n xa \<and>
      Linear_forward eb ab (Lb, Wb) = Inr (Lc, Wc)"
    then have b: "input_ptr Lb \<noteq> None \<and> batch_size Lb = dim_n xa \<and> weights Lb \<noteq> None \<and>
        heap Wb = heap Wa"
      using Linear_forward_bound [of ea aa La Wa Lb Wb xa] by simp
    then have "heap Wb ab = Some xb" "batch_size Lb = dim_n xb" using h by simp_all
    with h b Linear_forward_same_batch [of eb ab Lb Wb Lc Wc xb]
    show "params Lc = params Lb \<and> Wc = Wb" by simp
  qed
  have fact_L3: "Linear_forward e a (L, W) = Inr (L', W') \<and> heap W a = Some x \<and> freeze L
      \<longrightarrow> params L' = params (Linear_allocate e x L) \<and> W' = W"
    using Linear_forward_frozen_allocated [of e a L W L' W' x] by simp
  have fact_L4: "Linear_forward e a (L, W) = Inr (L', W') \<and> heap W a = Some x \<and>
    (input_ptr L = None \<or> batch_size L \<noteq> dim_n x)
      \<longrightarrow> batch_size L' = dim_n x \<and>
          map_option Blob_shape (output_ptr L') = Some (dim_n x, output_size L, 1, 1) \<and>
          (\<not> freeze L \<and> load_pretrain L \<longrightarrow>
             (\<exists>ws bs. files W (name L @ ''.bin'') = Some ws \<and>
                files W (name L @ ''.bias.bin'') = Some bs \<and>
                params L' = loaded_parameters ws bs (params (Linear_allocate e x L)) \<and>
                W' = W\<lparr>cout := cout W @ [''.. loaded '' @ name L @ '' pretrain parameter..'']\<rparr>)) \<and>
          (\<not> freeze L \<and> \<not> load_pretrain L \<and> (weights L = None \<or> params_ok L) \<longrightarrow>
             params L' = fresh_parameters e x (params (Linear_allocate e x L)) \<and>
             W' = W\<lparr>cout := cout W @ [''.. initialized '' @ name L @ '' layer ..'']\<rparr>)"
  proof (intro impI conjI; elim conjE)
    assume h: "Linear_forward e a (L, W) = Inr (L', W')" "heap W a = Some x"
      "input_ptr L = None \<or> batch_size L \<noteq> dim_n x"
    from Linear_forward_resizes [OF h]
    show "batch_size L' = dim_n x"
      and "map_option Blob_shape (output_ptr L') = Some (dim_n x, output_size L, 1, 1)"
      by simp_all
    show "\<exists>ws bs. files W (name L @ ''.bin'') = Some ws \<and>
                files W (name L @ ''.bias.bin'') = Some bs \<and>
                params L' = loaded_parameters ws bs (params (Linear_allocate e x L)) \<and>
                W' = W\<lparr>cout := cout W @ [''.. loaded '' @ name L @ '' pretrain parameter..'']\<rparr>"
      if "\<not> freeze L" "load_pretrain L"
      using Linear_forward_loaded [OF h that] .
    show "params L' = fresh_parameters e x (params (Linear_allocate e x L))"
      and "W' = W\<lparr>cout := cout W @ [''.. initialized '' @ name L @ '' layer ..'']\<rparr>"
      if "\<not> freeze L" "\<not> load_pretrain L" "weights L = None \<or> params_ok L"
      using Linear_forward_fresh [OF h that] by simp_all
  qed
  have fact_C1: "weights C \<noteq> None \<longrightarrow> Conv2D_allocate e x C = C"
    using Conv2D_allocate_frame [of e x C] by simp
  have fact_C2: "Conv2D_forward pa ea aa (Ca, Wa) = Inr (Cb, Wb) \<and> heap Wa aa = Some xa \<and>
    heap Wa ab = Some xb \<and> dim_n xb = dim_n xa \<and>
    Conv2D_forward pb eb ab (Cb, Wb) = Inr (Cc, Wc)
      \<longrightarrow> params Cc = params Cb \<and> Wc = Wb"
  proof
    assume h: "Conv2D_forward pa ea aa (Ca, Wa) = Inr (Cb, Wb) \<and> heap Wa aa = Some xa \<and>
      heap Wa ab = Some xb \<and> dim_n xb = dim_n xa \<and>
      Conv2D_forward pb eb ab (Cb, Wb) = Inr (Cc, Wc)"
    then have b: "input_ptr Cb \<noteq> None \<and> batch_size Cb = dim_n xa \<and> weights Cb \<noteq> None \<and>
        heap Wb = heap Wa"
      using Conv2D_forward_bound [of pa ea aa Ca Wa Cb Wb xa] by simp
    then have "heap Wb ab = Some xb" "batch_size Cb = dim_n xb" using h by simp_all
    with h b Conv2D_forward_same_batch [of pb eb ab Cb Wb Cc Wc xb]
    show "params Cc = params Cb \<and> Wc = Wb" by simp
  qed
  have fact_C3: "Conv2D_forward p e a (C, W) = Inr (C', W') \<and> heap W a = Some x \<and> freeze C
      \<longrightarrow> params C' = params (Conv2D_allocate e x C) \<and>
          (W' = W \<or> W' = W\<lparr>cout := cout W @ algorithm_report p (name C)\<rparr>)"
    using Conv2D_forward_frozen_allocated [of p e a C W C' W' x] by simp
  have fact_C4: "Conv2D_forward p e a (C, W) = Inr (C', W') \<and> heap W a = Some x \<and>
    (input_ptr C = None \<or> batch_size C \<noteq> dim_n x)
      \<longrightarrow> batch_size C' = dim_n x \<and>
          map_option Blob_shape (output_ptr C') =
            Some (GetConvolution2dForwardOutputDim p
                    (conv_padding C, conv_stride C, conv_dilation C) (Blob_shape x)
                    (filter_desc (Conv2D_allocate e x C))) \<and>
          (\<not> freeze C \<and> load_pretrain C \<longrightarrow>
             (\<exists>ws bs. files W (name C @ ''.bin'') = Some ws \<and>
                files W (name C @ ''.bias.bin'') = Some bs \<and>
                params C' = loaded_parameters ws bs (params (Conv2D_allocate e x C)) \<and>
                W' = W\<lparr>cout := cout W @ algorithm_report p (name C) @
                                 [''.. loaded '' @ name C @ '' pretrain parameter..'']\<rparr>)) \<and>
          (\<not> freeze C \<and> \<not> load_pretrain C \<and> (weights C = None \<or> params_ok C) \<longrightarrow>
             params C' = fresh_parameters e x (params (Conv2D_allocate e x C)) \<and>
             W' = W\<lparr>cout := cout W @ algorithm_report p (name C) @
                              [''.. initialized '' @ name C @ '' layer ..'']\<rparr>)"
  proof (intro impI conjI; elim conjE)
    assume h: "Conv2D_forward p e a (C, W) = Inr (C', W')" "heap W a = Some x"
      "input_ptr C = None \<or> batch_size C \<noteq> dim_n x"
    from Conv2D_forward_resizes [OF h]
    show "batch_size C' = dim_n x"
      and "map_option Blob_shape (output_ptr C') =
            Some (GetConvolution2dForwardOutputDim p
                    (conv_padding C, conv_stride C, conv_dilation C) (Blob_shape x)
                    (filter_desc (Conv2D_allocate e x C)))"
      by simp_all
    show "\<exists>ws bs. files W (name C @ ''.bin'') = Some ws \<and>
                files W (name C @ ''.bias.bin'') = Some bs \<and>
                params C' = loaded_parameters ws bs (params (Conv2D_allocate e x C)) \<and>
                W' = W\<lparr>cout := cout W @ algorithm_report p (name C) @
                                 [''.. loaded '' @ name C @ '' pretrain parameter..'']\<rparr>"
      if "\<not> freeze C" "load_pretrain C"
      using Conv2D_forward_loaded [OF h that] .
    show "params C' = fresh_parameters e x (params (Conv2D_allocate e x C))"
      and "W' = W\<lparr>cout := cout W @ algorithm_report p (name C) @
                              [''.. initialized '' @ name C @ '' layer ..'']\<rparr>"
      if "\<not> freeze C" "\<not> load_pretrain C" "weights C = None \<or> params_ok C"
      using Conv2D_forward_fresh [OF h that] by simp_all
  qed
  have fact_B1: "weights B \<noteq> None \<longrightarrow> FusedBatchNormalization_allocate e x B = B"
    using FusedBatchNormalization_allocate_frame [of e x B] by simp
  have fact_B2: "FusedBatchNormalization_forward pa ea aa (Ba, Wa) = Inr (Bb, Wb) \<and>
    heap Wa aa = Some xa \<and> heap Wa ab = Some xb \<and> dim_n xb = dim_n xa \<and>
    FusedBatchNormalization_forward pb eb ab (Bb, Wb) = Inr (Bc, Wc)
      \<longrightarrow> params Bc = params Bb \<and> Wc = Wb"
  proof
    assume h: "FusedBatchNormalization_forward pa ea aa (Ba, Wa) = Inr (Bb, Wb) \<and>
      heap Wa aa = Some xa \<and> heap Wa ab = Some xb \<and> dim_n xb = dim_n xa \<and>
      FusedBatchNormalization_forward pb eb ab (Bb, Wb) = Inr (Bc, Wc)"
    then have b: "input_ptr Bb \<noteq> None \<and> batch_size Bb = dim_n xa \<and> weights Bb \<noteq> None \<and>
        heap Wb = heap Wa"
      using FusedBatchNormalization_forward_bound [of pa ea aa Ba Wa Bb Wb xa] by simp
    then have "heap Wb ab = Some xb" "batch_size Bb = dim_n xb" using h by simp_all
    with h b FusedBatchNormalization_forward_same_batch [of pb eb ab Bb Wb Bc Wc xb]
    show "params Bc = params Bb \<and> Wc = Wb" by simp
  qed
  have fact_B3: "FusedBatchNormalization_forward p e a (B, W) = Inr (B', W') \<and> heap W a = Some x \<and>
      freeze B
      \<longrightarrow> params B' = params (FusedBatchNormalization_allocate e x B) \<and> W' = W"
    using FusedBatchNormalization_forward_frozen_allocated [of p e a B W B' W' x] by simp
  have fact_B4: "FusedBatchNormalization_forward p e a (B, W) = Inr (B', W') \<and> heap W a = Some x \<and>
    (input_ptr B = None \<or> batch_size B \<noteq> dim_n x)
      \<longrightarrow> batch_size B' = dim_n x \<and>
          map_option Blob_shape (output_ptr B') = Some (Blob_shape x) \<and>
          (\<not> freeze B \<and> load_pretrain B \<longrightarrow>
             (\<exists>ws bs. files W (name B @ ''.bin'') = Some ws \<and>
                files W (name B @ ''.bias.bin'') = Some bs \<and>
                params B' = loaded_parameters ws bs
                              (params (FusedBatchNormalization_allocate e x B)) \<and>
                W' = W\<lparr>cout := cout W @ [''.. loaded '' @ name B @ '' pretrain parameter..'']\<rparr>)) \<and>
          (\<not> freeze B \<and> \<not> load_pretrain B \<and> (weights B = None \<or> params_ok B) \<longrightarrow>
             params B' = fresh_parameters e x (params (FusedBatchNormalization_allocate e x B)) \<and>
             W' = W\<lparr>cout := cout W @ [''.. initialized '' @ name B @ '' layer ..'']\<rparr>)"
  proof (intro impI conjI; elim conjE)
    assume h: "FusedBatchNormalization_forward p e a (B, W) = Inr (B', W')" "heap W a = Some x"
      "input_ptr B = None \<or> batch_size B \<noteq> dim_n x"
    from FusedBatchNormalization_forward_resizes [OF h]
    show "batch_size B' = dim_n x"
      and "map_option Blob_shape (output_ptr B') = Some (Blob_shape x)"
      by simp_all
    show "\<exists>ws bs. files W (name B @ ''.bin'') = Some ws \<and>
                files W (name B @ ''.bias.bin'') = Some bs \<and>
                params B' = loaded_parameters ws bs
                              (params (FusedBatchNormalization_allocate e x B)) \<and>
                W' = W\<lparr>cout := cout W @ [''.. loaded '' @ name B @ '' pretrain parameter..'']\<rparr>"
      if "\<not> freeze B" "load_pretrain B"
      using FusedBatchNormalization_forward_loaded [OF h that] .
    show "params B' = fresh_parameters e x (params (FusedBatchNormalization_allocate e x B))"
      and "W' = W\<lparr>cout := cout W @ [''.. initialized '' @ name B @ '' layer ..'']\<rparr>"
      if "\<not> freeze B" "\<not> load_pretrain B" "weights B = None \<or> params_ok B"
      using FusedBatchNormalization_forward_fresh [OF h that] by simp_all
  qed
  show ?thesis by (intro conjI fact_L1 fact_L2 fact_L3 fact_L4 fact_C1 fact_C2 fact_C3 fact_C4 fact_B1 fact_B2 fact_B3 fact_B4)
qed

lemma first_forward_state:
  "Linear_forward example_env 0 (Linear_new ''fc'' 1, dense_world)
     = Inr (initialized_layer, initialized_world)"
  by (simp add: forward_run_defs)

text \<open>
  The theorem on concrete layers. The dense layer \<open>initialized_layer\<close>: a second call on
  the first batch, a call on the second batch when frozen, and a call on the second batch
  when not, which resizes the output and draws the weights again; and a new dense layer
  set to load pretrained parameters, in \<open>pretrained_world\<close>. Then the same three calls on
  the convolution layer \<open>initialized_conv\<close> and on the batch normalization layer
  \<open>initialized_bn\<close>, each the state after a first call on a new layer.
\<close>

theorem forward_materialization_witness:
  "Linear_allocate (example_env\<lparr>random_device := 2\<rparr>)
       (example_blob (2, 6, 1, 1) [1, 2, 3, 4, 5, 6, 6, 5, 4, 3, 2, 1]) initialized_layer
     = initialized_layer \<and>
   Linear_forward example_env 0 (Linear_new ''fc'' 1, dense_world)
     = Inr (initialized_layer, initialized_world) \<and>
   (\<exists>L2 W2. Linear_forward (example_env\<lparr>random_device := 2\<rparr>) 0
               (initialized_layer, initialized_world) = Inr (L2, W2) \<and>
            params L2 = params initialized_layer \<and> W2 = initialized_world) \<and>
   (\<exists>L3 W3. Linear_forward (example_env\<lparr>random_device := 2\<rparr>) 1
               (initialized_layer\<lparr>freeze := True\<rparr>, initialized_world) = Inr (L3, W3) \<and>
            params L3 = params initialized_layer \<and> W3 = initialized_world) \<and>
   (\<exists>L4 W4. Linear_forward (example_env\<lparr>random_device := 2\<rparr>) 1
               (initialized_layer, initialized_world) = Inr (L4, W4) \<and>
            batch_size L4 = 2 \<and> map_option Blob_shape (output_ptr L4) = Some (2, 1, 1, 1) \<and>
            map_option d_ptr (weights L4) = Some [0, 0, 0, 0, 0, 0] \<and>
            map_option d_ptr (biases L4) = Some [0] \<and>
            cout W4 = [''.. initialized fc layer ..'', ''.. initialized fc layer ..'']) \<and>
   (\<exists>L5 W5. Linear_forward example_env 0
               ((Linear_new ''fc'' 1)\<lparr>load_pretrain := True\<rparr>, pretrained_world) = Inr (L5, W5) \<and>
            batch_size L5 = 1 \<and> map_option Blob_shape (output_ptr L5) = Some (1, 1, 1, 1) \<and>
            map_option d_ptr (weights L5) = Some [1, 2, 3, 4, 5, 6] \<and>
            map_option d_ptr (biases L5) = Some [7]) \<and>
   Conv2D_forward example_cudnn example_env 0 (Conv2D_new ''conv'' 1 1 1 0 1, dense_world)
     = Inr (initialized_conv, dense_world\<lparr>cout := [''.. initialized conv layer ..'']\<rparr>) \<and>
   (\<exists>C2 W2. Conv2D_forward example_cudnn (example_env\<lparr>random_device := 2\<rparr>) 0
               (initialized_conv, dense_world\<lparr>cout := [''.. initialized conv layer ..'']\<rparr>)
               = Inr (C2, W2) \<and>
            params C2 = params initialized_conv \<and>
            W2 = dense_world\<lparr>cout := [''.. initialized conv layer ..'']\<rparr>) \<and>
   (\<exists>C3 W3. Conv2D_forward example_cudnn (example_env\<lparr>random_device := 2\<rparr>) 1
               (initialized_conv\<lparr>freeze := True\<rparr>, dense_world) = Inr (C3, W3) \<and>
            params C3 = params initialized_conv) \<and>
   (\<exists>C4 W4. Conv2D_forward example_cudnn (example_env\<lparr>random_device := 2\<rparr>) 1
               (initialized_conv, dense_world) = Inr (C4, W4) \<and>
            batch_size C4 = 2 \<and> map_option Blob_shape (output_ptr C4) = Some (2, 1, 1, 1) \<and>
            map_option d_ptr (weights C4) = Some [0, 0, 0, 0, 0, 0] \<and>
            map_option d_ptr (biases C4) = Some [0] \<and>
            cout W4 = [''.. initialized conv layer ..'']) \<and>
   FusedBatchNormalization_forward example_cudnn example_env 0
       (FusedBatchNormalization_new ''bn'' CUDNN_BATCHNORM_SPATIAL (1 / 1000), dense_world)
     = Inr (initialized_bn, dense_world\<lparr>cout := [''.. initialized bn layer ..'']\<rparr>) \<and>
   (\<exists>B2 W2. FusedBatchNormalization_forward example_cudnn (example_env\<lparr>random_device := 2\<rparr>) 0
               (initialized_bn, dense_world\<lparr>cout := [''.. initialized bn layer ..'']\<rparr>)
               = Inr (B2, W2) \<and>
            params B2 = params initialized_bn \<and>
            W2 = dense_world\<lparr>cout := [''.. initialized bn layer ..'']\<rparr>) \<and>
   (\<exists>B3 W3. FusedBatchNormalization_forward example_cudnn (example_env\<lparr>random_device := 2\<rparr>) 1
               (initialized_bn\<lparr>freeze := True\<rparr>, dense_world) = Inr (B3, W3) \<and>
            params B3 = params initialized_bn \<and> W3 = dense_world) \<and>
   (\<exists>B4 W4. FusedBatchNormalization_forward example_cudnn (example_env\<lparr>random_device := 2\<rparr>) 1
               (initialized_bn, dense_world) = Inr (B4, W4) \<and>
            batch_size B4 = 2 \<and> map_option Blob_shape (output_ptr B4) = Some (2, 6, 1, 1) \<and>
            map_option d_ptr (weights B4) = Some [0, 0, 0, 0, 0, 0] \<and>
            map_option d_ptr (biases B4) = Some [0, 0, 0, 0, 0, 0] \<and>
            cout W4 = [''.. initialized bn layer ..''])"
proof -
  let ?e = "example_env\<lparr>random_device := 2\<rparr>"
  let ?x1 = "example_blob (1, 6, 1, 1) [1, 2, 3, 4, 5, 6]"
  let ?x2 = "example_blob (2, 6, 1, 1) [1, 2, 3, 4, 5, 6, 6, 5, 4, 3, 2, 1]"
  let ?Wc = "dense_world\<lparr>cout := [''.. initialized conv layer ..'']\<rparr>"
  let ?Wb = "dense_world\<lparr>cout := [''.. initialized bn layer ..'']\<rparr>"
  note T = forward_materialization
  have h: "heap dense_world 0 = Some ?x1" "heap dense_world 1 = Some ?x2"
    "heap initialized_world 0 = Some ?x1" "heap initialized_world 1 = Some ?x2"
    "heap pretrained_world 0 = Some ?x1"
    by (simp_all add: dense_world_def initialized_world_def pretrained_world_def)
  have d: "dim_n ?x1 = 1" "dim_n ?x2 = 2" "Blob_size ?x2 = 6"
    by (simp_all add: example_blob_sel)

  txt \<open>The dense layer.\<close>
  have l: "weights initialized_layer = Some (example_blob (1, 1, 6, 1) [- 1, - 1, - 1, - 1, - 1, - 1])"
    "input_ptr initialized_layer = Some 0" "batch_size initialized_layer = 1"
    "output_size initialized_layer = 1"
    "\<not> freeze initialized_layer" "\<not> load_pretrain initialized_layer"
    "params initialized_layer =
       (Some (example_blob (1, 1, 6, 1) [- 1, - 1, - 1, - 1, - 1, - 1]),
        Some (Blob_new 0 (1, 1, 1, 1)), Some (Blob_new 0 (1, 1, 6, 1)),
        Some (Blob_new 0 (1, 1, 6, 1)), Some (Blob_new 0 (1, 1, 1, 1)),
        Some (Blob_new 0 (1, 1, 1, 1)))"
    "name initialized_layer = ''fc''"
    by (simp_all add: initialized_layer_def bound_layer_def Linear_new_def params_def)
  have ok: "params_ok initialized_layer"
    by (simp add: params_ok_def l example_blob_sel Blob_new_sel)
  have L1: "Linear_allocate ?e ?x2 initialized_layer = initialized_layer"
    using T [where L = initialized_layer and e = ?e and x = ?x2, THEN conjunct1] l by simp
  note L0 = first_forward_state
  obtain L2 W2 where 2: "Linear_forward ?e 0 (initialized_layer, initialized_world) = Inr (L2, W2)"
    by (simp add: forward_run_defs)
  from T [where ea = example_env and aa = 0 and La = "Linear_new ''fc'' 1" and Wa = dense_world
        and Lb = initialized_layer and Wb = initialized_world and xa = ?x1 and ab = 0 and xb = ?x1
        and eb = ?e and Lc = L2 and Wc = W2, THEN conjunct2, THEN conjunct1, THEN mp]
    L0 2 h(1)
  have L2: "params L2 = params initialized_layer \<and> W2 = initialized_world" by simp
  obtain L3 W3 where 3: "Linear_forward ?e 1 (initialized_layer\<lparr>freeze := True\<rparr>, initialized_world)
      = Inr (L3, W3)"
    by (simp add: forward_run_defs)
  from T [where e = ?e and a = 1 and L = "initialized_layer\<lparr>freeze := True\<rparr>"
        and W = initialized_world and L' = L3 and W' = W3 and x = ?x2,
        THEN conjunct2, THEN conjunct2, THEN conjunct1, THEN mp] 3 h(4)
  have "params L3 = params (Linear_allocate ?e ?x2 (initialized_layer\<lparr>freeze := True\<rparr>)) \<and>
      W3 = initialized_world" by simp
  then have L3: "params L3 = params initialized_layer \<and> W3 = initialized_world"
    using l(1) by (simp add: Linear_allocate_def params_def)
  obtain L4 W4 where 4: "Linear_forward ?e 1 (initialized_layer, initialized_world) = Inr (L4, W4)"
    by (simp add: forward_run_defs)
  from T [where e = ?e and a = 1 and L = initialized_layer
        and W = initialized_world and L' = L4 and W' = W4 and x = ?x2,
        THEN conjunct2, THEN conjunct2, THEN conjunct2, THEN conjunct1, THEN mp] 4 h(4) l(3) d(2)
  have r4: "batch_size L4 = dim_n ?x2 \<and>
      map_option Blob_shape (output_ptr L4) = Some (dim_n ?x2, output_size initialized_layer, 1, 1) \<and>
      (\<not> freeze initialized_layer \<and> \<not> load_pretrain initialized_layer \<and>
       (weights initialized_layer = None \<or> params_ok initialized_layer) \<longrightarrow>
         params L4 = fresh_parameters ?e ?x2 (params (Linear_allocate ?e ?x2 initialized_layer)) \<and>
         W4 = initialized_world\<lparr>cout := cout initialized_world @
                [''.. initialized '' @ name initialized_layer @ '' layer ..'']\<rparr>)"
    by simp
  then have "params L4 = fresh_parameters ?e ?x2 (params initialized_layer) \<and>
         W4 = initialized_world\<lparr>cout := cout initialized_world @
                [''.. initialized '' @ name initialized_layer @ '' layer ..'']\<rparr>"
    using l(5,6) ok L1 by simp
  then have "params L4 =
       (Some ((example_blob (1, 1, 6, 1) [- 1, - 1, - 1, - 1, - 1, - 1])
                \<lparr>h_ptr := [0, 0, 0, 0, 0, 0], d_ptr := [0, 0, 0, 0, 0, 0]\<rparr>),
        Some (zeroed (Blob_new 0 (1, 1, 1, 1))), Some (zeroed (Blob_new 0 (1, 1, 6, 1))),
        Some (zeroed (Blob_new 0 (1, 1, 6, 1))), Some (zeroed (Blob_new 0 (1, 1, 1, 1))),
        Some (zeroed (Blob_new 0 (1, 1, 1, 1))))"
      and "cout W4 = [''.. initialized fc layer ..'', ''.. initialized fc layer ..'']"
    by (simp_all add: l(7,8) fresh_parameters_example example_blob_sel initialized_world_def)
  then have "weights L4 = Some ((example_blob (1, 1, 6, 1) [- 1, - 1, - 1, - 1, - 1, - 1])
        \<lparr>h_ptr := [0, 0, 0, 0, 0, 0], d_ptr := [0, 0, 0, 0, 0, 0]\<rparr>)"
      "biases L4 = Some (zeroed (Blob_new 0 (1, 1, 1, 1)))"
      "cout W4 = [''.. initialized fc layer ..'', ''.. initialized fc layer ..'']"
    by (simp_all add: params_def)
  with r4 have L4: "batch_size L4 = 2 \<and> map_option Blob_shape (output_ptr L4) = Some (2, 1, 1, 1) \<and>
      map_option d_ptr (weights L4) = Some [0, 0, 0, 0, 0, 0] \<and>
      map_option d_ptr (biases L4) = Some [0] \<and>
      cout W4 = [''.. initialized fc layer ..'', ''.. initialized fc layer ..'']"
    by (simp add: example_blob_sel l(4) zeroed_def Blob_new_sel)
  let ?P = "(Linear_new ''fc'' 1)\<lparr>load_pretrain := True\<rparr>"
  have p: "input_ptr ?P = None" "\<not> freeze ?P" "load_pretrain ?P" "name ?P = ''fc''"
    "output_size ?P = 1"
    by (simp_all add: Linear_new_def)
  obtain L5 W5 where 5: "Linear_forward example_env 0 (?P, pretrained_world) = Inr (L5, W5)"
    by (simp add: run_defs)
  from T [where e = example_env and a = 0 and L = ?P
        and W = pretrained_world and L' = L5 and W' = W5 and x = ?x1,
        THEN conjunct2, THEN conjunct2, THEN conjunct2, THEN conjunct1, THEN mp] 5 h(5) p(1)
  have r5: "batch_size L5 = dim_n ?x1 \<and>
      map_option Blob_shape (output_ptr L5) = Some (dim_n ?x1, output_size ?P, 1, 1) \<and>
      (\<not> freeze ?P \<and> load_pretrain ?P \<longrightarrow>
         (\<exists>ws bs. files pretrained_world (name ?P @ ''.bin'') = Some ws \<and>
            files pretrained_world (name ?P @ ''.bias.bin'') = Some bs \<and>
            params L5 = loaded_parameters ws bs (params (Linear_allocate example_env ?x1 ?P)) \<and>
            W5 = pretrained_world\<lparr>cout := cout pretrained_world @
                   [''.. loaded '' @ name ?P @ '' pretrain parameter..'']\<rparr>))"
    by simp
  then obtain ws bs where f5: "files pretrained_world (name ?P @ ''.bin'') = Some ws"
    "files pretrained_world (name ?P @ ''.bias.bin'') = Some bs"
    "params L5 = loaded_parameters ws bs (params (Linear_allocate example_env ?x1 ?P))"
    using p(2,3) by blast
  have "ws = [1, 2, 3, 4, 5, 6]" "bs = [7]"
    using f5(1,2) by (simp_all add: Linear_new_def pretrained_world_def)
  with f5(3) have "map_option d_ptr (weights L5) = Some [1, 2, 3, 4, 5, 6]"
    "map_option d_ptr (biases L5) = Some [7]"
    by (simp_all add: loaded_parameters_def params_def Linear_allocate_def Linear_new_def Let_def)
  with r5 have L5: "batch_size L5 = 1 \<and> map_option Blob_shape (output_ptr L5) = Some (1, 1, 1, 1) \<and>
      map_option d_ptr (weights L5) = Some [1, 2, 3, 4, 5, 6] \<and>
      map_option d_ptr (biases L5) = Some [7]"
    by (simp add: example_blob_sel Linear_new_def)

  txt \<open>The convolution layer.\<close>
  have c: "weights initialized_conv = Some (example_blob (1, 6, 1, 1) [- 1, - 1, - 1, - 1, - 1, - 1])"
    "input_ptr initialized_conv = Some 0" "batch_size initialized_conv = 1"
    "\<not> freeze initialized_conv" "\<not> load_pretrain initialized_conv"
    "params initialized_conv =
       (Some (example_blob (1, 6, 1, 1) [- 1, - 1, - 1, - 1, - 1, - 1]),
        Some (Blob_new 0 (1, 1, 1, 1)), Some (Blob_new 0 (1, 6, 1, 1)),
        Some (Blob_new 0 (1, 6, 1, 1)), Some (Blob_new 0 (1, 1, 1, 1)),
        Some (Blob_new 0 (1, 1, 1, 1)))"
    "name initialized_conv = ''conv''"
    "filter_desc initialized_conv = (1, 6, 1, 1)"
    by (simp_all add: initialized_conv_def Conv2D_new_def params_def)
  have okc: "params_ok initialized_conv"
    by (simp add: params_ok_def c example_blob_sel Blob_new_sel)
  have ac: "Conv2D_allocate ?e y initialized_conv = initialized_conv"
    "Conv2D_allocate ?e y (initialized_conv\<lparr>freeze := True\<rparr>) = initialized_conv\<lparr>freeze := True\<rparr>"
    for y using c(1) by (simp_all add: Conv2D_allocate_def)
  have C0: "Conv2D_forward example_cudnn example_env 0 (Conv2D_new ''conv'' 1 1 1 0 1, dense_world)
     = Inr (initialized_conv, ?Wc)"
    by (simp add: run_defs)
  obtain C2 V2 where c2: "Conv2D_forward example_cudnn ?e 0 (initialized_conv, ?Wc) = Inr (C2, V2)"
    by (simp add: run_defs)
  from T [where pa = example_cudnn and ea = example_env and aa = 0
        and Ca = "Conv2D_new ''conv'' 1 1 1 0 1" and Wa = dense_world
        and Cb = initialized_conv and Wb = ?Wc and xa = ?x1 and ab = 0 and xb = ?x1
        and pb = example_cudnn and eb = ?e and Cc = C2 and Wc = V2,
        THEN conjunct2, THEN conjunct2, THEN conjunct2, THEN conjunct2, THEN conjunct2,
        THEN conjunct1, THEN mp]
    C0 c2 h(1)
  have C2: "params C2 = params initialized_conv \<and> V2 = ?Wc" by simp
  obtain C3 V3 where c3: "Conv2D_forward example_cudnn ?e 1
      (initialized_conv\<lparr>freeze := True\<rparr>, dense_world) = Inr (C3, V3)"
    by (simp add: run_defs)
  from T [where p = example_cudnn and e = ?e and a = 1 and C = "initialized_conv\<lparr>freeze := True\<rparr>"
        and W = dense_world and C' = C3 and W' = V3 and x = ?x2,
        THEN conjunct2, THEN conjunct2, THEN conjunct2, THEN conjunct2, THEN conjunct2,
        THEN conjunct2, THEN conjunct1, THEN mp] c3 h(2)
  have C3: "params C3 = params initialized_conv"
    by (simp add: ac params_def)
  obtain C4 V4 where c4: "Conv2D_forward example_cudnn ?e 1 (initialized_conv, dense_world)
      = Inr (C4, V4)"
    by (simp add: run_defs)
  from T [where p = example_cudnn and e = ?e and a = 1 and C = initialized_conv
        and W = dense_world and C' = C4 and W' = V4 and x = ?x2,
        THEN conjunct2, THEN conjunct2, THEN conjunct2, THEN conjunct2, THEN conjunct2,
        THEN conjunct2, THEN conjunct2, THEN conjunct1, THEN mp] c4 h(2) c(3) d(2)
  have rc4: "batch_size C4 = dim_n ?x2 \<and>
      map_option Blob_shape (output_ptr C4) =
        Some (GetConvolution2dForwardOutputDim example_cudnn
                (conv_padding initialized_conv, conv_stride initialized_conv,
                 conv_dilation initialized_conv) (Blob_shape ?x2)
                (filter_desc (Conv2D_allocate ?e ?x2 initialized_conv))) \<and>
      (\<not> freeze initialized_conv \<and> \<not> load_pretrain initialized_conv \<and>
       (weights initialized_conv = None \<or> params_ok initialized_conv) \<longrightarrow>
         params C4 = fresh_parameters ?e ?x2 (params (Conv2D_allocate ?e ?x2 initialized_conv)) \<and>
         V4 = dense_world\<lparr>cout := cout dense_world @
                algorithm_report example_cudnn (name initialized_conv) @
                [''.. initialized '' @ name initialized_conv @ '' layer ..'']\<rparr>)"
    by simp
  then have "params C4 = fresh_parameters ?e ?x2 (params initialized_conv) \<and>
         V4 = dense_world\<lparr>cout := cout dense_world @
                algorithm_report example_cudnn (name initialized_conv) @
                [''.. initialized '' @ name initialized_conv @ '' layer ..'']\<rparr>"
    using c(4,5) okc ac(1) by simp
  then have "params C4 =
       (Some ((example_blob (1, 6, 1, 1) [- 1, - 1, - 1, - 1, - 1, - 1])
                \<lparr>h_ptr := [0, 0, 0, 0, 0, 0], d_ptr := [0, 0, 0, 0, 0, 0]\<rparr>),
        Some (zeroed (Blob_new 0 (1, 1, 1, 1))), Some (zeroed (Blob_new 0 (1, 6, 1, 1))),
        Some (zeroed (Blob_new 0 (1, 6, 1, 1))), Some (zeroed (Blob_new 0 (1, 1, 1, 1))),
        Some (zeroed (Blob_new 0 (1, 1, 1, 1))))"
      and "cout V4 = [''.. initialized conv layer ..'']"
    by (simp_all add: c(6,7) fresh_parameters_example example_blob_sel dense_world_def
        example_cudnn_def)
  then have "weights C4 = Some ((example_blob (1, 6, 1, 1) [- 1, - 1, - 1, - 1, - 1, - 1])
        \<lparr>h_ptr := [0, 0, 0, 0, 0, 0], d_ptr := [0, 0, 0, 0, 0, 0]\<rparr>)"
      "biases C4 = Some (zeroed (Blob_new 0 (1, 1, 1, 1)))"
      "cout V4 = [''.. initialized conv layer ..'']"
    by (simp_all add: params_def)
  with rc4 have C4: "batch_size C4 = 2 \<and> map_option Blob_shape (output_ptr C4) = Some (2, 1, 1, 1) \<and>
      map_option d_ptr (weights C4) = Some [0, 0, 0, 0, 0, 0] \<and>
      map_option d_ptr (biases C4) = Some [0] \<and>
      cout V4 = [''.. initialized conv layer ..'']"
    by (simp add: example_blob_sel ac(1) c(8) zeroed_def Blob_new_sel example_cudnn_def)

  txt \<open>The batch normalization layer.\<close>
  have b: "weights initialized_bn = Some (example_blob (1, 6, 1, 1) [- 1, - 1, - 1, - 1, - 1, - 1])"
    "input_ptr initialized_bn = Some 0" "batch_size initialized_bn = 1"
    "\<not> freeze initialized_bn" "\<not> load_pretrain initialized_bn"
    "params initialized_bn =
       (Some (example_blob (1, 6, 1, 1) [- 1, - 1, - 1, - 1, - 1, - 1]),
        Some (Blob_new 0 (1, 6, 1, 1)), Some (Blob_new 0 (1, 6, 1, 1)),
        Some (Blob_new 0 (1, 6, 1, 1)), Some (Blob_new 0 (1, 6, 1, 1)),
        Some (Blob_new 0 (1, 6, 1, 1)))"
    "name initialized_bn = ''bn''"
    by (simp_all add: initialized_bn_def FusedBatchNormalization_new_def params_def)
  have okb: "params_ok initialized_bn"
    by (simp add: params_ok_def b example_blob_sel Blob_new_sel)
  have ab: "FusedBatchNormalization_allocate ?e y initialized_bn = initialized_bn"
    "FusedBatchNormalization_allocate ?e y (initialized_bn\<lparr>freeze := True\<rparr>)
       = initialized_bn\<lparr>freeze := True\<rparr>"
    for y using b(1) by (simp_all add: FusedBatchNormalization_allocate_def)
  have B0: "FusedBatchNormalization_forward example_cudnn example_env 0
       (FusedBatchNormalization_new ''bn'' CUDNN_BATCHNORM_SPATIAL (1 / 1000), dense_world)
     = Inr (initialized_bn, ?Wb)"
    by (simp add: run_defs)
  obtain B2 U2 where b2: "FusedBatchNormalization_forward example_cudnn ?e 0 (initialized_bn, ?Wb)
      = Inr (B2, U2)"
    by (simp add: run_defs)
  from T [where pa = example_cudnn and ea = example_env and aa = 0
        and Ba = "FusedBatchNormalization_new ''bn'' CUDNN_BATCHNORM_SPATIAL (1 / 1000)"
        and Wa = dense_world
        and Bb = initialized_bn and Wb = ?Wb and xa = ?x1 and ab = 0 and xb = ?x1
        and pb = example_cudnn and eb = ?e and Bc = B2 and Wc = U2,
        THEN conjunct2, THEN conjunct2, THEN conjunct2, THEN conjunct2, THEN conjunct2,
        THEN conjunct2, THEN conjunct2, THEN conjunct2, THEN conjunct2, THEN conjunct1, THEN mp]
    B0 b2 h(1)
  have B2: "params B2 = params initialized_bn \<and> U2 = ?Wb" by simp
  obtain B3 U3 where b3: "FusedBatchNormalization_forward example_cudnn ?e 1
      (initialized_bn\<lparr>freeze := True\<rparr>, dense_world) = Inr (B3, U3)"
    by (simp add: run_defs)
  from T [where p = example_cudnn and e = ?e and a = 1 and B = "initialized_bn\<lparr>freeze := True\<rparr>"
        and W = dense_world and B' = B3 and W' = U3 and x = ?x2,
        THEN conjunct2, THEN conjunct2, THEN conjunct2, THEN conjunct2, THEN conjunct2,
        THEN conjunct2, THEN conjunct2, THEN conjunct2, THEN conjunct2, THEN conjunct2,
        THEN conjunct1, THEN mp] b3 h(2)
  have B3: "params B3 = params initialized_bn \<and> U3 = dense_world"
    by (simp add: ab params_def)
  obtain B4 U4 where b4: "FusedBatchNormalization_forward example_cudnn ?e 1
      (initialized_bn, dense_world) = Inr (B4, U4)"
    by (simp add: run_defs)
  from T [where p = example_cudnn and e = ?e and a = 1 and B = initialized_bn
        and W = dense_world and B' = B4 and W' = U4 and x = ?x2,
        THEN conjunct2, THEN conjunct2, THEN conjunct2, THEN conjunct2, THEN conjunct2,
        THEN conjunct2, THEN conjunct2, THEN conjunct2, THEN conjunct2, THEN conjunct2,
        THEN conjunct2, THEN mp] b4 h(2) b(3) d(2)
  have rb4: "batch_size B4 = dim_n ?x2 \<and>
      map_option Blob_shape (output_ptr B4) = Some (Blob_shape ?x2) \<and>
      (\<not> freeze initialized_bn \<and> \<not> load_pretrain initialized_bn \<and>
       (weights initialized_bn = None \<or> params_ok initialized_bn) \<longrightarrow>
         params B4 = fresh_parameters ?e ?x2
                       (params (FusedBatchNormalization_allocate ?e ?x2 initialized_bn)) \<and>
         U4 = dense_world\<lparr>cout := cout dense_world @
                [''.. initialized '' @ name initialized_bn @ '' layer ..'']\<rparr>)"
    by simp
  then have "params B4 = fresh_parameters ?e ?x2 (params initialized_bn) \<and>
         U4 = dense_world\<lparr>cout := cout dense_world @
                [''.. initialized '' @ name initialized_bn @ '' layer ..'']\<rparr>"
    using b(4,5) okb ab(1) by simp
  then have "params B4 =
       (Some ((example_blob (1, 6, 1, 1) [- 1, - 1, - 1, - 1, - 1, - 1])
                \<lparr>h_ptr := [0, 0, 0, 0, 0, 0], d_ptr := [0, 0, 0, 0, 0, 0]\<rparr>),
        Some (zeroed (Blob_new 0 (1, 6, 1, 1))), Some (zeroed (Blob_new 0 (1, 6, 1, 1))),
        Some (zeroed (Blob_new 0 (1, 6, 1, 1))), Some (zeroed (Blob_new 0 (1, 6, 1, 1))),
        Some (zeroed (Blob_new 0 (1, 6, 1, 1))))"
      and "cout U4 = [''.. initialized bn layer ..'']"
    by (simp_all add: b(6,7) fresh_parameters_example example_blob_sel dense_world_def)
  then have "weights B4 = Some ((example_blob (1, 6, 1, 1) [- 1, - 1, - 1, - 1, - 1, - 1])
        \<lparr>h_ptr := [0, 0, 0, 0, 0, 0], d_ptr := [0, 0, 0, 0, 0, 0]\<rparr>)"
      "biases B4 = Some (zeroed (Blob_new 0 (1, 6, 1, 1)))"
      "cout U4 = [''.. initialized bn layer ..'']"
    by (simp_all add: params_def)
  with rb4 have B4: "batch_size B4 = 2 \<and> map_option Blob_shape (output_ptr B4) = Some (2, 6, 1, 1) \<and>
      map_option d_ptr (weights B4) = Some [0, 0, 0, 0, 0, 0] \<and>
      map_option d_ptr (biases B4) = Some [0, 0, 0, 0, 0, 0] \<and>
      cout U4 = [''.. initialized bn layer ..'']"
    by (simp add: example_blob_sel zeroed_def Blob_new_sel replicate_6)
  show ?thesis
    using L1 L0 2 L2 3 L3 4 L4 5 L5 C0 c2 C2 c3 C3 c4 C4 B0 b2 B2 b3 B3 b4 B4
    by (intro conjI exI) (assumption | simp)+
qed


section \<open>The freeze flag\<close>

text \<open>
  C5, as stated, fails: the plain update of the frozen layer \<open>trained_layer\<close> with the
  learning rate 1 takes the weight and the bias from 1 to 0.
\<close>

theorem update_changes_frozen_layer:
  "freeze (trained_layer\<lparr>freeze := True\<rparr>) \<and>
   update_weights_biases 1 (trained_layer\<lparr>freeze := True\<rparr>) =
     Inr (trained_layer
            \<lparr>freeze := True,
             weights := Some ((example_blob (1, 1, 1, 1) [1])\<lparr>d_ptr := [0]\<rparr>),
             biases := Some ((example_blob (1, 1, 1, 1) [1])\<lparr>d_ptr := [0]\<rparr>)\<rparr>)"
  by (simp add: update_weights_biases_def trained_layer_def Linear_new_def example_blob_def
      bind_err_def cublasSaxpy_def Blob_len_def Let_def)

lemma update_ignores_freeze:
  "update_weights_biases lr (M\<lparr>freeze := b\<rparr>) =
     map_sum id (\<lambda>M'. M'\<lparr>freeze := b\<rparr>) (update_weights_biases lr M)"
  by (auto simp: update_weights_biases_def bind_err_def Let_def
      split: option.splits sum.splits)

lemma adam_block_ignores_freeze:
  "bind_err (deref w) (\<lambda>wt.
   bind_err (deref m) (\<lambda>wm.
   bind_err (deref v) (\<lambda>wv.
   bind_err (deref g) (\<lambda>gw.
   bind_err (adam_launch e lr beta1 beta2 eps_hat step wt wm wv gw)
     (\<lambda>(wt', wm', wv'). Inr (F wt' wm' wv' (M\<lparr>freeze := b\<rparr>)))))))
   = map_sum id (\<lambda>M'. M'\<lparr>freeze := b\<rparr>)
      (bind_err (deref w) (\<lambda>wt.
       bind_err (deref m) (\<lambda>wm.
       bind_err (deref v) (\<lambda>wv.
       bind_err (deref g) (\<lambda>gw.
       bind_err (adam_launch e lr beta1 beta2 eps_hat step wt wm wv gw)
         (\<lambda>(wt', wm', wv'). Inr (G wt' wm' wv' M)))))))"
  if "\<And>x y z. F x y z (M\<lparr>freeze := b\<rparr>) = (G x y z M)\<lparr>freeze := b\<rparr>"
proof (cases w)
  case None
  then show ?thesis by (simp add: bind_err_def deref_def)
next
  case w: (Some wt)
  show ?thesis
  proof (cases m)
    case None
    then show ?thesis using w by (simp add: bind_err_def deref_def)
  next
    case m: (Some wm)
    show ?thesis
    proof (cases v)
      case None
      then show ?thesis using w m by (simp add: bind_err_def deref_def)
    next
      case v: (Some wv)
      show ?thesis
      proof (cases g)
        case None
        then show ?thesis using w m v by (simp add: bind_err_def deref_def)
      next
        case g: (Some gw)
        show ?thesis
        proof (cases "adam_launch e lr beta1 beta2 eps_hat step wt wm wv gw")
          case (Inl err)
          then show ?thesis using w m v g by (simp add: bind_err_def deref_def)
        next
          case (Inr r)
          obtain x y z where "r = (x, y, z)" by (cases r) auto
          then show ?thesis using Inr w m v g that by (simp add: bind_err_def deref_def)
        qed
      qed
    qed
  qed
qed


lemma bind_err_simps:
  "bind_err (Inr x) k = k x"
  "bind_err (Inl err) k = Inl err"
  "bind_err (map_sum id f r) k = bind_err r (\<lambda>x. k (f x))"
  "map_sum id f (bind_err r k) = bind_err r (\<lambda>x. map_sum id f (k x))"
  by (cases r; simp add: bind_err_def)+

lemma adam_ignores_freeze:
  "update_weights_biases_with_adam e lr beta1 beta2 eps_hat step (M\<lparr>freeze := b\<rparr>) =
     map_sum id (\<lambda>M'. M'\<lparr>freeze := b\<rparr>)
       (update_weights_biases_with_adam e lr beta1 beta2 eps_hat step M)"
proof -
  note W = adam_block_ignores_freeze [where
      F = "\<lambda>x y z L. L\<lparr>weights := Some x, weights_m := Some y, weights_v := Some z\<rparr>" and
      G = "\<lambda>x y z L. L\<lparr>weights := Some x, weights_m := Some y, weights_v := Some z\<rparr>",
      simplified]
  note B = adam_block_ignores_freeze [where
      F = "\<lambda>x y z L. L\<lparr>biases := Some x, biases_m := Some y, biases_v := Some z\<rparr>" and
      G = "\<lambda>x y z L. L\<lparr>biases := Some x, biases_m := Some y, biases_v := Some z\<rparr>",
      simplified]
  show ?thesis
    unfolding update_weights_biases_with_adam_def
    by (simp add: W B bind_err_simps if_distrib [of "map_sum id (\<lambda>M'. M'\<lparr>freeze := b\<rparr>)"]
        cong: if_cong)
qed

lemma rmsprop_launch_ignores_freeze:
  "rmsprop_launch e lr decay eps_hat (M\<lparr>freeze := b\<rparr>) =
     map_sum id (\<lambda>M'. M'\<lparr>freeze := b\<rparr>) (rmsprop_launch e lr decay eps_hat M)"
  by (auto simp: rmsprop_launch_def bind_err_def deref_def
      split: option.splits sum.splits prod.splits)

lemma rmsprop_ignores_freeze:
  "update_weights_biases_with_rmsprop e lr decay eps_hat (M\<lparr>freeze := b\<rparr>) =
     map_sum id (\<lambda>M'. M'\<lparr>freeze := b\<rparr>)
       (update_weights_biases_with_rmsprop e lr decay eps_hat M)"
proof -
  have frame: "rmsprop_launch e lr decay eps_hat K = Inr K' \<Longrightarrow>
      biases K' = biases K \<and> grad_biases K' = grad_biases K" for K K' :: "'a Layer_scheme"
    using rmsprop_launch_biases [of e lr decay eps_hat K K'] by simp
  show ?thesis
    unfolding update_weights_biases_with_rmsprop_def
    by (cases "rmsprop_launch e lr decay eps_hat M")
       (auto simp: bind_err_def rmsprop_launch_ignores_freeze dest: frame
        split: sum.splits)
qed

text \<open>
  C5, amended. The lazy binding does nothing to the parameters of a frozen layer, and a
  forward call on a frozen dense or convolution layer whose parameters are allocated
  leaves the weights and the biases as they were. The three update functions do not read the
  flag: on a layer with the flag set to \<open>b\<close> they do what they do on the layer itself.
\<close>

theorem freeze_guards_materialization:
  "(freeze L \<longrightarrow> materialize_parameters e (L, W) = Inr (L, W)) \<and>
   (freeze K \<and> weights K \<noteq> None \<and> Linear_forward e a (K, V) = Inr (K', V')
      \<longrightarrow> weights K' = weights K \<and> biases K' = biases K \<and> V' = V) \<and>
   (freeze C \<and> weights C \<noteq> None \<and> Conv2D_forward p e a (C, V) = Inr (C', V'')
      \<longrightarrow> weights C' = weights C \<and> biases C' = biases C) \<and>
   update_weights_biases lr (M\<lparr>freeze := b\<rparr>) =
     map_sum id (\<lambda>M'. M'\<lparr>freeze := b\<rparr>) (update_weights_biases lr M) \<and>
   update_weights_biases_with_adam e lr beta1 beta2 eps_hat step (M\<lparr>freeze := b\<rparr>) =
     map_sum id (\<lambda>M'. M'\<lparr>freeze := b\<rparr>)
       (update_weights_biases_with_adam e lr beta1 beta2 eps_hat step M) \<and>
   update_weights_biases_with_rmsprop e lr decay eps_hat (M\<lparr>freeze := b\<rparr>) =
     map_sum id (\<lambda>M'. M'\<lparr>freeze := b\<rparr>)
       (update_weights_biases_with_rmsprop e lr decay eps_hat M)"
proof -
  have 1: "freeze L \<longrightarrow> materialize_parameters e (L, W) = Inr (L, W)"
    by (simp add: materialize_parameters_frozen)
  have 2: "freeze K \<and> weights K \<noteq> None \<and> Linear_forward e a (K, V) = Inr (K', V')
      \<longrightarrow> weights K' = weights K \<and> biases K' = biases K \<and> V' = V"
    using Linear_forward_frozen [of e a K V K' V'] by (simp add: params_def)
  have 3: "freeze C \<and> weights C \<noteq> None \<and> Conv2D_forward p e a (C, V) = Inr (C', V'')
      \<longrightarrow> weights C' = weights C \<and> biases C' = biases C"
    using Conv2D_forward_frozen [of p e a C V C' V''] by (simp add: params_def)
  show ?thesis
    by (intro conjI 1 2 3 update_ignores_freeze adam_ignores_freeze rmsprop_ignores_freeze)
qed

text \<open>The first two parts of the theorem on frozen concrete layers.\<close>

theorem freeze_guards_materialization_witness:
  "materialize_parameters (example_env\<lparr>random_device := 2\<rparr>)
       (trained_layer\<lparr>freeze := True\<rparr>, dense_world)
     = Inr (trained_layer\<lparr>freeze := True\<rparr>, dense_world) \<and>
   (\<exists>K' V'. Linear_forward (example_env\<lparr>random_device := 2\<rparr>) 1
               (initialized_layer\<lparr>freeze := True\<rparr>, initialized_world) = Inr (K', V') \<and>
            weights K' = weights initialized_layer \<and> biases K' = biases initialized_layer \<and>
            V' = initialized_world)"
proof -
  obtain K' V' where 3: "Linear_forward (example_env\<lparr>random_device := 2\<rparr>) 1
      (initialized_layer\<lparr>freeze := True\<rparr>, initialized_world) = Inr (K', V')"
    by (simp add: forward_run_defs)
  note T = freeze_guards_materialization [where L = "trained_layer\<lparr>freeze := True\<rparr>"
      and e = "example_env\<lparr>random_device := 2\<rparr>" and W = dense_world
      and K = "initialized_layer\<lparr>freeze := True\<rparr>" and a = 1 and V = initialized_world
      and K' = K' and V' = V']
  have "freeze (trained_layer\<lparr>freeze := True\<rparr>)" "freeze (initialized_layer\<lparr>freeze := True\<rparr>)"
    "weights (initialized_layer\<lparr>freeze := True\<rparr>) \<noteq> None"
    by (simp_all add: initialized_layer_def)
  then show ?thesis using T [THEN conjunct1] T [THEN conjunct2, THEN conjunct1] 3 by simp
qed

section \<open>Failures of loading and saving\<close>

lemma load_parameter_status:
  assumes "weights M = Some wt" and "biases M = Some bs"
  shows "\<exists>st M' U'. load_parameter (M, U) = Inr (st, M', U') \<and>
           (st = 0 \<or> st = - 1 \<or> st = - 2) \<and>
           (st \<noteq> 0 \<longleftrightarrow> fst (file_read U (name M @ ''.bin'') wt) \<noteq> 0 \<or>
                        fst (file_read U (name M @ ''.bias.bin'') bs) \<noteq> 0)"
  using assms
  by (cases "file_read U (name M @ ''.bin'') wt"; cases "file_read U (name M @ ''.bias.bin'') bs")
     (simp add: load_parameter_def bind_err_def deref_def Let_def)

lemma save_parameter_status:
  "\<exists>st N' U'. save_parameter (N, U) = Inr (st, N', U') \<and>
      (st = 0 \<or> st = - 1 \<or> st = - 2) \<and>
      (st \<noteq> 0 \<longleftrightarrow> (weights N \<noteq> None \<and> read_only U (name N @ ''.bin'')) \<or>
                   (biases N \<noteq> None \<and> read_only U (name N @ ''.bias.bin'')))"
  by (cases "weights N"; cases "biases N")
     (simp_all add: save_parameter_def file_write_def Let_def)

lemma load_parameter_missing:
  assumes "weights L \<noteq> None" and "biases L \<noteq> None"
    and "files W (name L @ ''.bin'') = None \<or> files W (name L @ ''.bias.bin'') = None"
  shows "\<exists>st L' W'. load_parameter (L, W) = Inr (st, L', W') \<and> st \<noteq> 0"
proof -
  obtain wt bs where p: "weights L = Some wt" "biases L = Some bs" using assms(1,2) by auto
  have "fst (file_read W (name L @ ''.bin'') wt) \<noteq> 0 \<or>
        fst (file_read W (name L @ ''.bias.bin'') bs) \<noteq> 0"
    using assms(3) by (auto simp: file_read_def)
  with load_parameter_status [OF p, of W] show ?thesis by blast
qed

lemma materialize_parameters_exit:
  assumes "load_pretrain L" and "\<not> freeze L"
    and "load_parameter (L, W) = Inr (st, L', W')" and "st \<noteq> 0"
  shows "materialize_parameters e (L, W) = Inl (Exit (- 1))"
  using assms by (simp add: materialize_parameters_def bind_err_def)

lemma Linear_forward_exit:
  assumes "load_pretrain K" and "\<not> freeze K" and "heap V a = Some x"
    and "input_ptr K = None \<or> batch_size K \<noteq> dim_n x"
    and "weights K = None \<or> biases K \<noteq> None"
    and "files V (name K @ ''.bin'') = None \<or> files V (name K @ ''.bias.bin'') = None"
  shows "Linear_forward e a (K, V) = Inl (Exit (- 1))"
proof -
  let ?A = "Linear_allocate e x K"
  note A = Linear_allocate_frame [of e x K]
  define out where "out = (case output_ptr ?A of
        None \<Rightarrow> Blob_new (uninit e) (dim_n x, output_size ?A, 1, 1)
      | Some out \<Rightarrow> Blob_reset (uninit e) (dim_n x, output_size ?A, 1, 1) out)"
  obtain ones where ones: "device_launch ((dim_n x + BLOCK_DIM_1D e - 1) div BLOCK_DIM_1D e)
      (BLOCK_DIM_1D e) (init_one_vec (dim_n x)) True (replicate (dim_n x) (uninit e)) = Inr ones"
    using init_one_vec_launch by blast
  let ?B = "?A\<lparr>input_ptr := Some a, batch_size := dim_n x, output_ptr := Some out,
          d_one_vec := Some ones\<rparr>"
  have b: "biases ?A \<noteq> None" using assms(5) by (auto simp: Linear_allocate_def Let_def)
  have "weights ?B \<noteq> None" "biases ?B \<noteq> None" "name ?B = name K"
    "load_pretrain ?B" "\<not> freeze ?B"
    using A b assms(1,2) by simp_all
  then have m: "materialize_parameters e (?B, V) = Inl (Exit (- 1))"
    using load_parameter_missing [of ?B V] assms(6) materialize_parameters_exit [of ?B V _ _ _ e]
    by auto
  have "Linear_bind e a x (?A, V) = Inl (Exit (- 1))"
    using assms(4) A ones m by (auto simp: Linear_bind_def bind_err_def Let_def out_def)
  then show ?thesis using assms(3) by (simp add: Linear_forward_def bind_err_def deref_def)
qed

lemma Conv2D_forward_exit:
  assumes "load_pretrain K" and "\<not> freeze K" and "heap V a = Some x"
    and "input_ptr K = None \<or> batch_size K \<noteq> dim_n x"
    and "weights K = None \<or> biases K \<noteq> None"
    and "files V (name K @ ''.bin'') = None \<or> files V (name K @ ''.bias.bin'') = None"
  shows "Conv2D_forward p e a (K, V) = Inl (Exit (- 1))"
proof -
  let ?A = "Conv2D_allocate e x K"
  note A = Conv2D_allocate_frame [of e x K]
  have b: "biases ?A \<noteq> None" using assms(5) by (auto simp: Conv2D_allocate_def Let_def)
  have "input_ptr ?A = None \<or> batch_size ?A \<noteq> dim_n x" using assms(4) A by simp
  then obtain L2 where m: "Conv2D_bind p e a x (?A, V) =
      materialize_parameters e (L2, V\<lparr>cout := cout V @ algorithm_report p (name ?A)\<rparr>)"
    and f: "params L2 = params ?A" "freeze L2 = freeze ?A"
      "load_pretrain L2 = load_pretrain ?A" "name L2 = name ?A"
    by (rule Conv2D_bind_rebinds)
  let ?V = "V\<lparr>cout := cout V @ algorithm_report p (name ?A)\<rparr>"
  have "weights L2 \<noteq> None" "biases L2 \<noteq> None" "name L2 = name K"
    "load_pretrain L2" "\<not> freeze L2"
    using A b f assms(1,2) by (simp_all add: params_def)
  moreover have "files ?V (name K @ ''.bin'') = None \<or> files ?V (name K @ ''.bias.bin'') = None"
    using assms(6) by simp
  ultimately have "materialize_parameters e (L2, ?V) = Inl (Exit (- 1))"
    using load_parameter_missing [of L2 ?V] materialize_parameters_exit [of L2 ?V _ _ _ e]
    by auto
  then show ?thesis using m assms(3) by (simp add: Conv2D_forward_def bind_err_def deref_def)
qed

text \<open>
  C8. When the lazy binding loads pretrained parameters (the layer is set to load them
  and is not frozen) and \<^verbatim>\<open>load_parameter\<close> yields a nonzero status, the run ends with
  \<^verbatim>\<open>exit(-1)\<close>; so do \<^verbatim>\<open>Linear::forward\<close> and \<^verbatim>\<open>Conv2D::forward\<close> on such a layer, when
  they bind, if a parameter file is missing. A call of \<^verbatim>\<open>load_parameter\<close> on allocated parameters and any call of
  \<^verbatim>\<open>save_parameter\<close> return to the caller, with the status 0, -1 or -2, and the status
  is nonzero exactly if reading or writing a file failed.
\<close>

theorem persistence_failures:
  "(load_pretrain L \<and> \<not> freeze L \<and> load_parameter (L, W) = Inr (st, L', W') \<and> st \<noteq> 0
      \<longrightarrow> materialize_parameters e (L, W) = Inl (Exit (- 1))) \<and>
   (load_pretrain K \<and> \<not> freeze K \<and> heap V a = Some x \<and>
    (input_ptr K = None \<or> batch_size K \<noteq> dim_n x) \<and> (weights K = None \<or> biases K \<noteq> None) \<and>
    (files V (name K @ ''.bin'') = None \<or> files V (name K @ ''.bias.bin'') = None)
      \<longrightarrow> Linear_forward e a (K, V) = Inl (Exit (- 1))) \<and>
   (load_pretrain C \<and> \<not> freeze C \<and> heap V a = Some x \<and>
    (input_ptr C = None \<or> batch_size C \<noteq> dim_n x) \<and> (weights C = None \<or> biases C \<noteq> None) \<and>
    (files V (name C @ ''.bin'') = None \<or> files V (name C @ ''.bias.bin'') = None)
      \<longrightarrow> Conv2D_forward p e a (C, V) = Inl (Exit (- 1))) \<and>
   (weights M = Some wt \<and> biases M = Some bs
      \<longrightarrow> (\<exists>s M' U'. load_parameter (M, U) = Inr (s, M', U') \<and>
            (s = 0 \<or> s = - 1 \<or> s = - 2) \<and>
            (s \<noteq> 0 \<longleftrightarrow> fst (file_read U (name M @ ''.bin'') wt) \<noteq> 0 \<or>
                        fst (file_read U (name M @ ''.bias.bin'') bs) \<noteq> 0))) \<and>
   (\<exists>s N' U'. save_parameter (N, U) = Inr (s, N', U') \<and>
      (s = 0 \<or> s = - 1 \<or> s = - 2) \<and>
      (s \<noteq> 0 \<longleftrightarrow> (weights N \<noteq> None \<and> read_only U (name N @ ''.bin'')) \<or>
                  (biases N \<noteq> None \<and> read_only U (name N @ ''.bias.bin''))))"
proof -
  have 1: "load_pretrain L \<and> \<not> freeze L \<and> load_parameter (L, W) = Inr (st, L', W') \<and> st \<noteq> 0
      \<longrightarrow> materialize_parameters e (L, W) = Inl (Exit (- 1))"
    using materialize_parameters_exit [of L W st L' W' e] by simp
  have 2: "load_pretrain K \<and> \<not> freeze K \<and> heap V a = Some x \<and>
    (input_ptr K = None \<or> batch_size K \<noteq> dim_n x) \<and> (weights K = None \<or> biases K \<noteq> None) \<and>
    (files V (name K @ ''.bin'') = None \<or> files V (name K @ ''.bias.bin'') = None)
      \<longrightarrow> Linear_forward e a (K, V) = Inl (Exit (- 1))"
    using Linear_forward_exit [of K V a x e] by simp
  have 3: "load_pretrain C \<and> \<not> freeze C \<and> heap V a = Some x \<and>
    (input_ptr C = None \<or> batch_size C \<noteq> dim_n x) \<and> (weights C = None \<or> biases C \<noteq> None) \<and>
    (files V (name C @ ''.bin'') = None \<or> files V (name C @ ''.bias.bin'') = None)
      \<longrightarrow> Conv2D_forward p e a (C, V) = Inl (Exit (- 1))"
    using Conv2D_forward_exit [of C V a x p e] by simp
  have 4: "weights M = Some wt \<and> biases M = Some bs
      \<longrightarrow> (\<exists>s M' U'. load_parameter (M, U) = Inr (s, M', U') \<and>
            (s = 0 \<or> s = - 1 \<or> s = - 2) \<and>
            (s \<noteq> 0 \<longleftrightarrow> fst (file_read U (name M @ ''.bin'') wt) \<noteq> 0 \<or>
                        fst (file_read U (name M @ ''.bias.bin'') bs) \<noteq> 0))"
    using load_parameter_status [of M wt bs U] by (intro impI) (elim conjE)
  note 5 = save_parameter_status [of N U]
  show ?thesis by (intro conjI 1 2 3 4 5)
qed

text \<open>
  The theorem on a new layer set to load pretrained parameters in a world without files,
  on a load without files, and on a save where no file can be written.
\<close>

theorem persistence_failures_witness:
  "Linear_forward example_env 0 ((Linear_new ''fc'' 1)\<lparr>load_pretrain := True\<rparr>, dense_world)
     = Inl (Exit (- 1)) \<and>
   (\<exists>s M' U'. load_parameter (initialized_layer, initialized_world) = Inr (s, M', U') \<and> s \<noteq> 0) \<and>
   (\<exists>s N' U'. save_parameter (initialized_layer, initialized_world\<lparr>read_only := \<lambda>p. True\<rparr>)
                = Inr (s, N', U') \<and> s \<noteq> 0)"
proof -
  note T = persistence_failures [where K = "(Linear_new ''fc'' 1)\<lparr>load_pretrain := True\<rparr>"
      and V = dense_world and a = 0 and x = "example_blob (1, 6, 1, 1) [1, 2, 3, 4, 5, 6]"
      and e = example_env and M = initialized_layer
      and wt = "example_blob (1, 1, 6, 1) [- 1, - 1, - 1, - 1, - 1, - 1]"
      and bs = "Blob_new 0 (1, 1, 1, 1)" and U = initialized_world]
  have 1: "Linear_forward example_env 0 ((Linear_new ''fc'' 1)\<lparr>load_pretrain := True\<rparr>, dense_world)
     = Inl (Exit (- 1))"
    using T [THEN conjunct2, THEN conjunct1]
    by (simp add: Linear_new_def dense_world_def)
  have 2: "\<exists>s M' U'. load_parameter (initialized_layer, initialized_world) = Inr (s, M', U') \<and> s \<noteq> 0"
    using T [THEN conjunct2, THEN conjunct2, THEN conjunct2, THEN conjunct1]
    by (auto simp: initialized_layer_def bound_layer_def initialized_world_def dense_world_def
        file_read_def Linear_new_def)
  have 3: "\<exists>s N' U'. save_parameter (initialized_layer, initialized_world\<lparr>read_only := \<lambda>p. True\<rparr>)
                = Inr (s, N', U') \<and> s \<noteq> 0"
    using persistence_failures [where N = initialized_layer
        and U = "initialized_world\<lparr>read_only := \<lambda>p. True\<rparr>", THEN conjunct2, THEN conjunct2,
        THEN conjunct2, THEN conjunct2]
    by (auto simp: initialized_layer_def bound_layer_def)
  show ?thesis using 1 2 3 by simp
qed

end
